theory Spec2Isabelle
  imports Complex_Main "HOL-Library.Multiset" "HOL-Library.AList"
begin

section \<open>Python values, errors and the libraries the scripts call\<close>

text \<open>
  The repository holds three Python scripts that drive a Tableau server through the
  vendor SDK: the export pipeline (exportAs), the permission replication and the
  deactivation of inactive viewers (text.py). They are modelled as functions over an
  explicit state; an exception is the \<open>Inl\<close> of a sum, carrying the Python exception.
  Python integers are \<open>int\<close>, Python floats are exact rationals (\<open>rat\<close>): the
  theorems about scaled sizes are statements of the exact arithmetic.
\<close>

datatype py_error =
    FileExistsError string
  | FileNotFoundError string
  | NotADirectoryError string
  | OSError string
  | KeyError string
  | TypeError
  | ZeroDivisionError
  | JSONDecodeError
  | PermissionError string
  | UnidentifiedImageError string
  | ServerError string

subsection \<open>Decimal rendering of integers in f-strings\<close>

definition digit_char :: "nat \<Rightarrow> char" where
  "digit_char d = ''0123456789'' ! d"

fun str_nat :: "nat \<Rightarrow> string" where
  "str_nat n = (if n < 10 then [digit_char n] else str_nat (n div 10) @ [digit_char (n mod 10)])"

declare str_nat.simps [simp del]

definition str_int :: "int \<Rightarrow> string" where
  "str_int i = (if i < 0 then CHR ''-'' # str_nat (nat (- i)) else str_nat (nat i))"

subsection \<open>The value of json.load\<close>

text \<open>
  What \<open>json.load\<close> returns: \<open>None\<close>, a bool, an int, a str, a list or a dict. A dict
  is its list of items, the keys distinct as in a Python dict. JSON numbers with a
  fraction (Python floats) are not part of the model.
\<close>

datatype json =
    JNull
  | JBool bool
  | JNum int
  | JStr string
  | JArr "json list"
  | JObj "(string \<times> json) list"

text \<open>\<open>sep.join(strings)\<close>.\<close>

fun str_join :: "string \<Rightarrow> string list \<Rightarrow> string" where
  "str_join sep [] = []"
| "str_join sep [s] = s"
| "str_join sep (s # t # ss) = s @ sep @ str_join sep (t # ss)"

text \<open>\<open>obj[key]\<close> for a string key: a dict looks the key up, every other value raises.\<close>

fun subscript :: "json \<Rightarrow> string \<Rightarrow> py_error + json" where
  "subscript (JObj kvs) k = (case map_of kvs k of None \<Rightarrow> Inl (KeyError k) | Some v \<Rightarrow> Inr v)"
| "subscript _ k = Inl TypeError"

text \<open>Truth value of a value in \<open>if filters:\<close>.\<close>

fun truthy :: "json \<Rightarrow> bool" where
  "truthy JNull = False"
| "truthy (JBool b) = b"
| "truthy (JNum n) = (n \<noteq> 0)"
| "truthy (JStr s) = (s \<noteq> [])"
| "truthy (JArr xs) = (xs \<noteq> [])"
| "truthy (JObj kvs) = (kvs \<noteq> [])"

text \<open>\<open>for x in value\<close>: the elements of a list, the characters of a str, the keys of a
  dict; the other values are not iterable.\<close>

fun py_iter :: "json \<Rightarrow> py_error + json list" where
  "py_iter (JArr xs) = Inr xs"
| "py_iter (JStr s) = Inr (map (\<lambda>c. JStr [c]) s)"
| "py_iter (JObj kvs) = Inr (map (\<lambda>kv. JStr (fst kv)) kvs)"
| "py_iter _ = Inl TypeError"

fun starts_with :: "string \<Rightarrow> string \<Rightarrow> bool" where
  "starts_with s [] = True"
| "starts_with [] (p # ps) = False"
| "starts_with (c # s) (p # ps) = (c = p \<and> starts_with s ps)"

fun substring_of :: "string \<Rightarrow> string \<Rightarrow> bool" where
  "substring_of p [] = (p = [])"
| "substring_of p (c # s) = (starts_with (c # s) p \<or> substring_of p s)"

text \<open>\<open>name in value\<close> for a str \<open>name\<close>: membership in a list, substring of a str,
  key of a dict.\<close>

fun py_in :: "string \<Rightarrow> json \<Rightarrow> py_error + bool" where
  "py_in s (JArr xs) = Inr (JStr s \<in> set xs)"
| "py_in s (JStr t) = Inr (substring_of s t)"
| "py_in s (JObj kvs) = Inr (s \<in> fst ` set kvs)"
| "py_in s _ = Inl TypeError"

text \<open>\<open>','.join(value)\<close>: every element must be a str.\<close>


fun the_strs :: "json list \<Rightarrow> py_error + string list" where
  "the_strs [] = Inr []"
| "the_strs (JStr s # js) = (case the_strs js of Inl e \<Rightarrow> Inl e | Inr ss \<Rightarrow> Inr (s # ss))"
| "the_strs (_ # js) = Inl TypeError"

definition py_join :: "json \<Rightarrow> py_error + string" where
  "py_join v = (case py_iter v of Inl e \<Rightarrow> Inl e
     | Inr js \<Rightarrow> (case the_strs js of Inl e \<Rightarrow> Inl e | Inr ss \<Rightarrow> Inr (str_join '','' ss)))"

subsection \<open>Paths and files\<close>

text \<open>\<open>os.path.join\<close> of two components (POSIX).\<close>

definition path_join :: "string \<Rightarrow> string \<Rightarrow> string" where
  "path_join a b =
     (if starts_with b ''/'' then b
      else if a = [] \<or> last a = CHR ''/'' then a @ b
      else a @ ''/'' @ b)"

text \<open>\<open>os.path.split\<close>: the directory and the last component of a path.\<close>

definition base_name :: "string \<Rightarrow> string" where
  "base_name p = rev (takeWhile (\<lambda>c. c \<noteq> CHR ''/'') (rev p))"

definition dir_name :: "string \<Rightarrow> string" where
  "dir_name p =
     (let h = rev (dropWhile (\<lambda>c. c \<noteq> CHR ''/'') (rev p));
          h' = rev (dropWhile (\<lambda>c. c = CHR ''/'') (rev h))
      in if h' = [] then h else h')"

text \<open>
  What a file holds: a PNG image is its size in pixels (the only thing the scripts read
  from it), a document is its pages, everything else is opaque bytes. A title page is
  its title and the lines under it (the export time, which the scripts read from the
  clock, is left out); an image page is the image's path with its left and top offsets
  and its width and height on the page.
\<close>

datatype page =
    TitlePage string "string list"
  | ImagePage string rat rat rat rat

datatype blob =
    Png int int
  | Bytes
  | Document "page list"

text \<open>
  The file system: \<open>dirs fs d = Some names\<close> when \<open>d\<close> is an existing directory holding
  the regular files \<open>names\<close> (in creation order); \<open>data fs p\<close> is the content of the
  regular file at path \<open>p\<close>. A sub-directory is a key of \<open>dirs\<close> of its own and is not
  listed in its parent: the scripts never list or remove a directory that has one.
\<close>

record filesys =
  dirs :: "string \<rightharpoonup> string list"
  data :: "string \<rightharpoonup> blob"

text \<open>\<open>os.makedirs(d, exist_ok=True)\<close>.\<close>

definition makedirs :: "string \<Rightarrow> filesys \<Rightarrow> py_error + filesys" where
  "makedirs d fs =
     (if data fs d \<noteq> None then Inl (FileExistsError d)
      else if dirs fs d \<noteq> None then Inr fs
      else Inr (fs\<lparr>dirs := (dirs fs)(d \<mapsto> [])\<rparr>))"

text \<open>\<open>with open(p, "wb") as f: f.write(b)\<close>: the directory of \<open>p\<close> must exist.\<close>

definition write_file :: "string \<Rightarrow> blob \<Rightarrow> filesys \<Rightarrow> py_error + filesys" where
  "write_file p b fs =
     (if dirs fs p \<noteq> None then Inl (OSError p)
      else case dirs fs (dir_name p) of
        None \<Rightarrow> Inl (FileNotFoundError p)
      | Some names \<Rightarrow>
          Inr (fs\<lparr>dirs := (dirs fs)(dir_name p \<mapsto>
                       (if base_name p \<in> set names then names else names @ [base_name p])),
                   data := (data fs)(p \<mapsto> b)\<rparr>))"

text \<open>\<open>os.listdir(d)\<close>, \<open>os.remove(p)\<close>, \<open>os.rmdir(d)\<close>.\<close>

definition listdir :: "string \<Rightarrow> filesys \<Rightarrow> py_error + string list" where
  "listdir d fs = (case dirs fs d of None \<Rightarrow> Inl (FileNotFoundError d) | Some names \<Rightarrow> Inr names)"

definition remove_file :: "string \<Rightarrow> filesys \<Rightarrow> py_error + filesys" where
  "remove_file p fs =
     (if dirs fs p \<noteq> None then Inl (PermissionError p)
      else if data fs p = None then Inl (FileNotFoundError p)
      else Inr (fs\<lparr>dirs := (case dirs fs (dir_name p) of
                                None \<Rightarrow> dirs fs
                              | Some names \<Rightarrow> (dirs fs)(dir_name p \<mapsto> removeAll (base_name p) names)),
                   data := (data fs)(p := None)\<rparr>))"

definition rmdir :: "string \<Rightarrow> filesys \<Rightarrow> py_error + filesys" where
  "rmdir d fs =
     (case dirs fs d of
        None \<Rightarrow> Inl (FileNotFoundError d)
      | Some names \<Rightarrow> if names = [] then Inr (fs\<lparr>dirs := (dirs fs)(d := None)\<rparr>) else Inl (OSError d))"

text \<open>\<open>Image.open(p)\<close> followed by \<open>img.size\<close>.\<close>

definition image_size :: "string \<Rightarrow> filesys \<Rightarrow> py_error + int \<times> int" where
  "image_size p fs =
     (case data fs p of
        None \<Rightarrow> Inl (FileNotFoundError p)
      | Some (Png w h) \<Rightarrow> Inr (w, h)
      | Some _ \<Rightarrow> Inl (UnidentifiedImageError p))"


text \<open>\<open>str(value)\<close> as an f-string renders it, and \<open>repr\<close> for the values inside a list or
  a dict (a str in quotes; the escapes Python adds for quotes and control characters are
  not modelled).\<close>

fun py_repr :: "json \<Rightarrow> string" where
  "py_repr JNull = ''None''"
| "py_repr (JBool b) = (if b then ''True'' else ''False'')"
| "py_repr (JNum n) = str_int n"
| "py_repr (JStr s) = [CHR 0x27] @ s @ [CHR 0x27]"
| "py_repr (JArr xs) = ''['' @ str_join '', '' (map py_repr xs) @ '']''"
| "py_repr (JObj kvs) =
     ''{'' @ str_join '', '' (map (\<lambda>kv. [CHR 0x27] @ fst kv @ [CHR 0x27] @ '': '' @ py_repr (snd kv)) kvs) @ ''}''"

fun py_str :: "json \<Rightarrow> string" where
  "py_str (JStr s) = s"
| "py_str v = py_repr v"

section \<open>The export pipeline (exportAs)\<close>

subsection \<open>The collaborator and the state of a run\<close>

record view =
  view_id :: string
  view_name :: string

record workbook =
  wb_id :: string
  wb_name :: string
  wb_project_name :: string
  wb_views :: "view list"

text \<open>\<open>TSC.ImageRequestOptions\<close>: resolution, maximum age of a cached render, and the
  view filters added by \<open>vf\<close>.\<close>

record image_request_options =
  imageresolution :: string
  maxage :: int
  view_filters :: "(json \<times> string) list"

text \<open>
  The outcomes of the calls into the Tableau server, of \<open>uuid.uuid4\<close>, of reading the
  configuration file and of the PDF library's page set-up: the parts of a run the
  scripts do not decide. \<open>None\<close> for a call that returns nothing means it succeeded.
\<close>

datatype config_source = Missing | Unreadable | Invalid_json | Parsed json

record collaborator =
  auth_sign_in :: "py_error option"
  auth_sign_out :: "py_error option"
  workbooks_pages :: "py_error + workbook list list"
  populate_views :: "workbook \<Rightarrow> py_error + view list"
  populate_image :: "view \<Rightarrow> image_request_options \<Rightarrow> py_error + int \<times> int"
  populate_csv :: "view \<Rightarrow> image_request_options \<Rightarrow> py_error option"
  uuid4 :: string
  config_files :: "string \<Rightarrow> config_source"
  fpdf_page :: "json \<Rightarrow> json \<Rightarrow> py_error + rat \<times> rat"

text \<open>
  The state a run changes: the module's global \<open>img_indexing\<close>, the file system, whether
  the server session is open, and how often \<open>server.auth.sign_out\<close> has been called.
\<close>

record world =
  img_indexing :: "string list"
  files :: filesys
  signed_in :: bool
  sign_out_calls :: nat

subsection \<open>connect_tableau, get_workbook, load_config, get_image_export\<close>

definition connect_tableau :: "collaborator \<Rightarrow> world \<Rightarrow> py_error option \<times> world" where
  "connect_tableau c w =
     (case auth_sign_in c of
        Some err \<Rightarrow> (Some err, w)
      | None \<Rightarrow> (None, w\<lparr>signed_in := True\<rparr>))"

definition sign_out :: "collaborator \<Rightarrow> world \<Rightarrow> py_error option \<times> world" where
  "sign_out c w =
     (case auth_sign_out c of
        Some err \<Rightarrow> (Some err, w\<lparr>sign_out_calls := Suc (sign_out_calls w)\<rparr>)
      | None \<Rightarrow> (None, w\<lparr>signed_in := False, sign_out_calls := Suc (sign_out_calls w)\<rparr>))"

text \<open>\<open>list(TSC.Pager(server.workbooks))\<close> is the concatenation of all pages.\<close>

definition matching_workbooks :: "workbook list \<Rightarrow> json \<Rightarrow> json \<Rightarrow> workbook list" where
  "matching_workbooks all_workbooks workbook_name project_name =
     filter (\<lambda>workbook. JStr (wb_name workbook) = workbook_name
                      \<and> JStr (wb_project_name workbook) = project_name) all_workbooks"

definition not_found_message :: "json \<Rightarrow> json \<Rightarrow> string" where
  "not_found_message workbook_name project_name =
     ''Workbook '' @ [CHR 0x27] @ py_str workbook_name @ [CHR 0x27] @ '' not found in project ''
       @ [CHR 0x27] @ py_str project_name @ [CHR 0x27] @ ''.''"

definition multiple_message :: "json \<Rightarrow> json \<Rightarrow> string" where
  "multiple_message workbook_name project_name =
     ''Multiple workbooks with name '' @ [CHR 0x27] @ py_str workbook_name @ [CHR 0x27]
       @ '' found in project '' @ [CHR 0x27] @ py_str project_name @ [CHR 0x27] @ ''.''"

definition get_workbook :: "workbook list list \<Rightarrow> json \<Rightarrow> json \<Rightarrow> py_error + workbook" where
  "get_workbook pages workbook_name project_name =
     (let all_workbooks = concat pages;
          matching = matching_workbooks all_workbooks workbook_name project_name
      in if length matching = 0 then Inl (FileExistsError (not_found_message workbook_name project_name))
         else if length matching > 1 then Inl (FileExistsError (multiple_message workbook_name project_name))
         else Inr (matching ! 0))"

definition load_config :: "collaborator \<Rightarrow> string \<Rightarrow> py_error + json" where
  "load_config c config_file =
     (case config_files c config_file of
        Missing \<Rightarrow> Inl (FileNotFoundError config_file)
      | Unreadable \<Rightarrow> Inl (PermissionError config_file)
      | Invalid_json \<Rightarrow> Inl JSONDecodeError
      | Parsed config \<Rightarrow> Inr config)"

fun add_filters :: "json list \<Rightarrow> image_request_options \<Rightarrow> py_error + image_request_options" where
  "add_filters [] image_export = Inr image_export"
| "add_filters (flt # flts) image_export =
     (case subscript flt ''description'' of
        Inl err \<Rightarrow> Inl err
      | Inr filter_disc \<Rightarrow>
          (case subscript flt ''values'' of
             Inl err \<Rightarrow> Inl err
           | Inr vals \<Rightarrow>
               (case py_join vals of
                  Inl err \<Rightarrow> Inl err
                | Inr filter_values \<Rightarrow>
                    add_filters flts
                      (image_export\<lparr>view_filters := view_filters image_export @ [(filter_disc, filter_values)]\<rparr>))))"

definition get_image_export :: "json \<Rightarrow> py_error + image_request_options" where
  "get_image_export filters =
     (let image_export = \<lparr>imageresolution = ''high'', maxage = 1, view_filters = []\<rparr>
      in if truthy filters then
           (case py_iter filters of
              Inl err \<Rightarrow> Inl err
            | Inr flts \<Rightarrow> add_filters flts image_export)
         else Inr image_export)"


subsection \<open>export_images and get_images\<close>

text \<open>
  The loop of \<open>export_images\<close> over \<open>workbook.views\<close>. The file name enters the index
  before the image is written; an exception leaves the loop with what was done so far.
\<close>

fun export_views :: "collaborator \<Rightarrow> image_request_options \<Rightarrow> string \<Rightarrow> json \<Rightarrow> view list
    \<Rightarrow> world \<Rightarrow> py_error option \<times> world" where
  "export_views c image_export_option img_dir ppt_slides [] w = (None, w)"
| "export_views c image_export_option img_dir ppt_slides (v # vs) w =
     (case py_in (view_name v) ppt_slides of
        Inl err \<Rightarrow> (Some err, w)
      | Inr requested \<Rightarrow>
          if \<not> requested then export_views c image_export_option img_dir ppt_slides vs w
          else
            (case populate_image c v image_export_option of
               Inl err \<Rightarrow> (Some err, w)
             | Inr (iw, ih) \<Rightarrow>
                 let image_path = path_join img_dir (view_name v @ ''.png'');
                     w1 = w\<lparr>img_indexing := img_indexing w @ [view_name v @ ''.png'']\<rparr>
                 in (case write_file image_path (Png iw ih) (files w1) of
                       Inl err \<Rightarrow> (Some err, w1)
                     | Inr fs1 \<Rightarrow>
                         (case populate_csv c v image_export_option of
                            Some err \<Rightarrow> (Some err, w1\<lparr>files := fs1\<rparr>)
                          | None \<Rightarrow>
                              let csv_path = path_join img_dir (view_name v @ ''.csv'')
                              in (case write_file csv_path Bytes fs1 of
                                    Inl err \<Rightarrow> (Some err, w1\<lparr>files := fs1\<rparr>)
                                  | Inr fs2 \<Rightarrow>
                                      export_views c image_export_option img_dir ppt_slides vs
                                        (w1\<lparr>files := fs2\<rparr>))))))"

definition export_images :: "collaborator \<Rightarrow> workbook \<Rightarrow> image_request_options \<Rightarrow> string \<Rightarrow> json
    \<Rightarrow> world \<Rightarrow> py_error option \<times> world" where
  "export_images c wb image_export_option img_dir ppt_slides w =
     export_views c image_export_option img_dir ppt_slides (wb_views wb) w"

text \<open>\<open>get_images\<close> ignores its directory and returns the global index.\<close>

definition get_images :: "string \<Rightarrow> world \<Rightarrow> string list" where
  "get_images img_dir w = img_indexing w"

subsection \<open>split_image and generate_slide_imgs\<close>

text \<open>The crop box \<open>(left, upper, right, lower)\<close> of the tile at \<open>(row, col)\<close>, and the size
  of the image \<open>img.crop\<close> returns for a box.\<close>

definition tile_box :: "int \<Rightarrow> int \<Rightarrow> int \<Rightarrow> int \<Rightarrow> int \<Rightarrow> int \<times> int \<times> int \<times> int" where
  "tile_box width tile_width tile_height row col =
     (if row = 0 then (0, row * tile_height, width, row * tile_height + tile_height)
      else (col * tile_width, row * tile_height, col * tile_width + tile_width,
            row * tile_height + tile_height))"

fun crop_size :: "int \<times> int \<times> int \<times> int \<Rightarrow> int \<times> int" where
  "crop_size (left, upper, right, lower) = (right - left, lower - upper)"

definition export_name :: "string \<Rightarrow> int \<Rightarrow> int \<Rightarrow> string" where
  "export_name img_name row col = img_name @ ''_tile_'' @ str_int row @ ''_'' @ str_int col @ ''.png''"

text \<open>The cells \<open>for row in range(rows): for col in range(cols)\<close> visits, in order.\<close>

definition grid :: "int \<Rightarrow> int \<Rightarrow> (int \<times> int) list" where
  "grid rows cols = concat (map (\<lambda>row. map (\<lambda>col. (row, col)) [0..cols - 1]) [0..rows - 1])"

text \<open>The body of the two loops of \<open>split_image\<close>, on the list \<open>tmp_index\<close> and the file
  system. Cropping and saving a tile is writing a PNG of the crop's size (what the
  image library does with a crop of width or height 0 is not modelled).\<close>

fun split_cells :: "string \<Rightarrow> string \<Rightarrow> int \<Rightarrow> int \<Rightarrow> int \<Rightarrow> (int \<times> int) list
    \<Rightarrow> string list \<times> filesys \<Rightarrow> py_error option \<times> string list \<times> filesys" where
  "split_cells output_dir img_name width tile_width tile_height [] (tmp_index, fs) =
     (None, tmp_index, fs)"
| "split_cells output_dir img_name width tile_width tile_height ((row, col) # cells) (tmp_index, fs) =
     (if row = 0 \<and> col = 1 then
        split_cells output_dir img_name width tile_width tile_height cells (tmp_index, fs)
      else
        let tile = crop_size (tile_box width tile_width tile_height row col);
            tile_path = path_join output_dir (export_name img_name row col)
        in (case write_file tile_path (Png (fst tile) (snd tile)) fs of
              Inl err \<Rightarrow> (Some err, tmp_index, fs)
            | Inr fs1 \<Rightarrow>
                split_cells output_dir img_name width tile_width tile_height cells
                  (tmp_index @ [export_name img_name row col], fs1)))"

definition split_image :: "string \<Rightarrow> string \<Rightarrow> int \<Rightarrow> int \<Rightarrow> string
    \<Rightarrow> string list \<times> filesys \<Rightarrow> py_error option \<times> string list \<times> filesys" where
  "split_image image_path output_dir rows cols img_name st =
     (case image_size image_path (snd st) of
        Inl err \<Rightarrow> (Some err, st)
      | Inr (width, height) \<Rightarrow>
          if cols = 0 \<or> rows = 0 then (Some ZeroDivisionError, st)
          else
            let tile_width = width div cols;
                tile_height = height div rows
            in (case makedirs output_dir (snd st) of
                  Inl err \<Rightarrow> (Some err, st)
                | Inr fs1 \<Rightarrow>
                    split_cells output_dir img_name width tile_width tile_height (grid rows cols)
                      (fst st, fs1)))"

text \<open>\<open>img_file.split(".")[0]\<close>: the file name up to its first dot.\<close>

definition img_name_of :: "string \<Rightarrow> string" where
  "img_name_of img_file = takeWhile (\<lambda>c. c \<noteq> CHR ''.'') img_file"

fun split_all :: "string \<Rightarrow> string list \<Rightarrow> string list \<times> filesys
    \<Rightarrow> py_error option \<times> string list \<times> filesys" where
  "split_all img_dir [] st = (None, st)"
| "split_all img_dir (img_file # img_files) st =
     (let img_path = path_join img_dir img_file;
          export_dir = path_join img_dir ''slide_imgs'';
          img_name = img_name_of img_file
      in (case split_image img_path export_dir 2 2 img_name st of
            (Some err, st1) \<Rightarrow> (Some err, st1)
          | (None, st1) \<Rightarrow> split_all img_dir img_files st1))"

text \<open>\<open>generate_slide_imgs\<close> replaces the global index by the tile index once every image
  is split, and returns the tile directory.\<close>

definition generate_slide_imgs :: "string \<Rightarrow> world \<Rightarrow> (py_error + string) \<times> world" where
  "generate_slide_imgs img_dir w =
     (case split_all img_dir (img_indexing w) ([], files w) of
        (Some err, tmp_index, fs) \<Rightarrow> (Inl err, w\<lparr>files := fs\<rparr>)
      | (None, tmp_index, fs) \<Rightarrow>
          (Inr (path_join img_dir ''slide_imgs''), w\<lparr>img_indexing := tmp_index, files := fs\<rparr>))"


subsection \<open>The slide deck\<close>

text \<open>\<open>pptx.util.Inches\<close>: a length in English Metric Units.\<close>

definition Inches :: "int \<Rightarrow> int" where
  "Inches n = n * 914400"

text \<open>
  Lines 214 to 223 of \<open>add_image_to_ppt\<close>: the scale and the centred position of an
  image of \<open>img_width\<close> by \<open>img_height\<close> pixels on a slide; the result is
  \<open>(left, top, width, height)\<close> as handed to \<open>add_picture\<close>. The divisions raise on 0.
\<close>

definition ppt_scale :: "int \<Rightarrow> int \<Rightarrow> py_error + rat" where
  "ppt_scale img_width img_height =
     (let max_width = Inches 8;
          max_height = Inches 6
      in if img_width = 0 then Inl ZeroDivisionError
         else if img_height = 0 then Inl ZeroDivisionError
         else
           let width_scale = of_int max_width / of_int img_width;
               height_scale = of_int max_height / of_int img_height
           in Inr (min width_scale height_scale))"

definition ppt_layout :: "int \<Rightarrow> int \<Rightarrow> int \<Rightarrow> int \<Rightarrow> py_error + rat \<times> rat \<times> rat \<times> rat" where
  "ppt_layout slide_width slide_height img_width img_height =
     (case ppt_scale img_width img_height of
        Inl err \<Rightarrow> Inl err
      | Inr scale \<Rightarrow>
          let left = (of_int slide_width - of_int img_width * scale) / 2;
              top_edge = (of_int slide_height - of_int img_height * scale) / 2
          in Inr (left, top_edge, of_int img_width * scale, of_int img_height * scale))"

text \<open>The slide size of python-pptx's default template, which \<open>Presentation()\<close> loads.\<close>

definition default_slide_width :: int where
  "default_slide_width = 9144000"

definition default_slide_height :: int where
  "default_slide_height = 6858000"

definition add_title_slide :: "page list \<Rightarrow> json \<Rightarrow> json \<Rightarrow> page list" where
  "add_title_slide prs workbook_name project_name =
     prs @ [TitlePage (py_str workbook_name) [''Project: '' @ py_str project_name]]"

definition add_image_to_ppt :: "page list \<Rightarrow> string \<Rightarrow> string \<Rightarrow> filesys \<Rightarrow> py_error + page list" where
  "add_image_to_ppt prs img_dir img_file fs =
     (let img_path = path_join img_dir img_file
      in case image_size img_path fs of
           Inl err \<Rightarrow> Inl err
         | Inr (img_width, img_height) \<Rightarrow>
             (case ppt_layout default_slide_width default_slide_height img_width img_height of
                Inl err \<Rightarrow> Inl err
              | Inr (left, top_edge, width, height) \<Rightarrow>
                  Inr (prs @ [ImagePage img_path left top_edge width height])))"

fun add_images_to_ppt :: "page list \<Rightarrow> string \<Rightarrow> string list \<Rightarrow> filesys \<Rightarrow> py_error + page list" where
  "add_images_to_ppt prs img_dir [] fs = Inr prs"
| "add_images_to_ppt prs img_dir (img_file # img_files) fs =
     (case add_image_to_ppt prs img_dir img_file fs of
        Inl err \<Rightarrow> Inl err
      | Inr prs1 \<Rightarrow> add_images_to_ppt prs1 img_dir img_files fs)"

text \<open>\<open>create_deck\<close> reads the module's global \<open>project_name\<close>, passed here.\<close>

definition create_deck :: "string \<Rightarrow> string \<Rightarrow> json \<Rightarrow> json \<Rightarrow> world \<Rightarrow> py_error option \<times> world" where
  "create_deck img_dir export_path workbook_name project_name w =
     (let prs = add_title_slide [] workbook_name project_name;
          img_files = get_images img_dir w
      in case add_images_to_ppt prs img_dir img_files (files w) of
           Inl err \<Rightarrow> (Some err, w)
         | Inr prs1 \<Rightarrow>
             (case write_file export_path (Document prs1) (files w) of
                Inl err \<Rightarrow> (Some err, w)
              | Inr fs1 \<Rightarrow> (None, w\<lparr>files := fs1\<rparr>)))"

subsection \<open>The PDF\<close>

text \<open>
  Lines 313 to 329 of \<open>add_image_to_pdf\<close>: the size and the centred position of an
  image on a page of \<open>page_width\<close> by \<open>page_height\<close>; the result is \<open>(x, y, w, h)\<close> as
  handed to \<open>pdf.image\<close>.
\<close>

definition pdf_size :: "rat \<Rightarrow> rat \<Rightarrow> int \<Rightarrow> int \<Rightarrow> py_error + rat \<times> rat" where
  "pdf_size page_width page_height img_width img_height =
     (if of_int img_width > page_width \<or> of_int img_height > page_height then
        if img_width = 0 then Inl ZeroDivisionError
        else if img_height = 0 then Inl ZeroDivisionError
        else
          let ratio_width = page_width / of_int img_width;
              ratio_height = page_height / of_int img_height
          in if ratio_width < ratio_height then Inr (page_width, of_int img_height * ratio_width)
             else Inr (of_int img_width * ratio_height, page_height)
      else Inr (of_int img_width, of_int img_height))"

definition pdf_layout :: "rat \<Rightarrow> rat \<Rightarrow> int \<Rightarrow> int \<Rightarrow> py_error + rat \<times> rat \<times> rat \<times> rat" where
  "pdf_layout page_width page_height img_width img_height =
     (case pdf_size page_width page_height img_width img_height of
        Inl err \<Rightarrow> Inl err
      | Inr (new_width, new_height) \<Rightarrow>
          let x = (page_width - new_width) / 2;
              y = (page_height - new_height) / 2
          in Inr (x, y, new_width, new_height))"

text \<open>The dict \<open>pdf_config\<close> is its list of items; \<open>pdf_config[k] = v\<close> is \<open>AList.update\<close>.\<close>

definition add_title_page :: "page list \<Rightarrow> (string \<times> json) list \<Rightarrow> py_error + page list" where
  "add_title_page pdf pdf_config =
     (case subscript (JObj pdf_config) ''workbook_name'' of
        Inl err \<Rightarrow> Inl err
      | Inr workbook_name \<Rightarrow>
          let title = ''Tableau Workbook Export: '' @ py_str workbook_name
          in (case map_of pdf_config ''project_name'' of
                Some project_name \<Rightarrow> Inr (pdf @ [TitlePage title [''Project: '' @ py_str project_name]])
              | None \<Rightarrow> Inr (pdf @ [TitlePage title []])))"

definition add_image_to_pdf :: "page list \<Rightarrow> rat \<times> rat \<Rightarrow> string \<Rightarrow> filesys \<Rightarrow> py_error + page list" where
  "add_image_to_pdf pdf page_dims img_path fs =
     (case image_size img_path fs of
        Inl err \<Rightarrow> Inl err
      | Inr (img_width, img_height) \<Rightarrow>
          (case pdf_layout (fst page_dims) (snd page_dims) img_width img_height of
             Inl err \<Rightarrow> Inl err
           | Inr (x, y, new_width, new_height) \<Rightarrow>
               Inr (pdf @ [ImagePage img_path x y new_width new_height])))"

fun add_images_to_pdf :: "page list \<Rightarrow> rat \<times> rat \<Rightarrow> string \<Rightarrow> string list \<Rightarrow> filesys
    \<Rightarrow> py_error + page list" where
  "add_images_to_pdf pdf page_dims img_dir [] fs = Inr pdf"
| "add_images_to_pdf pdf page_dims img_dir (img_file # img_files) fs =
     (let img_path = path_join img_dir img_file
      in case add_image_to_pdf pdf page_dims img_path fs of
           Inl err \<Rightarrow> Inl err
         | Inr pdf1 \<Rightarrow> add_images_to_pdf pdf1 page_dims img_dir img_files fs)"

definition export_as_pdf :: "collaborator \<Rightarrow> string \<Rightarrow> string \<Rightarrow> (string \<times> json) list \<Rightarrow> world
    \<Rightarrow> py_error option \<times> world" where
  "export_as_pdf c img_dir output_path pdf_config w =
     (case subscript (JObj pdf_config) ''orientation'' of
        Inl err \<Rightarrow> (Some err, w)
      | Inr orientation \<Rightarrow>
     (case subscript (JObj pdf_config) ''page_type'' of
        Inl err \<Rightarrow> (Some err, w)
      | Inr page_type \<Rightarrow>
     (case fpdf_page c orientation page_type of
        Inl err \<Rightarrow> (Some err, w)
      | Inr page_dims \<Rightarrow>
     (case add_title_page [] pdf_config of
        Inl err \<Rightarrow> (Some err, w)
      | Inr pdf \<Rightarrow>
     (let img_files = get_images img_dir w
      in case add_images_to_pdf pdf page_dims img_dir img_files (files w) of
           Inl err \<Rightarrow> (Some err, w)
         | Inr pdf1 \<Rightarrow>
             (case write_file output_path (Document pdf1) (files w) of
                Inl err \<Rightarrow> (Some err, w)
              | Inr fs1 \<Rightarrow> (None, w\<lparr>files := fs1\<rparr>)))))))"


subsection \<open>The script's main block\<close>

text \<open>The command line as \<open>argparse\<close> returns it, and the module's globals.\<close>

record args =
  config_file :: string
  export_type :: string
  page_type :: string
  orientation :: string

definition ppt_location :: string where
  "ppt_location = []"

definition img_export :: string where
  "img_export = ''img/''"

text \<open>
  STEP 1 to STEP 4: sign in, load the configuration and read its keys, find the
  workbook and populate its views, build the image request options. The result is
  \<open>(workbook_name, project_name, ppt_slides, workbook, image_export_option)\<close>.
\<close>

definition steps_1_to_4 :: "collaborator \<Rightarrow> args \<Rightarrow> world
    \<Rightarrow> (py_error + json \<times> json \<times> json \<times> workbook \<times> image_request_options) \<times> world" where
  "steps_1_to_4 c a w =
     (case connect_tableau c w of
        (Some err, w1) \<Rightarrow> (Inl err, w1)
      | (None, w1) \<Rightarrow>
     (case load_config c (''config/'' @ config_file a) of
        Inl err \<Rightarrow> (Inl err, w1)
      | Inr config \<Rightarrow>
     (case subscript config ''workbook_name'' of
        Inl err \<Rightarrow> (Inl err, w1)
      | Inr workbook_name \<Rightarrow>
     (case subscript config ''project_name'' of
        Inl err \<Rightarrow> (Inl err, w1)
      | Inr project_name \<Rightarrow>
     (case subscript config ''slide_views'' of
        Inl err \<Rightarrow> (Inl err, w1)
      | Inr ppt_slides \<Rightarrow>
     (case workbooks_pages c of
        Inl err \<Rightarrow> (Inl err, w1)
      | Inr pages \<Rightarrow>
     (case get_workbook pages workbook_name project_name of
        Inl err \<Rightarrow> (Inl err, w1)
      | Inr wb \<Rightarrow>
     (case populate_views c wb of
        Inl err \<Rightarrow> (Inl err, w1)
      | Inr vs \<Rightarrow>
     (case subscript config ''filters'' of
        Inl err \<Rightarrow> (Inl err, w1)
      | Inr filters \<Rightarrow>
     (case get_image_export filters of
        Inl err \<Rightarrow> (Inl err, w1)
      | Inr image_export_option \<Rightarrow>
          (Inr (workbook_name, project_name, ppt_slides, wb\<lparr>wb_views := vs\<rparr>, image_export_option),
           w1)))))))))))"

text \<open>STEP 5: the scratch directory of the run, the export of the views and the split
  into tiles. The result is the directory the later steps use as \<open>img_dir\<close>.\<close>

definition step_5 :: "collaborator \<Rightarrow> workbook \<Rightarrow> image_request_options \<Rightarrow> json \<Rightarrow> world
    \<Rightarrow> (py_error + string) \<times> world" where
  "step_5 c wb image_export_option ppt_slides w =
     (let export_id = uuid4 c;
          img_dir = path_join img_export export_id
      in case makedirs img_dir (files w) of
           Inl err \<Rightarrow> (Inl err, w)
         | Inr fs1 \<Rightarrow>
             (case export_images c wb image_export_option img_dir ppt_slides (w\<lparr>files := fs1\<rparr>) of
                (Some err, w2) \<Rightarrow> (Inl err, w2)
              | (None, w2) \<Rightarrow> generate_slide_imgs img_dir w2))"

text \<open>STEP 6: the deck or the PDF. The two \<open>if\<close>s of the script exclude each other;
  \<open>argparse\<close> admits no third export type.\<close>

definition step_6 :: "collaborator \<Rightarrow> args \<Rightarrow> json \<Rightarrow> json \<Rightarrow> string \<Rightarrow> world
    \<Rightarrow> py_error option \<times> world" where
  "step_6 c a workbook_name project_name img_dir w =
     (if export_type a = ''ppt'' then
        let ppt_location1 = path_join ppt_location ''ppt''
        in case makedirs ppt_location1 (files w) of
             Inl err \<Rightarrow> (Some err, w)
           | Inr fs1 \<Rightarrow>
               let export_path = path_join ppt_location1 (py_str workbook_name @ ''.pptx'')
               in create_deck img_dir export_path workbook_name project_name (w\<lparr>files := fs1\<rparr>)
      else if export_type a = ''pdf'' then
        let pdf_config = [(''page_type'', JStr (page_type a)), (''orientation'', JStr (orientation a))];
            pdf_config1 = AList.update ''workbook_name'' workbook_name pdf_config;
            pdf_config2 = AList.update ''project_name'' project_name pdf_config1;
            pdf_dir = path_join ppt_location ''pdf''
        in case makedirs pdf_dir (files w) of
             Inl err \<Rightarrow> (Some err, w)
           | Inr fs1 \<Rightarrow>
               let output_file = path_join pdf_dir (py_str workbook_name @ ''.pdf'')
               in export_as_pdf c img_dir output_file pdf_config2 (w\<lparr>files := fs1\<rparr>)
      else (None, w))"

text \<open>STEP 7: remove every file \<open>os.listdir(img_dir)\<close> names, then the directory.\<close>

fun remove_files :: "string \<Rightarrow> string list \<Rightarrow> filesys \<Rightarrow> py_error option \<times> filesys" where
  "remove_files img_dir [] fs = (None, fs)"
| "remove_files img_dir (file # names) fs =
     (let file_path = path_join img_dir file
      in case remove_file file_path fs of
           Inl err \<Rightarrow> (Some err, fs)
         | Inr fs1 \<Rightarrow> remove_files img_dir names fs1)"

definition step_7 :: "string \<Rightarrow> world \<Rightarrow> py_error option \<times> world" where
  "step_7 img_dir w =
     (case listdir img_dir (files w) of
        Inl err \<Rightarrow> (Some err, w)
      | Inr names \<Rightarrow>
          (case remove_files img_dir names (files w) of
             (Some err, fs1) \<Rightarrow> (Some err, w\<lparr>files := fs1\<rparr>)
           | (None, fs1) \<Rightarrow>
               (case rmdir img_dir fs1 of
                  Inl err \<Rightarrow> (Some err, w\<lparr>files := fs1\<rparr>)
                | Inr fs2 \<Rightarrow> (None, w\<lparr>files := fs2\<rparr>))))"

text \<open>
  The main block: the steps in order, STEP 8 (the sign-out) last. An exception of a step
  ends the process there: the result is the exception, if any, and the state the
  process leaves behind.
\<close>

definition main :: "collaborator \<Rightarrow> args \<Rightarrow> world \<Rightarrow> py_error option \<times> world" where
  "main c a w =
     (case steps_1_to_4 c a w of
        (Inl err, w1) \<Rightarrow> (Some err, w1)
      | (Inr (workbook_name, project_name, ppt_slides, wb, image_export_option), w1) \<Rightarrow>
     (case step_5 c wb image_export_option ppt_slides w1 of
        (Inl err, w2) \<Rightarrow> (Some err, w2)
      | (Inr img_dir, w2) \<Rightarrow>
     (case step_6 c a workbook_name project_name img_dir w2 of
        (Some err, w3) \<Rightarrow> (Some err, w3)
      | (None, w3) \<Rightarrow>
     (case step_7 img_dir w3 of
        (Some err, w4) \<Rightarrow> (Some err, w4)
      | (None, w4) \<Rightarrow> sign_out c w4))))"


section \<open>The deactivation of inactive viewers (text.py)\<close>

text \<open>A point in time is its number of microseconds since the epoch (UTC);
  \<open>(now - t).days\<close> is the floor of the difference in days.\<close>

record user =
  user_id :: string
  user_name :: string
  site_role :: string
  last_login :: "int option"

record user_group =
  group_name :: string
  minimum_site_role :: "string option"

definition INACTIVE_THRESHOLD :: int where
  "INACTIVE_THRESHOLD = 500"

definition timedelta_days :: "int \<Rightarrow> int \<Rightarrow> int" where
  "timedelta_days now t = (now - t) div 86400000000"

text \<open>The loop of \<open>get_inactive_users\<close>; \<open>clock k\<close> is what the \<open>k\<close>-th call of
  \<open>datetime.now\<close> returns, one call for every user who has signed in.\<close>

fun inactive_from :: "(nat \<Rightarrow> int) \<Rightarrow> nat \<Rightarrow> user list \<Rightarrow> user list" where
  "inactive_from clock k [] = []"
| "inactive_from clock k (u # viewer_list) =
     (case last_login u of
        None \<Rightarrow> inactive_from clock k viewer_list
      | Some t \<Rightarrow>
          let now = clock k;
              days_inactive = timedelta_days now t
          in if days_inactive > INACTIVE_THRESHOLD then u # inactive_from clock (Suc k) viewer_list
             else inactive_from clock (Suc k) viewer_list)"

definition get_inactive_users :: "(nat \<Rightarrow> int) \<Rightarrow> user list \<Rightarrow> user list" where
  "get_inactive_users clock viewer_list = inactive_from clock 0 viewer_list"

text \<open>TASK 2 of the main block: the users whose site role is Viewer.\<close>

definition viewers :: "user list \<Rightarrow> user list" where
  "viewers user_list = filter (\<lambda>u. site_role u = ''Viewer'') user_list"

text \<open>
  \<open>deactivate_users\<close>: the role of each user is set, then the user is sent to the server
  (\<open>users_update\<close> is the outcome of \<open>server.users.update\<close>). The result is the exception,
  if any, and the users whose role was set, as they are afterwards.
\<close>

fun deactivate_each :: "(user \<Rightarrow> py_error option) \<Rightarrow> user list \<Rightarrow> py_error option \<times> user list" where
  "deactivate_each users_update [] = (None, [])"
| "deactivate_each users_update (u # inactive_users) =
     (let u1 = u\<lparr>site_role := ''Unlicensed''\<rparr>
      in case users_update u1 of
           Some err \<Rightarrow> (Some err, [u1])
         | None \<Rightarrow>
             (case deactivate_each users_update inactive_users of
                (res, changed) \<Rightarrow> (res, u1 # changed)))"

definition deactivate_users :: "user list \<Rightarrow> (user \<Rightarrow> py_error option) \<Rightarrow> py_error option \<times> user list" where
  "deactivate_users inactive_users users_update =
     (if length inactive_users = 0 then (None, [])
      else deactivate_each users_update inactive_users)"

text \<open>The outcomes of the calls a site's processing makes, and the state it changes.\<close>

record tableau_site =
  site_sign_in :: "py_error option"
  site_sign_out :: "py_error option"
  groups_get :: "py_error + user_group list"
  groups_update :: "user_group \<Rightarrow> py_error option"
  users_get :: "py_error + user list"
  users_update :: "user \<Rightarrow> py_error option"
  to_csv :: "py_error option"

record site_state =
  session_open :: bool
  sign_outs :: nat
  changed_users :: "user list"
  changed_groups :: "user_group list"

fun update_all_users_group :: "tableau_site \<Rightarrow> string option \<Rightarrow> user_group list \<Rightarrow> site_state
    \<Rightarrow> py_error option \<times> site_state" where
  "update_all_users_group srv role [] st = (None, st)"
| "update_all_users_group srv role (g # all_groups) st =
     (if group_name g = ''All Users'' then
        let g1 = g\<lparr>minimum_site_role := role\<rparr>;
            st1 = st\<lparr>changed_groups := changed_groups st @ [g1]\<rparr>
        in case groups_update srv g1 of
             Some err \<Rightarrow> (Some err, st1)
           | None \<Rightarrow> update_all_users_group srv role all_groups st1
      else update_all_users_group srv role all_groups st)"

definition disable_minimum_site_role :: "tableau_site \<Rightarrow> site_state \<Rightarrow> py_error option \<times> site_state" where
  "disable_minimum_site_role srv st =
     (case groups_get srv of
        Inl err \<Rightarrow> (Some err, st)
      | Inr all_groups \<Rightarrow> update_all_users_group srv None all_groups st)"

definition enable_minimum_site_role :: "tableau_site \<Rightarrow> site_state \<Rightarrow> py_error option \<times> site_state" where
  "enable_minimum_site_role srv st =
     (case groups_get srv of
        Inl err \<Rightarrow> (Some err, st)
      | Inr all_groups \<Rightarrow> update_all_users_group srv (Some ''Viewer'') all_groups st)"

text \<open>
  The \<open>try\<close> block of a site, lines 116 to 147. TASK 5 calls \<open>deactivate_users\<close> with one
  argument where the function takes two: Python raises \<open>TypeError\<close> at the call, before
  the function's body runs, so TASK 6 is never reached.
\<close>

definition site_tasks :: "tableau_site \<Rightarrow> (nat \<Rightarrow> int) \<Rightarrow> site_state \<Rightarrow> py_error option \<times> site_state" where
  "site_tasks srv clock st =
     (case disable_minimum_site_role srv st of
        (Some err, st1) \<Rightarrow> (Some err, st1)
      | (None, st1) \<Rightarrow>
          (case users_get srv of
             Inl err \<Rightarrow> (Some err, st1)
           | Inr user_list \<Rightarrow>
               let viewer_list = viewers user_list;
                   inactive_users = get_inactive_users clock viewer_list
               in (case to_csv srv of
                     Some err \<Rightarrow> (Some err, st1)
                   | None \<Rightarrow> (Some TypeError, st1))))"

text \<open>
  The body of the loop over the sites, lines 111 to 153: the sign-in, the \<open>try\<close> block
  whose exception the \<open>except\<close> clause prints and drops, and the sign-out in the
  \<open>finally\<close> clause. The result is the exception that leaves the body, if any. (The
  main block obtains the sites from \<open>get_sites()\<close>, called without the server argument
  the function takes.)
\<close>

definition process_site :: "tableau_site \<Rightarrow> (nat \<Rightarrow> int) \<Rightarrow> site_state \<Rightarrow> py_error option \<times> site_state" where
  "process_site srv clock st =
     (case site_sign_in srv of
        Some err \<Rightarrow> (Some err, st)
      | None \<Rightarrow>
          (case site_tasks srv clock (st\<lparr>session_open := True\<rparr>) of
             (caught, st1) \<Rightarrow>
               (case site_sign_out srv of
                  Some err \<Rightarrow> (Some err, st1\<lparr>sign_outs := Suc (sign_outs st1)\<rparr>)
                | None \<Rightarrow> (None, st1\<lparr>session_open := False, sign_outs := Suc (sign_outs st1)\<rparr>))))"

section \<open>Observations and a sample run\<close>

text \<open>The image an image page shows.\<close>

fun image_path_of :: "page \<Rightarrow> string option" where
  "image_path_of (TitlePage title lines) = None"
| "image_path_of (ImagePage img_path x y w h) = Some img_path"

text \<open>
  A run used to evaluate the model: the server has a workbook Sales in project Ops with
  the views A and B, in this order; the configuration asks for the views B and A, in
  this order, with no filters; every render is 1601 by 901 pixels.
\<close>

definition sample_workbook :: workbook where
  "sample_workbook = \<lparr>wb_id = ''1'', wb_name = ''Sales'', wb_project_name = ''Ops'', wb_views = []\<rparr>"

definition sample_views :: "view list" where
  "sample_views = [\<lparr>view_id = ''a'', view_name = ''A''\<rparr>, \<lparr>view_id = ''b'', view_name = ''B''\<rparr>]"

definition sample_config :: json where
  "sample_config =
     JObj [(''workbook_name'', JStr ''Sales''), (''project_name'', JStr ''Ops''),
           (''slide_views'', JArr [JStr ''B'', JStr ''A'']), (''filters'', JArr [])]"

definition sample_collaborator :: "json \<Rightarrow> collaborator" where
  "sample_collaborator config =
     \<lparr>auth_sign_in = None, auth_sign_out = None,
      workbooks_pages = Inr [[sample_workbook]],
      populate_views = (\<lambda>wb. Inr sample_views),
      populate_image = (\<lambda>v opts. Inr (1601, 901)),
      populate_csv = (\<lambda>v opts. None),
      uuid4 = ''u1'',
      config_files = (\<lambda>p. if p = ''config/sales.json'' then Parsed config else Missing),
      fpdf_page = (\<lambda>orientation format. Inr (297, 210))\<rparr>"

definition sample_args :: "string \<Rightarrow> args" where
  "sample_args kind =
     \<lparr>config_file = ''sales.json'', export_type = kind, page_type = ''A4'', orientation = ''landscape''\<rparr>"

definition initial_world :: world where
  "initial_world =
     \<lparr>img_indexing = [], files = \<lparr>dirs = Map.empty, data = Map.empty\<rparr>,
      signed_in = False, sign_out_calls = 0\<rparr>"

text \<open>A state after the split, for the deck assemblers: two tiles in a directory \<open>t\<close>,
  of 1601 by 450 and of 100 by 100 pixels, and the output directories.\<close>

definition tiles_world :: world where
  "tiles_world =
     \<lparr>img_indexing = [''a.png'', ''b.png''],
      files = \<lparr>dirs = [''t'' \<mapsto> [''a.png'', ''b.png''], ''ppt'' \<mapsto> [], ''pdf'' \<mapsto> []],
                data = [''t/a.png'' \<mapsto> Png 1601 450, ''t/b.png'' \<mapsto> Png 100 100]\<rparr>,
      signed_in = True, sign_out_calls = 0\<rparr>"

section \<open>Properties of the export pipeline\<close>

subsection \<open>Workbook resolution\<close>

lemma filter_length_mset:
  assumes "mset xs = mset ys"
  shows "length (filter P xs) = length (filter P ys)"
proof -
  have "mset (filter P xs) = mset (filter P ys)" using assms by simp
  then show ?thesis by (metis size_mset)
qed

lemma filter_singleton_mset:
  assumes "mset xs = mset ys" and "filter P xs = [x]"
  shows "filter P ys = [x]"
proof -
  have "mset (filter P ys) = mset (filter P xs)" using assms(1) by simp
  also have "\<dots> = {#x#}" by (simp only: assms(2) mset.simps add_mset_commute)
  finally show ?thesis by (simp only: mset_single_iff)
qed

text \<open>
  C2. \<open>get_workbook\<close> filters the workbooks of all pages by exact equality of the name
  and of the project name with the requested ones. With no match it raises the
  exception whose message says the workbook was not found; with two or more matches it
  raises the exception whose message says there are multiple workbooks; with exactly one
  match it returns that workbook. The result is the same for every reordering of the
  workbook list. (Both failures are Python's \<open>FileExistsError\<close>, told apart by their
  messages.)
\<close>

theorem get_workbook_resolution:
  "(matching_workbooks (concat pages) workbook_name project_name = [] \<longrightarrow>
      get_workbook pages workbook_name project_name
        = Inl (FileExistsError (not_found_message workbook_name project_name)))
   \<and> (2 \<le> length (matching_workbooks (concat pages) workbook_name project_name) \<longrightarrow>
      get_workbook pages workbook_name project_name
        = Inl (FileExistsError (multiple_message workbook_name project_name)))
   \<and> (\<forall>wb. matching_workbooks (concat pages) workbook_name project_name = [wb] \<longrightarrow>
      get_workbook pages workbook_name project_name = Inr wb)
   \<and> (\<forall>wb. (wb \<in> set (matching_workbooks (concat pages) workbook_name project_name)) =
         (wb \<in> set (concat pages) \<and> JStr (wb_name wb) = workbook_name
            \<and> JStr (wb_project_name wb) = project_name))
   \<and> (\<forall>pages'. mset (concat pages') = mset (concat pages) \<longrightarrow>
         get_workbook pages' workbook_name project_name
           = get_workbook pages workbook_name project_name)"
proof (intro conjI allI impI)
  show "get_workbook pages workbook_name project_name
        = Inl (FileExistsError (not_found_message workbook_name project_name))"
    if "matching_workbooks (concat pages) workbook_name project_name = []"
    using that by (simp add: get_workbook_def)
  show "get_workbook pages workbook_name project_name
        = Inl (FileExistsError (multiple_message workbook_name project_name))"
    if "2 \<le> length (matching_workbooks (concat pages) workbook_name project_name)"
    using that by (auto simp add: get_workbook_def Let_def)
  show "get_workbook pages workbook_name project_name = Inr wb"
    if "matching_workbooks (concat pages) workbook_name project_name = [wb]" for wb
    using that by (simp add: get_workbook_def)
  show "(wb \<in> set (matching_workbooks (concat pages) workbook_name project_name)) =
         (wb \<in> set (concat pages) \<and> JStr (wb_name wb) = workbook_name
            \<and> JStr (wb_project_name wb) = project_name)" for wb
    by (auto simp add: matching_workbooks_def)
  show "get_workbook pages' workbook_name project_name
           = get_workbook pages workbook_name project_name"
    if perm: "mset (concat pages') = mset (concat pages)" for pages'
  proof -
    let ?P = "\<lambda>workbook. JStr (wb_name workbook) = workbook_name
                      \<and> JStr (wb_project_name workbook) = project_name"
    have len: "length (filter ?P (concat pages')) = length (filter ?P (concat pages))"
      using perm by (rule filter_length_mset)
    show ?thesis
    proof (cases "length (filter ?P (concat pages)) = 1")
      case True
      then obtain x where x: "filter ?P (concat pages) = [x]"
        by (auto simp add: length_Suc_conv)
      have "filter ?P (concat pages') = [x]"
        using perm[symmetric] x by (rule filter_singleton_mset)
      with x show ?thesis by (simp add: get_workbook_def matching_workbooks_def)
    next
      case False
      define n where "n = length (filter ?P (concat pages))"
      have n': "length (filter ?P (concat pages')) = n" and n: "length (filter ?P (concat pages)) = n"
        using len by (simp_all add: n_def)
      have "n \<noteq> 1" using False by (simp add: n_def)
      then have "n = 0 \<or> 1 < n" by arith
      then show ?thesis
        unfolding get_workbook_def matching_workbooks_def Let_def n n' by auto
    qed
  qed
qed

theorem get_workbook_resolution_witness:
  "get_workbook
     [[\<lparr>wb_id = ''2'', wb_name = ''sales'', wb_project_name = ''Ops'', wb_views = []\<rparr>],
      [\<lparr>wb_id = ''1'', wb_name = ''Sales'', wb_project_name = ''Ops'', wb_views = []\<rparr>]]
     (JStr ''Sales'') (JStr ''Ops'')
   = Inr \<lparr>wb_id = ''1'', wb_name = ''Sales'', wb_project_name = ''Ops'', wb_views = []\<rparr>
   \<and> get_workbook
     [[\<lparr>wb_id = ''1'', wb_name = ''Sales'', wb_project_name = ''Ops'', wb_views = []\<rparr>,
       \<lparr>wb_id = ''2'', wb_name = ''sales'', wb_project_name = ''Ops'', wb_views = []\<rparr>]]
     (JStr ''Sales'') (JStr ''Ops'')
   = Inr \<lparr>wb_id = ''1'', wb_name = ''Sales'', wb_project_name = ''Ops'', wb_views = []\<rparr>"
proof -
  let ?a = "\<lparr>wb_id = ''1'', wb_name = ''Sales'', wb_project_name = ''Ops'', wb_views = []\<rparr>"
  let ?b = "\<lparr>wb_id = ''2'', wb_name = ''sales'', wb_project_name = ''Ops'', wb_views = []\<rparr>"
  have m: "matching_workbooks (concat [[?b], [?a]]) (JStr ''Sales'') (JStr ''Ops'') = [?a]"
    by (simp add: matching_workbooks_def)
  have p: "mset (concat [[?a, ?b]]) = mset (concat [[?b], [?a]])"
    by simp
  note r = get_workbook_resolution [of "[[?b], [?a]]" "JStr ''Sales''" "JStr ''Ops''"]
  have one: "get_workbook [[?b], [?a]] (JStr ''Sales'') (JStr ''Ops'') = Inr ?a"
    using r m by blast
  have "get_workbook [[?a, ?b]] (JStr ''Sales'') (JStr ''Ops'')
          = get_workbook [[?b], [?a]] (JStr ''Sales'') (JStr ''Ops'')"
    using r p by blast
  with one show ?thesis by simp
qed

subsection \<open>Tile geometry\<close>

lemma grid_2_2: "grid 2 2 = [(0, 0), (0, 1), (1, 0), (1, 1)]"
  by (simp add: grid_def upto.simps)

lemma str_int_0: "str_int 0 = ''0''"
  by (simp add: str_int_def str_nat.simps digit_char_def)

lemma str_int_1: "str_int 1 = ''1''"
  by (simp add: str_int_def str_nat.simps digit_char_def)

lemma write_file_data: "write_file p b fs = Inr fs1 \<Longrightarrow> data fs1 = (data fs)(p \<mapsto> b)"
  by (auto simp add: write_file_def split: if_splits option.splits)

lemma makedirs_data: "makedirs d fs = Inr fs1 \<Longrightarrow> data fs1 = data fs"
  by (auto simp add: makedirs_def split: if_splits)

lemma starts_with_slash: "starts_with s ''/'' = (s \<noteq> [] \<and> hd s = CHR ''/'')"
  by (cases s) auto

lemma path_join_tail_inj:
  assumes "path_join d (n @ x) = path_join d (n @ y)"
    and "x \<noteq> []" and "y \<noteq> []" and "hd x = hd y"
  shows "x = y"
proof -
  have "starts_with (n @ x) ''/'' = starts_with (n @ y) ''/''"
    using assms(2-4) by (cases n) (simp_all add: starts_with_slash)
  then show ?thesis
    using assms(1) by (auto simp add: path_join_def split: if_splits)
qed

lemma tile_paths_distinct:
  "path_join d (export_name n 0 0) \<noteq> path_join d (export_name n 1 0)"
  "path_join d (export_name n 0 0) \<noteq> path_join d (export_name n 1 1)"
  "path_join d (export_name n 1 0) \<noteq> path_join d (export_name n 1 1)"
  unfolding export_name_def str_int_0 str_int_1
  by (auto dest!: path_join_tail_inj)

text \<open>
  C3. For an image of width \<open>W\<close> and height \<open>H\<close> split with \<open>rows = 2\<close> and
  \<open>cols = 2\<close>, a split that completes appends three tile names to the index and
  writes three tiles: the tile of row 0 is \<open>W\<close> wide (the full width, not \<open>W div 2\<close>)
  and \<open>H div 2\<close> high, each tile of row 1 is \<open>W div 2\<close> wide and \<open>H div 2\<close> high.
  The boxes of row 1 end at \<open>2 * (W div 2)\<close> and \<open>2 * (H div 2)\<close>: for an odd width
  or height the last column and the last row of pixels belong to no tile of row 1.
\<close>

theorem split_image_tile_geometry:
  assumes "image_size image_path fs = Inr (W, H)"
    and "split_image image_path output_dir 2 2 img_name (tmp_index, fs) = (None, tmp_index', fs')"
  shows "tmp_index' = tmp_index @ [export_name img_name 0 0, export_name img_name 1 0,
                                   export_name img_name 1 1]
    \<and> image_size (path_join output_dir (export_name img_name 0 0)) fs' = Inr (W, H div 2)
    \<and> image_size (path_join output_dir (export_name img_name 1 0)) fs' = Inr (W div 2, H div 2)
    \<and> image_size (path_join output_dir (export_name img_name 1 1)) fs' = Inr (W div 2, H div 2)
    \<and> tile_box W (W div 2) (H div 2) 0 0 = (0, 0, W, H div 2)
    \<and> tile_box W (W div 2) (H div 2) 1 0 = (0, H div 2, W div 2, 2 * (H div 2))
    \<and> tile_box W (W div 2) (H div 2) 1 1 = (W div 2, H div 2, 2 * (W div 2), 2 * (H div 2))"
proof -
  let ?p00 = "path_join output_dir (export_name img_name 0 0)"
  let ?p10 = "path_join output_dir (export_name img_name 1 0)"
  let ?p11 = "path_join output_dir (export_name img_name 1 1)"
  from assms obtain fs0 fs1 fs2 where
    mk: "makedirs output_dir fs = Inr fs0"
    and w1: "write_file ?p00 (Png W (H div 2)) fs0 = Inr fs1"
    and w2: "write_file ?p10 (Png (W div 2) (H div 2)) fs1 = Inr fs2"
    and w3: "write_file ?p11 (Png (W div 2) (H div 2)) fs2 = Inr fs'"
    and idx: "tmp_index' = tmp_index @ [export_name img_name 0 0, export_name img_name 1 0,
                                   export_name img_name 1 1]"
    by (auto simp add: split_image_def grid_2_2 tile_box_def Let_def split: sum.splits)
  have d: "data fs' = (data fs)(?p00 \<mapsto> Png W (H div 2), ?p10 \<mapsto> Png (W div 2) (H div 2),
                               ?p11 \<mapsto> Png (W div 2) (H div 2))"
    using write_file_data[OF w1] write_file_data[OF w2] write_file_data[OF w3] makedirs_data[OF mk]
    by simp
  show ?thesis
    using idx tile_paths_distinct[of output_dir img_name]
    by (simp add: image_size_def d tile_box_def)
qed


theorem split_image_tile_geometry_witness:
  "fst (split_image ''v/A.png'' ''v/slide_imgs'' 2 2 ''A''
          ([], \<lparr>dirs = [''v'' \<mapsto> [''A.png'']], data = [''v/A.png'' \<mapsto> Png 1601 901]\<rparr>)) = None
   \<and> fst (snd (split_image ''v/A.png'' ''v/slide_imgs'' 2 2 ''A''
          ([], \<lparr>dirs = [''v'' \<mapsto> [''A.png'']], data = [''v/A.png'' \<mapsto> Png 1601 901]\<rparr>)))
       = [''A_tile_0_0.png'', ''A_tile_1_0.png'', ''A_tile_1_1.png'']
   \<and> image_size ''v/slide_imgs/A_tile_0_0.png''
        (snd (snd (split_image ''v/A.png'' ''v/slide_imgs'' 2 2 ''A''
          ([], \<lparr>dirs = [''v'' \<mapsto> [''A.png'']], data = [''v/A.png'' \<mapsto> Png 1601 901]\<rparr>))))
       = Inr (1601, 450)
   \<and> image_size ''v/slide_imgs/A_tile_1_1.png''
        (snd (snd (split_image ''v/A.png'' ''v/slide_imgs'' 2 2 ''A''
          ([], \<lparr>dirs = [''v'' \<mapsto> [''A.png'']], data = [''v/A.png'' \<mapsto> Png 1601 901]\<rparr>))))
       = Inr (800, 450)"
proof -
  let ?fs = "\<lparr>dirs = [''v'' \<mapsto> [''A.png'']], data = [''v/A.png'' \<mapsto> Png 1601 901]\<rparr>"
  let ?r = "split_image ''v/A.png'' ''v/slide_imgs'' 2 2 ''A'' ([], ?fs)"
  have h1: "image_size ''v/A.png'' ?fs = Inr (1601, 901)"
    by (simp add: image_size_def)
  have ok: "fst ?r = None"
    by code_simp
  then have h2: "?r = (None, fst (snd ?r), snd (snd ?r))"
    by (metis prod.collapse)
  have n: "export_name ''A'' 0 0 = ''A_tile_0_0.png''" "export_name ''A'' 1 0 = ''A_tile_1_0.png''"
    "export_name ''A'' 1 1 = ''A_tile_1_1.png''"
    by (simp_all add: export_name_def str_int_def str_nat.simps digit_char_def)
  show ?thesis
    using split_image_tile_geometry [OF h1 h2] ok by (simp add: n path_join_def)
qed

subsection \<open>The index of exported images\<close>

lemma export_views_index:
  "export_views c opts img_dir ppt_slides vs w = (None, w1) \<Longrightarrow>
     img_indexing w1 = img_indexing w
       @ map (\<lambda>v. view_name v @ ''.png'') (filter (\<lambda>v. py_in (view_name v) ppt_slides = Inr True) vs)"
proof (induction vs arbitrary: w)
  case Nil
  then show ?case by simp
next
  case (Cons v vs)
  show ?case
  proof (cases "py_in (view_name v) ppt_slides")
    case (Inl e)
    with Cons.prems show ?thesis by simp
  next
    case (Inr requested)
    show ?thesis
    proof (cases requested)
      case False
      with Inr Cons.prems have "export_views c opts img_dir ppt_slides vs w = (None, w1)" by simp
      from Cons.IH[OF this] Inr False show ?thesis by simp
    next
      case True
      with Inr Cons.prems obtain w' where
        rec: "export_views c opts img_dir ppt_slides vs w' = (None, w1)"
        and idx: "img_indexing w' = img_indexing w @ [view_name v @ ''.png'']"
        by (auto simp add: Let_def split: sum.splits option.splits prod.splits)
      from Cons.IH[OF rec] idx Inr True show ?thesis by simp
    qed
  qed
qed

lemma py_in_JArr_strs: "(py_in s (JArr (map JStr names)) = Inr True) = (s \<in> set names)"
  by auto

lemma split_image_index:
  "split_image image_path output_dir 2 2 img_name (tmp_index, fs) = (None, tmp_index', fs') \<Longrightarrow>
     tmp_index' = tmp_index @ [export_name img_name 0 0, export_name img_name 1 0, export_name img_name 1 1]"
  by (auto simp add: split_image_def grid_2_2 Let_def split: sum.splits prod.splits)

lemma split_all_index:
  "split_all img_dir img_files (tmp_index, fs) = (None, tmp_index', fs') \<Longrightarrow>
     tmp_index' = tmp_index @ concat (map (\<lambda>f. [export_name (img_name_of f) 0 0,
                     export_name (img_name_of f) 1 0, export_name (img_name_of f) 1 1]) img_files)"
proof (induction img_files arbitrary: tmp_index fs)
  case Nil
  then show ?case by simp
next
  case (Cons f fs0)
  from Cons.prems obtain idx1 fs1 where
    one: "split_image (path_join img_dir f) (path_join img_dir ''slide_imgs'') 2 2 (img_name_of f)
            (tmp_index, fs) = (None, idx1, fs1)"
    and rest: "split_all img_dir fs0 (idx1, fs1) = (None, tmp_index', fs')"
    by (auto simp add: Let_def split: prod.splits option.splits)
  from split_image_index[OF one] Cons.IH[OF rest] show ?case by simp
qed

lemma generate_slide_imgs_index:
  "generate_slide_imgs img_dir w = (Inr d, w2) \<Longrightarrow>
     d = path_join img_dir ''slide_imgs'' \<and>
     img_indexing w2 = concat (map (\<lambda>f. [export_name (img_name_of f) 0 0,
                     export_name (img_name_of f) 1 0, export_name (img_name_of f) 1 1]) (img_indexing w))"
  by (auto simp add: generate_slide_imgs_def split: prod.splits option.splits dest: split_all_index)


lemma write_file_data_other: "write_file p b fs = Inr fs1 \<Longrightarrow> q \<noteq> p \<Longrightarrow> data fs1 q = data fs q"
  by (simp add: write_file_data)

lemma write_file_data_same: "write_file p b fs = Inr fs1 \<Longrightarrow> data fs1 p = Some b"
  by (simp add: write_file_data)

lemma export_views_untouched:
  "export_views c opts img_dir ppt_slides vs w = (None, w1) \<Longrightarrow>
     \<forall>v \<in> set (filter (\<lambda>v. py_in (view_name v) ppt_slides = Inr True) vs).
        p \<noteq> path_join img_dir (view_name v @ ''.png'') \<and> p \<noteq> path_join img_dir (view_name v @ ''.csv'') \<Longrightarrow>
     data (files w1) p = data (files w) p"
proof (induction vs arbitrary: w)
  case Nil
  then show ?case by simp
next
  case (Cons v vs)
  show ?case
  proof (cases "py_in (view_name v) ppt_slides")
    case (Inl e)
    with Cons.prems show ?thesis by simp
  next
    case (Inr requested)
    show ?thesis
    proof (cases requested)
      case False
      with Inr Cons.prems have r: "export_views c opts img_dir ppt_slides vs w = (None, w1)" by simp
      from Cons.prems(2) Inr False
      have "\<forall>v \<in> set (filter (\<lambda>v. py_in (view_name v) ppt_slides = Inr True) vs).
        p \<noteq> path_join img_dir (view_name v @ ''.png'') \<and> p \<noteq> path_join img_dir (view_name v @ ''.csv'')"
        by simp
      from Cons.IH[OF r this] show ?thesis .
    next
      case True
      with Inr Cons.prems(1) obtain iw ih fs1 fs2 where
        w1: "write_file (path_join img_dir (view_name v @ ''.png'')) (Png iw ih) (files w) = Inr fs1"
        and w2: "write_file (path_join img_dir (view_name v @ ''.csv'')) Bytes fs1 = Inr fs2"
        and rec: "export_views c opts img_dir ppt_slides vs
                    (w\<lparr>img_indexing := img_indexing w @ [view_name v @ ''.png''], files := fs2\<rparr>) = (None, w1)"
        by (auto simp add: Let_def split: sum.splits option.splits prod.splits)
      from Cons.prems(2) Inr True
      have ne: "p \<noteq> path_join img_dir (view_name v @ ''.png'')" "p \<noteq> path_join img_dir (view_name v @ ''.csv'')"
        and rest: "\<forall>v \<in> set (filter (\<lambda>v. py_in (view_name v) ppt_slides = Inr True) vs).
        p \<noteq> path_join img_dir (view_name v @ ''.png'') \<and> p \<noteq> path_join img_dir (view_name v @ ''.csv'')"
        by simp_all
      from Cons.IH[OF rec rest] write_file_data_other[OF w1 ne(1)] write_file_data_other[OF w2 ne(2)]
      show ?thesis by simp
    qed
  qed
qed

lemma path_join_last: "b \<noteq> [] \<Longrightarrow> last (path_join a b) = last b"
  by (auto simp add: path_join_def)

lemma png_csv_differ: "path_join d (n @ ''.png'') \<noteq> path_join d (m @ ''.csv'')"
proof
  assume "path_join d (n @ ''.png'') = path_join d (m @ ''.csv'')"
  then have "last (path_join d (n @ ''.png'')) = last (path_join d (m @ ''.csv''))" by simp
  then show False by (simp add: path_join_last)
qed

lemma export_views_keeps_files:
  "export_views c opts img_dir ppt_slides vs w = (None, w1) \<Longrightarrow>
     (\<exists>iw ih. data (files w) (path_join img_dir (n @ ''.png'')) = Some (Png iw ih)) \<Longrightarrow>
     (\<exists>iw ih. data (files w1) (path_join img_dir (n @ ''.png'')) = Some (Png iw ih))"
proof (induction vs arbitrary: w)
  case Nil
  then show ?case by simp
next
  case (Cons v vs)
  show ?case
  proof (cases "py_in (view_name v) ppt_slides")
    case (Inl e)
    with Cons.prems show ?thesis by simp
  next
    case (Inr requested)
    show ?thesis
    proof (cases requested)
      case False
      with Inr Cons.prems have r: "export_views c opts img_dir ppt_slides vs w = (None, w1)" by simp
      from Cons.IH[OF r Cons.prems(2)] show ?thesis .
    next
      case True
      with Inr Cons.prems(1) obtain iw ih fs1 fs2 where
        w1: "write_file (path_join img_dir (view_name v @ ''.png'')) (Png iw ih) (files w) = Inr fs1"
        and w2: "write_file (path_join img_dir (view_name v @ ''.csv'')) Bytes fs1 = Inr fs2"
        and rec: "export_views c opts img_dir ppt_slides vs
                    (w\<lparr>img_indexing := img_indexing w @ [view_name v @ ''.png''], files := fs2\<rparr>) = (None, w1)"
        by (auto simp add: Let_def split: sum.splits option.splits prod.splits)
      have "\<exists>iw ih. data fs1 (path_join img_dir (n @ ''.png'')) = Some (Png iw ih)"
        using Cons.prems(2) write_file_data[OF w1] by auto
      then have "\<exists>iw ih. data fs2 (path_join img_dir (n @ ''.png'')) = Some (Png iw ih)"
        using write_file_data_other[OF w2 png_csv_differ] by simp
      with Cons.IH[OF rec] show ?thesis by simp
    qed
  qed
qed

lemma export_views_written:
  "export_views c opts img_dir ppt_slides vs w = (None, w1) \<Longrightarrow>
     v \<in> set vs \<Longrightarrow> py_in (view_name v) ppt_slides = Inr True \<Longrightarrow>
     (\<exists>iw ih. data (files w1) (path_join img_dir (view_name v @ ''.png'')) = Some (Png iw ih))"
proof (induction vs arbitrary: w)
  case Nil
  then show ?case by simp
next
  case (Cons x vs)
  show ?case
  proof (cases "py_in (view_name x) ppt_slides")
    case (Inl e)
    with Cons.prems show ?thesis by simp
  next
    case (Inr requested)
    show ?thesis
    proof (cases requested)
      case False
      with Inr Cons.prems have r: "export_views c opts img_dir ppt_slides vs w = (None, w1)" by simp
      from False Inr Cons.prems have "v \<in> set vs" by auto
      from Cons.IH[OF r this Cons.prems(3)] show ?thesis .
    next
      case True
      with Inr Cons.prems(1) obtain iw ih fs1 fs2 where
        w1: "write_file (path_join img_dir (view_name x @ ''.png'')) (Png iw ih) (files w) = Inr fs1"
        and w2: "write_file (path_join img_dir (view_name x @ ''.csv'')) Bytes fs1 = Inr fs2"
        and rec: "export_views c opts img_dir ppt_slides vs
                    (w\<lparr>img_indexing := img_indexing w @ [view_name x @ ''.png''], files := fs2\<rparr>) = (None, w1)"
        by (auto simp add: Let_def split: sum.splits option.splits prod.splits)
      show ?thesis
      proof (cases "v = x")
        case True
        have "\<exists>iw ih. data fs2 (path_join img_dir (view_name x @ ''.png'')) = Some (Png iw ih)"
          using write_file_data_same[OF w1] write_file_data_other[OF w2 png_csv_differ] by simp
        with export_views_keeps_files[OF rec] True show ?thesis by simp
      next
        case False
        with Cons.prems have "v \<in> set vs" by simp
        from Cons.IH[OF rec this Cons.prems(3)] show ?thesis .
      qed
    qed
  qed
qed

text \<open>
  C7. An export that completes appends to the index, in the order of the views on the
  workbook, the file name of every view whose name is in \<open>ppt_slides\<close>; for a list of
  names that is membership in the list. It writes the image of each of these views and
  touches no file but their images and extracts. \<open>get_images\<close> returns the index whatever
  the directory holds, and \<open>generate_slide_imgs\<close> builds the tile index from it.
\<close>

theorem export_images_index:
  assumes "export_images c wb image_export_option img_dir ppt_slides w = (None, w1)"
  shows "img_indexing w1 = img_indexing w
           @ map (\<lambda>v. view_name v @ ''.png'')
               (filter (\<lambda>v. py_in (view_name v) ppt_slides = Inr True) (wb_views wb))
    \<and> (\<forall>names. ppt_slides = JArr (map JStr names) \<longrightarrow>
          filter (\<lambda>v. py_in (view_name v) ppt_slides = Inr True) (wb_views wb)
            = filter (\<lambda>v. view_name v \<in> set names) (wb_views wb))
    \<and> (\<forall>v \<in> set (wb_views wb). py_in (view_name v) ppt_slides = Inr True \<longrightarrow>
          (\<exists>iw ih. data (files w1) (path_join img_dir (view_name v @ ''.png'')) = Some (Png iw ih)))
    \<and> (\<forall>p. (\<forall>v \<in> set (filter (\<lambda>v. py_in (view_name v) ppt_slides = Inr True) (wb_views wb)).
               p \<noteq> path_join img_dir (view_name v @ ''.png'')
               \<and> p \<noteq> path_join img_dir (view_name v @ ''.csv'')) \<longrightarrow>
             data (files w1) p = data (files w) p)
    \<and> (\<forall>d fs. get_images d (w1\<lparr>files := fs\<rparr>) = img_indexing w1)
    \<and> (\<forall>d w2. generate_slide_imgs img_dir w1 = (Inr d, w2) \<longrightarrow>
          img_indexing w2 = concat (map (\<lambda>f. [export_name (img_name_of f) 0 0,
                     export_name (img_name_of f) 1 0, export_name (img_name_of f) 1 1])
                   (img_indexing w1)))"
proof -
  from assms have ev: "export_views c image_export_option img_dir ppt_slides (wb_views wb) w = (None, w1)"
    by (simp add: export_images_def)
  have 1: "img_indexing w1 = img_indexing w
           @ map (\<lambda>v. view_name v @ ''.png'')
               (filter (\<lambda>v. py_in (view_name v) ppt_slides = Inr True) (wb_views wb))"
    using ev by (rule export_views_index)
  have 2: "\<forall>names. ppt_slides = JArr (map JStr names) \<longrightarrow>
          filter (\<lambda>v. py_in (view_name v) ppt_slides = Inr True) (wb_views wb)
            = filter (\<lambda>v. view_name v \<in> set names) (wb_views wb)"
    by (simp add: py_in_JArr_strs del: py_in.simps)
  have 3: "\<forall>v \<in> set (wb_views wb). py_in (view_name v) ppt_slides = Inr True \<longrightarrow>
          (\<exists>iw ih. data (files w1) (path_join img_dir (view_name v @ ''.png'')) = Some (Png iw ih))"
    using export_views_written[OF ev] by blast
  have 4: "\<forall>p. (\<forall>v \<in> set (filter (\<lambda>v. py_in (view_name v) ppt_slides = Inr True) (wb_views wb)).
               p \<noteq> path_join img_dir (view_name v @ ''.png'')
               \<and> p \<noteq> path_join img_dir (view_name v @ ''.csv'')) \<longrightarrow>
             data (files w1) p = data (files w) p"
    using export_views_untouched[OF ev] by blast
  have 5: "\<forall>d fs. get_images d (w1\<lparr>files := fs\<rparr>) = img_indexing w1"
    by (simp add: get_images_def)
  have 6: "\<forall>d w2. generate_slide_imgs img_dir w1 = (Inr d, w2) \<longrightarrow>
          img_indexing w2 = concat (map (\<lambda>f. [export_name (img_name_of f) 0 0,
                     export_name (img_name_of f) 1 0, export_name (img_name_of f) 1 1])
                   (img_indexing w1))"
    using generate_slide_imgs_index by blast
  from 1 2 3 4 5 6 show ?thesis by blast
qed

theorem export_images_index_witness:
  "fst (export_images (sample_collaborator sample_config) (sample_workbook\<lparr>wb_views := sample_views\<rparr>)
          \<lparr>imageresolution = ''high'', maxage = 1, view_filters = []\<rparr> ''img/u1''
          (JArr [JStr ''B'', JStr ''A''])
          (initial_world\<lparr>files := \<lparr>dirs = [''img/u1'' \<mapsto> []], data = Map.empty\<rparr>\<rparr>)) = None
   \<and> img_indexing (snd (export_images (sample_collaborator sample_config)
          (sample_workbook\<lparr>wb_views := sample_views\<rparr>)
          \<lparr>imageresolution = ''high'', maxage = 1, view_filters = []\<rparr> ''img/u1''
          (JArr [JStr ''B'', JStr ''A''])
          (initial_world\<lparr>files := \<lparr>dirs = [''img/u1'' \<mapsto> []], data = Map.empty\<rparr>\<rparr>)))
       = [''A.png'', ''B.png'']"
proof -
  let ?w = "initial_world\<lparr>files := \<lparr>dirs = [''img/u1'' \<mapsto> []], data = Map.empty\<rparr>\<rparr>"
  let ?r = "export_images (sample_collaborator sample_config) (sample_workbook\<lparr>wb_views := sample_views\<rparr>)
          \<lparr>imageresolution = ''high'', maxage = 1, view_filters = []\<rparr> ''img/u1''
          (JArr [JStr ''B'', JStr ''A'']) ?w"
  have ok: "fst ?r = None"
    by code_simp
  then have h: "?r = (None, snd ?r)"
    by (metis prod.collapse)
  have "img_indexing (snd ?r) = img_indexing ?w
           @ map (\<lambda>v. view_name v @ ''.png'')
               (filter (\<lambda>v. py_in (view_name v) (JArr [JStr ''B'', JStr ''A'']) = Inr True)
                  (wb_views (sample_workbook\<lparr>wb_views := sample_views\<rparr>)))"
    using export_images_index [OF h] by blast
  then have "img_indexing (snd ?r) = [''A.png'', ''B.png'']"
    by (simp add: initial_world_def sample_views_def)
  with ok show ?thesis by simp
qed

subsection \<open>The order of the tiles\<close>

lemma add_images_to_ppt_paths:
  "add_images_to_ppt prs img_dir img_files fs = Inr prs1 \<Longrightarrow>
     map image_path_of prs1 = map image_path_of prs @ map (\<lambda>f. Some (path_join img_dir f)) img_files"
proof (induction img_files arbitrary: prs)
  case Nil
  then show ?case by simp
next
  case (Cons f img_files)
  from Cons.prems obtain prs0 where
    one: "add_image_to_ppt prs img_dir f fs = Inr prs0"
    and rest: "add_images_to_ppt prs0 img_dir img_files fs = Inr prs1"
    by (auto split: sum.splits)
  from one have "map image_path_of prs0 = map image_path_of prs @ [Some (path_join img_dir f)]"
    by (auto simp add: add_image_to_ppt_def Let_def split: sum.splits prod.splits)
  with Cons.IH[OF rest] show ?case by simp
qed

lemma add_images_to_pdf_paths:
  "add_images_to_pdf pdf page_dims img_dir img_files fs = Inr pdf1 \<Longrightarrow>
     map image_path_of pdf1 = map image_path_of pdf @ map (\<lambda>f. Some (path_join img_dir f)) img_files"
proof (induction img_files arbitrary: pdf)
  case Nil
  then show ?case by simp
next
  case (Cons f img_files)
  from Cons.prems obtain pdf0 where
    one: "add_image_to_pdf pdf page_dims (path_join img_dir f) fs = Inr pdf0"
    and rest: "add_images_to_pdf pdf0 page_dims img_dir img_files fs = Inr pdf1"
    by (auto simp add: Let_def split: sum.splits)
  from one have "map image_path_of pdf0 = map image_path_of pdf @ [Some (path_join img_dir f)]"
    by (auto simp add: add_image_to_pdf_def Let_def split: sum.splits prod.splits)
  with Cons.IH[OF rest] show ?case by simp
qed

lemma length_concat_triples: "length (concat (map (\<lambda>v. [f v, g v, h v]) xs)) = length xs * 3"
  by (induction xs) simp_all

lemma length_filter_names:
  assumes "distinct names" and "distinct (map view_name vs)"
    and "set names \<subseteq> view_name ` set vs"
  shows "length (filter (\<lambda>v. view_name v \<in> set names) vs) = length names"
proof -
  let ?sel = "filter (\<lambda>v. view_name v \<in> set names) vs"
  have d: "distinct (map view_name ?sel)"
    using assms(2) by (simp add: distinct_map_filter)
  have s: "set (map view_name ?sel) = set names"
    using assms(3) by auto
  have "length ?sel = length (map view_name ?sel)" by simp
  also have "\<dots> = card (set (map view_name ?sel))"
    using d by (simp only: distinct_card)
  also have "\<dots> = card (set names)" by (simp only: s)
  also have "\<dots> = length names" using assms(1) by (simp only: distinct_card)
  finally show ?thesis .
qed

lemma path_join_inj:
  assumes "d \<noteq> []" and "hd d \<noteq> CHR ''/''" and "path_join d a = path_join d b"
  shows "a = b"
  using assms by (auto simp add: path_join_def starts_with_slash split: if_splits)

lemma img_export_dir:
  assumes "\<not> starts_with u ''/''"
  shows "path_join img_export u \<noteq> [] \<and> hd (path_join img_export u) \<noteq> CHR ''/''"
  using assms by (simp add: path_join_def img_export_def)

lemma slide_imgs_dir:
  assumes "d \<noteq> []" and "hd d \<noteq> CHR ''/''"
  shows "path_join d ''slide_imgs'' \<noteq> [] \<and> hd (path_join d ''slide_imgs'') \<noteq> CHR ''/''"
  using assms by (simp add: path_join_def)

lemma tile_path_not_image_path:
  assumes "d \<noteq> []" and "hd d \<noteq> CHR ''/''" and "CHR ''/'' \<notin> set f"
  shows "path_join (path_join d ''slide_imgs'') t \<noteq> path_join d f"
proof
  assume eq: "path_join (path_join d ''slide_imgs'') t = path_join d f"
  from assms(3) have nf: "\<not> starts_with f ''/''"
    by (cases f) (auto simp add: starts_with_slash)
  show False
  proof (cases "starts_with t ''/''")
    case True
    then have "hd (path_join (path_join d ''slide_imgs'') t) = CHR ''/''"
      by (simp add: path_join_def starts_with_slash)
    moreover have "hd (path_join d f) = hd d"
      using nf assms(1) by (simp add: path_join_def)
    ultimately show False using eq assms(2) by simp
  next
    case False
    with eq nf assms(1) have "f = ''slide_imgs/'' @ t"
      by (auto simp add: path_join_def split: if_splits)
    with assms(3) show False by simp
  qed
qed

lemma tile_names_differ:
  assumes "n1 \<noteq> n2"
    and "t1 \<in> {export_name n1 0 0, export_name n1 1 0, export_name n1 1 1}"
    and "t2 \<in> {export_name n2 0 0, export_name n2 1 0, export_name n2 1 1}"
  shows "t1 \<noteq> t2"
  using assms unfolding export_name_def str_int_0 str_int_1 by auto

lemma distinct_map_names:
  "distinct (map (\<lambda>v. h (view_name v)) vs) \<Longrightarrow> distinct (map view_name vs)"
  by (induction vs) auto


lemma export_views_images:
  assumes "export_views c opts d ppt_slides vs w = (None, w1)"
    and "d \<noteq> []" and "hd d \<noteq> CHR ''/''"
    and "distinct (map view_name (filter (\<lambda>v. py_in (view_name v) ppt_slides = Inr True) vs))"
    and "v \<in> set vs" and "py_in (view_name v) ppt_slides = Inr True"
  shows "\<exists>W H. populate_image c v opts = Inr (W, H)
           \<and> data (files w1) (path_join d (view_name v @ ''.png'')) = Some (Png W H)"
  using assms(1,4,5)
proof (induction vs arbitrary: w)
  case Nil
  then show ?case by simp
next
  case (Cons x vs)
  show ?case
  proof (cases "py_in (view_name x) ppt_slides")
    case (Inl e)
    with Cons.prems show ?thesis by simp
  next
    case (Inr requested)
    show ?thesis
    proof (cases requested)
      case False
      with Inr Cons.prems have r: "export_views c opts d ppt_slides vs w = (None, w1)" by simp
      from False Inr Cons.prems assms(6) have m: "v \<in> set vs" by auto
      from False Inr Cons.prems(2)
      have "distinct (map view_name (filter (\<lambda>v. py_in (view_name v) ppt_slides = Inr True) vs))"
        by simp
      from Cons.IH[OF r this m] show ?thesis .
    next
      case True
      with Inr Cons.prems(1) obtain iw ih fs1 fs2 where
        img: "populate_image c x opts = Inr (iw, ih)"
        and w1: "write_file (path_join d (view_name x @ ''.png'')) (Png iw ih) (files w) = Inr fs1"
        and w2: "write_file (path_join d (view_name x @ ''.csv'')) Bytes fs1 = Inr fs2"
        and rec: "export_views c opts d ppt_slides vs
                    (w\<lparr>img_indexing := img_indexing w @ [view_name x @ ''.png''], files := fs2\<rparr>) = (None, w1)"
        by (auto simp add: Let_def split: sum.splits option.splits prod.splits)
      from True Inr Cons.prems(2)
      have dist: "distinct (map view_name (filter (\<lambda>v. py_in (view_name v) ppt_slides = Inr True) vs))"
        and nin: "view_name x \<notin> view_name ` set (filter (\<lambda>v. py_in (view_name v) ppt_slides = Inr True) vs)"
        by simp_all
      from nin
      have fresh: "\<forall>y \<in> set (filter (\<lambda>v. py_in (view_name v) ppt_slides = Inr True) vs).
                      view_name y \<noteq> view_name x"
        by (metis imageI)
      show ?thesis
      proof (cases "v \<in> set vs")
        case True
        from Cons.IH[OF rec dist True] show ?thesis .
      next
        case False
        with Cons.prems(3) have vx: "v = x" by simp
        have "\<forall>y \<in> set (filter (\<lambda>v. py_in (view_name v) ppt_slides = Inr True) vs).
                path_join d (view_name x @ ''.png'') \<noteq> path_join d (view_name y @ ''.png'')
                \<and> path_join d (view_name x @ ''.png'') \<noteq> path_join d (view_name y @ ''.csv'')"
        proof
          fix y assume y: "y \<in> set (filter (\<lambda>v. py_in (view_name v) ppt_slides = Inr True) vs)"
          with fresh have "view_name y \<noteq> view_name x" by blast
          then have "view_name x @ ''.png'' \<noteq> view_name y @ ''.png''" by simp
          with path_join_inj[OF assms(2,3)]
          have "path_join d (view_name x @ ''.png'') \<noteq> path_join d (view_name y @ ''.png'')"
            by blast
          with png_csv_differ
          show "path_join d (view_name x @ ''.png'') \<noteq> path_join d (view_name y @ ''.png'')
                \<and> path_join d (view_name x @ ''.png'') \<noteq> path_join d (view_name y @ ''.csv'')"
            by blast
        qed
        from export_views_untouched[OF rec this]
        have "data (files w1) (path_join d (view_name x @ ''.png''))
                = data fs2 (path_join d (view_name x @ ''.png''))"
          by simp
        also have "\<dots> = Some (Png iw ih)"
          using write_file_data_same[OF w1] write_file_data_other[OF w2 png_csv_differ] by simp
        finally show ?thesis using img vx by simp
      qed
    qed
  qed
qed

lemma split_image_tiles:
  assumes "split_image image_path output_dir 2 2 img_name (tmp_index, fs) = (None, tmp_index', fs')"
  shows "\<exists>W H. image_size image_path fs = Inr (W, H)
           \<and> data fs' = (data fs)(path_join output_dir (export_name img_name 0 0) \<mapsto> Png W (H div 2),
                                  path_join output_dir (export_name img_name 1 0) \<mapsto> Png (W div 2) (H div 2),
                                  path_join output_dir (export_name img_name 1 1) \<mapsto> Png (W div 2) (H div 2))"
proof -
  let ?p00 = "path_join output_dir (export_name img_name 0 0)"
  let ?p10 = "path_join output_dir (export_name img_name 1 0)"
  let ?p11 = "path_join output_dir (export_name img_name 1 1)"
  from assms obtain W H fs0 fs1 fs2 where
    sz: "image_size image_path fs = Inr (W, H)"
    and mk: "makedirs output_dir fs = Inr fs0"
    and w1: "write_file ?p00 (Png W (H div 2)) fs0 = Inr fs1"
    and w2: "write_file ?p10 (Png (W div 2) (H div 2)) fs1 = Inr fs2"
    and w3: "write_file ?p11 (Png (W div 2) (H div 2)) fs2 = Inr fs'"
    by (auto simp add: split_image_def grid_2_2 tile_box_def Let_def split: sum.splits)
  have "data fs' = (data fs)(?p00 \<mapsto> Png W (H div 2), ?p10 \<mapsto> Png (W div 2) (H div 2),
                               ?p11 \<mapsto> Png (W div 2) (H div 2))"
    using write_file_data[OF w1] write_file_data[OF w2] write_file_data[OF w3] makedirs_data[OF mk]
    by simp
  with sz show ?thesis by blast
qed

lemma split_all_untouched:
  assumes "split_all d img_files (tmp_index, fs) = (None, tmp_index', fs')"
    and "\<forall>f \<in> set img_files.
           p \<noteq> path_join (path_join d ''slide_imgs'') (export_name (img_name_of f) 0 0)
         \<and> p \<noteq> path_join (path_join d ''slide_imgs'') (export_name (img_name_of f) 1 0)
         \<and> p \<noteq> path_join (path_join d ''slide_imgs'') (export_name (img_name_of f) 1 1)"
  shows "data fs' p = data fs p"
  using assms
proof (induction img_files arbitrary: tmp_index fs)
  case Nil
  then show ?case by simp
next
  case (Cons f img_files)
  from Cons.prems(1) obtain idx1 fs1 where
    one: "split_image (path_join d f) (path_join d ''slide_imgs'') 2 2 (img_name_of f)
            (tmp_index, fs) = (None, idx1, fs1)"
    and rest: "split_all d img_files (idx1, fs1) = (None, tmp_index', fs')"
    by (auto simp add: Let_def split: prod.splits option.splits)
  from Cons.prems(2) have r: "\<forall>f \<in> set img_files.
           p \<noteq> path_join (path_join d ''slide_imgs'') (export_name (img_name_of f) 0 0)
         \<and> p \<noteq> path_join (path_join d ''slide_imgs'') (export_name (img_name_of f) 1 0)
         \<and> p \<noteq> path_join (path_join d ''slide_imgs'') (export_name (img_name_of f) 1 1)"
    by simp
  from split_image_tiles[OF one] Cons.prems(2) have "data fs1 p = data fs p"
    by auto
  with Cons.IH[OF rest r] show ?case by simp
qed

lemma split_all_tiles:
  assumes "split_all d img_files (tmp_index, fs) = (None, tmp_index', fs')"
    and "d \<noteq> []" and "hd d \<noteq> CHR ''/''"
    and "\<forall>f \<in> set img_files. CHR ''/'' \<notin> set f"
    and "distinct (map img_name_of img_files)"
    and "f \<in> set img_files"
  shows "\<exists>W H. image_size (path_join d f) fs = Inr (W, H)
     \<and> image_size (path_join (path_join d ''slide_imgs'') (export_name (img_name_of f) 0 0)) fs'
         = Inr (W, H div 2)
     \<and> image_size (path_join (path_join d ''slide_imgs'') (export_name (img_name_of f) 1 0)) fs'
         = Inr (W div 2, H div 2)
     \<and> image_size (path_join (path_join d ''slide_imgs'') (export_name (img_name_of f) 1 1)) fs'
         = Inr (W div 2, H div 2)"
  using assms(1,4,5,6)
proof (induction img_files arbitrary: tmp_index fs)
  case Nil
  then show ?case by simp
next
  case (Cons g img_files)
  let ?E = "path_join d ''slide_imgs''"
  note E = slide_imgs_dir[OF assms(2,3)]
  from Cons.prems(1) obtain idx1 fs1 where
    one: "split_image (path_join d g) ?E 2 2 (img_name_of g) (tmp_index, fs) = (None, idx1, fs1)"
    and rest: "split_all d img_files (idx1, fs1) = (None, tmp_index', fs')"
    by (auto simp add: Let_def split: prod.splits option.splits)
  from split_image_tiles[OF one] obtain W H where
    sz: "image_size (path_join d g) fs = Inr (W, H)"
    and d1: "data fs1 = (data fs)(path_join ?E (export_name (img_name_of g) 0 0) \<mapsto> Png W (H div 2),
                                  path_join ?E (export_name (img_name_of g) 1 0) \<mapsto> Png (W div 2) (H div 2),
                                  path_join ?E (export_name (img_name_of g) 1 1) \<mapsto> Png (W div 2) (H div 2))"
    by blast
  from Cons.prems(2) have nosl: "\<forall>f \<in> set img_files. CHR ''/'' \<notin> set f" by simp
  from Cons.prems(3) have dist: "distinct (map img_name_of img_files)"
    and fresh: "\<forall>h \<in> set img_files. img_name_of g \<noteq> img_name_of h" by auto
  show ?case
  proof (cases "f \<in> set img_files")
    case True
    from Cons.IH[OF rest nosl dist True] obtain W' H' where
      a: "image_size (path_join d f) fs1 = Inr (W', H')"
      and b: "image_size (path_join ?E (export_name (img_name_of f) 0 0)) fs' = Inr (W', H' div 2)"
        "image_size (path_join ?E (export_name (img_name_of f) 1 0)) fs' = Inr (W' div 2, H' div 2)"
        "image_size (path_join ?E (export_name (img_name_of f) 1 1)) fs' = Inr (W' div 2, H' div 2)"
      by blast
    from nosl True have "CHR ''/'' \<notin> set f" by blast
    then have "\<And>t. path_join ?E t \<noteq> path_join d f"
      by (rule tile_path_not_image_path[OF assms(2,3)])
    then have "data fs1 (path_join d f) = data fs (path_join d f)"
      unfolding d1 by (simp add: fun_upd_def) metis
    with a have "image_size (path_join d f) fs = Inr (W', H')"
      by (simp add: image_size_def)
    with b show ?thesis by blast
  next
    case False
    with Cons.prems(4) have fg: "f = g" by simp
    have un: "data fs' (path_join ?E t) = data fs1 (path_join ?E t)"
      if t: "t \<in> {export_name (img_name_of g) 0 0, export_name (img_name_of g) 1 0,
                  export_name (img_name_of g) 1 1}" for t
    proof (rule split_all_untouched[OF rest], rule ballI)
      fix h assume "h \<in> set img_files"
      with fresh have ne: "img_name_of g \<noteq> img_name_of h" by blast
      have "t \<noteq> t'" if "t' \<in> {export_name (img_name_of h) 0 0, export_name (img_name_of h) 1 0,
                  export_name (img_name_of h) 1 1}" for t'
        using tile_names_differ[OF ne t that] .
      then have "path_join ?E t \<noteq> path_join ?E t'"
        if "t' \<in> {export_name (img_name_of h) 0 0, export_name (img_name_of h) 1 0,
                  export_name (img_name_of h) 1 1}" for t'
        using that path_join_inj[OF E[THEN conjunct1] E[THEN conjunct2]] by blast
      then show "path_join ?E t \<noteq> path_join ?E (export_name (img_name_of h) 0 0)
         \<and> path_join ?E t \<noteq> path_join ?E (export_name (img_name_of h) 1 0)
         \<and> path_join ?E t \<noteq> path_join ?E (export_name (img_name_of h) 1 1)"
        by simp
    qed
    have "image_size (path_join ?E (export_name (img_name_of g) 0 0)) fs' = Inr (W, H div 2)"
      using un[of "export_name (img_name_of g) 0 0"] tile_paths_distinct[of ?E "img_name_of g"]
      by (simp add: image_size_def d1)
    moreover have "image_size (path_join ?E (export_name (img_name_of g) 1 0)) fs' = Inr (W div 2, H div 2)"
      using un[of "export_name (img_name_of g) 1 0"] tile_paths_distinct[of ?E "img_name_of g"]
      by (simp add: image_size_def d1)
    moreover have "image_size (path_join ?E (export_name (img_name_of g) 1 1)) fs' = Inr (W div 2, H div 2)"
      using un[of "export_name (img_name_of g) 1 1"] tile_paths_distinct[of ?E "img_name_of g"]
      by (simp add: image_size_def d1)
    ultimately show ?thesis using sz fg by blast
  qed
qed

lemma create_deck_written:
  assumes "create_deck img_dir export_path workbook_name project_name w = (None, w3)"
  shows "\<exists>pages. data (files w3) = (data (files w))(export_path \<mapsto> Document pages)
           \<and> map image_path_of pages = None # map (\<lambda>f. Some (path_join img_dir f)) (img_indexing w)"
proof -
  from assms obtain prs1 fs1 where
    a: "add_images_to_ppt (add_title_slide [] workbook_name project_name) img_dir (img_indexing w) (files w)
          = Inr prs1"
    and b: "write_file export_path (Document prs1) (files w) = Inr fs1"
    and c: "w3 = w\<lparr>files := fs1\<rparr>"
    by (auto simp add: create_deck_def get_images_def Let_def split: sum.splits)
  from add_images_to_ppt_paths[OF a]
  have "map image_path_of prs1 = None # map (\<lambda>f. Some (path_join img_dir f)) (img_indexing w)"
    by (simp add: add_title_slide_def)
  with write_file_data[OF b] c show ?thesis by auto
qed

lemma export_as_pdf_written:
  assumes "export_as_pdf c img_dir output_path pdf_config w = (None, w3)"
  shows "\<exists>pages. data (files w3) = (data (files w))(output_path \<mapsto> Document pages)
           \<and> map image_path_of pages = None # map (\<lambda>f. Some (path_join img_dir f)) (img_indexing w)"
proof -
  from assms obtain pdf page_dims pdf1 fs1 where
    t: "add_title_page [] pdf_config = Inr pdf"
    and a: "add_images_to_pdf pdf page_dims img_dir (img_indexing w) (files w) = Inr pdf1"
    and b: "write_file output_path (Document pdf1) (files w) = Inr fs1"
    and c: "w3 = w\<lparr>files := fs1\<rparr>"
    by (auto simp add: export_as_pdf_def get_images_def Let_def split: sum.splits)
  from t have "map image_path_of pdf = [None]"
    by (auto simp add: add_title_page_def Let_def split: sum.splits option.splits)
  with add_images_to_pdf_paths[OF a]
  have "map image_path_of pdf1 = None # map (\<lambda>f. Some (path_join img_dir f)) (img_indexing w)"
    by simp
  with write_file_data[OF b] c show ?thesis by auto
qed

lemma step_6_ppt_written:
  assumes "export_type a = ''ppt''"
    and "step_6 c a workbook_name project_name img_dir w = (None, w3)"
  shows "\<exists>pages. data (files w3)
             = (data (files w))(path_join (path_join ppt_location ''ppt'') (py_str workbook_name @ ''.pptx'')
                                  \<mapsto> Document pages)
           \<and> map image_path_of pages = None # map (\<lambda>f. Some (path_join img_dir f)) (img_indexing w)"
proof -
  from assms obtain fs1 where
    mk: "makedirs (path_join ppt_location ''ppt'') (files w) = Inr fs1"
    and cd: "create_deck img_dir (path_join (path_join ppt_location ''ppt'') (py_str workbook_name @ ''.pptx''))
        workbook_name project_name (w\<lparr>files := fs1\<rparr>) = (None, w3)"
    by (auto simp add: step_6_def Let_def split: sum.splits)
  from create_deck_written[OF cd] makedirs_data[OF mk] show ?thesis by simp
qed

lemma step_6_pdf_written:
  assumes "export_type a = ''pdf''"
    and "step_6 c a workbook_name project_name img_dir w = (None, w3)"
  shows "\<exists>pages. data (files w3)
             = (data (files w))(path_join (path_join ppt_location ''pdf'') (py_str workbook_name @ ''.pdf'')
                                  \<mapsto> Document pages)
           \<and> map image_path_of pages = None # map (\<lambda>f. Some (path_join img_dir f)) (img_indexing w)"
proof -
  from assms obtain fs1 cfg where
    mk: "makedirs (path_join ppt_location ''pdf'') (files w) = Inr fs1"
    and ex: "export_as_pdf c img_dir (path_join (path_join ppt_location ''pdf'') (py_str workbook_name @ ''.pdf''))
        cfg (w\<lparr>files := fs1\<rparr>) = (None, w3)"
    by (auto simp add: step_6_def Let_def split: sum.splits)
  from export_as_pdf_written[OF ex] makedirs_data[OF mk] show ?thesis by simp
qed

lemma step_5_stages:
  assumes "step_5 c wb image_export_option ppt_slides w = (Inr img_dir, w2)"
  shows "\<exists>fs1 w1 tmp_index.
           export_views c image_export_option (path_join img_export (uuid4 c)) ppt_slides (wb_views wb)
             (w\<lparr>files := fs1\<rparr>) = (None, w1)
           \<and> split_all (path_join img_export (uuid4 c)) (img_indexing w1) ([], files w1)
               = (None, tmp_index, files w2)
           \<and> img_indexing w2 = tmp_index
           \<and> img_dir = path_join (path_join img_export (uuid4 c)) ''slide_imgs''"
proof -
  from assms obtain fs1 w1 tmp_index fs' where
    a: "export_views c image_export_option (path_join img_export (uuid4 c)) ppt_slides (wb_views wb)
             (w\<lparr>files := fs1\<rparr>) = (None, w1)"
    and b: "split_all (path_join img_export (uuid4 c)) (img_indexing w1) ([], files w1)
               = (None, tmp_index, fs')"
    and c: "img_dir = path_join (path_join img_export (uuid4 c)) ''slide_imgs''"
    and d: "w2 = w1\<lparr>img_indexing := tmp_index, files := fs'\<rparr>"
    by (auto simp add: step_5_def export_images_def generate_slide_imgs_def Let_def
          split: sum.splits prod.splits option.splits)
  from d have "files w2 = fs'" "img_indexing w2 = tmp_index" by simp_all
  with a b c show ?thesis by blast
qed


text \<open>
  C1 as stated fails: the tiles follow the order of the views on the workbook, not the
  order of \<open>slide_views\<close>. In the sample run the configuration asks for B, then A; the
  workbook lists A, then B; the tile index and the pages of the deck have the tiles
  of A first.
\<close>

theorem tile_order_counterexample:
  "fst (main (sample_collaborator sample_config) (sample_args ''ppt'') initial_world) = None
   \<and> img_indexing (snd (main (sample_collaborator sample_config) (sample_args ''ppt'') initial_world))
       = [''A_tile_0_0.png'', ''A_tile_1_0.png'', ''A_tile_1_1.png'',
          ''B_tile_0_0.png'', ''B_tile_1_0.png'', ''B_tile_1_1.png'']
   \<and> img_indexing (snd (main (sample_collaborator sample_config) (sample_args ''ppt'') initial_world))
       \<noteq> [''B_tile_0_0.png'', ''B_tile_1_0.png'', ''B_tile_1_1.png'',
          ''A_tile_0_0.png'', ''A_tile_1_0.png'', ''A_tile_1_1.png'']
   \<and> (case data (files (snd (main (sample_collaborator sample_config) (sample_args ''ppt'') initial_world)))
              ''ppt/Sales.pptx'' of
         Some (Document pages) \<Rightarrow>
           map image_path_of pages
             = [None, Some ''img/u1/slide_imgs/A_tile_0_0.png'', Some ''img/u1/slide_imgs/A_tile_1_0.png'',
                Some ''img/u1/slide_imgs/A_tile_1_1.png'', Some ''img/u1/slide_imgs/B_tile_0_0.png'',
                Some ''img/u1/slide_imgs/B_tile_1_0.png'', Some ''img/u1/slide_imgs/B_tile_1_1.png'']
       | _ \<Rightarrow> False)"
  by code_simp

text \<open>
  C1, amended. When STEP 5 completes from an empty index, the tile index is the
  concatenation, in the order in which the views appear on the workbook, of the three
  tile names of each view whose name is in \<open>slide_views\<close>: row 0, then row 1 column 0,
  then row 1 column 1. When \<open>slide_views\<close> is a list of \<open>N\<close> distinct names, each the
  name of a view of the workbook, and the views of the workbook have distinct names,
  the index has \<open>N * 3\<close> entries.

  A tile file is named from the name of its view up to the first dot, in the tile
  directory of the run. When the identifier of the run does not begin with a slash,
  no requested view has a slash in its name, and the names of the requested views
  differ from each other up to their first dot, the three files the index names for a
  view hold, at the end of STEP 5, the tiles of the image the server rendered for that
  view: for a render of \<open>W\<close> by \<open>H\<close> pixels, one of \<open>W\<close> by \<open>H div 2\<close> and two
  of \<open>W div 2\<close> by \<open>H div 2\<close>.

  STEP 6 then changes one file only: \<open>ppt/<workbook name>.pptx\<close> for a deck and
  \<open>pdf/<workbook name>.pdf\<close> for a PDF. The document has a title page followed by one
  page for each entry of the index, in the order of the index, showing the tile file
  of that entry.
\<close>

theorem tile_index_order:
  assumes "img_indexing w = []"
    and "step_5 c wb image_export_option ppt_slides w = (Inr img_dir, w2)"
  shows "img_dir = path_join (path_join img_export (uuid4 c)) ''slide_imgs''
    \<and> img_indexing w2
           = concat (map (\<lambda>v. [export_name (img_name_of (view_name v @ ''.png'')) 0 0,
                                export_name (img_name_of (view_name v @ ''.png'')) 1 0,
                                export_name (img_name_of (view_name v @ ''.png'')) 1 1])
                      (filter (\<lambda>v. py_in (view_name v) ppt_slides = Inr True) (wb_views wb)))
    \<and> (\<forall>names. ppt_slides = JArr (map JStr names) \<and> distinct names
                 \<and> distinct (map view_name (wb_views wb))
                 \<and> set names \<subseteq> view_name ` set (wb_views wb) \<longrightarrow>
               length (img_indexing w2) = length names * 3)
    \<and> (\<not> starts_with (uuid4 c) ''/''
         \<and> (\<forall>v \<in> set (filter (\<lambda>v. py_in (view_name v) ppt_slides = Inr True) (wb_views wb)).
               CHR ''/'' \<notin> set (view_name v))
         \<and> distinct (map (\<lambda>v. img_name_of (view_name v @ ''.png''))
                        (filter (\<lambda>v. py_in (view_name v) ppt_slides = Inr True) (wb_views wb))) \<longrightarrow>
       (\<forall>v \<in> set (filter (\<lambda>v. py_in (view_name v) ppt_slides = Inr True) (wb_views wb)).
          \<exists>W H. populate_image c v image_export_option = Inr (W, H)
            \<and> image_size (path_join img_dir (export_name (img_name_of (view_name v @ ''.png'')) 0 0))
                 (files w2) = Inr (W, H div 2)
            \<and> image_size (path_join img_dir (export_name (img_name_of (view_name v @ ''.png'')) 1 0))
                 (files w2) = Inr (W div 2, H div 2)
            \<and> image_size (path_join img_dir (export_name (img_name_of (view_name v @ ''.png'')) 1 1))
                 (files w2) = Inr (W div 2, H div 2)))
    \<and> (\<forall>a workbook_name project_name w3.
          step_6 c a workbook_name project_name img_dir w2 = (None, w3) \<longrightarrow>
          (export_type a = ''ppt'' \<longrightarrow>
             (\<exists>pages. data (files w3)
                 = (data (files w2))(path_join (path_join ppt_location ''ppt'')
                                       (py_str workbook_name @ ''.pptx'') \<mapsto> Document pages)
               \<and> map image_path_of pages
                   = None # map (\<lambda>f. Some (path_join img_dir f)) (img_indexing w2)))
          \<and> (export_type a = ''pdf'' \<longrightarrow>
             (\<exists>pages. data (files w3)
                 = (data (files w2))(path_join (path_join ppt_location ''pdf'')
                                       (py_str workbook_name @ ''.pdf'') \<mapsto> Document pages)
               \<and> map image_path_of pages
                   = None # map (\<lambda>f. Some (path_join img_dir f)) (img_indexing w2))))"
proof -
  let ?sel = "filter (\<lambda>v. py_in (view_name v) ppt_slides = Inr True) (wb_views wb)"
  let ?d = "path_join img_export (uuid4 c)"
  let ?tiles = "\<lambda>f. [export_name (img_name_of f) 0 0, export_name (img_name_of f) 1 0,
                     export_name (img_name_of f) 1 1]"
  from step_5_stages[OF assms(2)] obtain fs1 w1 tmp_index where
    ex: "export_views c image_export_option ?d ppt_slides (wb_views wb) (w\<lparr>files := fs1\<rparr>) = (None, w1)"
    and sp: "split_all ?d (img_indexing w1) ([], files w1) = (None, tmp_index, files w2)"
    and ti: "img_indexing w2 = tmp_index"
    and dir: "img_dir = path_join ?d ''slide_imgs''"
    by blast
  from export_views_index[OF ex] assms(1)
  have i1: "img_indexing w1 = map (\<lambda>v. view_name v @ ''.png'') ?sel"
    by simp
  from split_all_index[OF sp] ti
  have "img_indexing w2 = concat (map ?tiles (img_indexing w1))"
    by simp
  then have idx: "img_indexing w2 = concat (map (\<lambda>v. ?tiles (view_name v @ ''.png'')) ?sel)"
    by (simp add: i1 comp_def)
  have len: "length (img_indexing w2) = length ?sel * 3"
    unfolding idx by (rule length_concat_triples)
  have n: "length (img_indexing w2) = length names * 3"
    if "ppt_slides = JArr (map JStr names) \<and> distinct names
          \<and> distinct (map view_name (wb_views wb))
          \<and> set names \<subseteq> view_name ` set (wb_views wb)" for names
  proof -
    from that have "?sel = filter (\<lambda>v. view_name v \<in> set names) (wb_views wb)"
      by (simp add: py_in_JArr_strs del: py_in.simps)
    with that length_filter_names[of names "wb_views wb"] len show ?thesis by simp
  qed
  have tiles: "\<exists>W H. populate_image c v image_export_option = Inr (W, H)
            \<and> image_size (path_join img_dir (export_name (img_name_of (view_name v @ ''.png'')) 0 0))
                 (files w2) = Inr (W, H div 2)
            \<and> image_size (path_join img_dir (export_name (img_name_of (view_name v @ ''.png'')) 1 0))
                 (files w2) = Inr (W div 2, H div 2)
            \<and> image_size (path_join img_dir (export_name (img_name_of (view_name v @ ''.png'')) 1 1))
                 (files w2) = Inr (W div 2, H div 2)"
    if h: "\<not> starts_with (uuid4 c) ''/''
         \<and> (\<forall>v \<in> set ?sel. CHR ''/'' \<notin> set (view_name v))
         \<and> distinct (map (\<lambda>v. img_name_of (view_name v @ ''.png'')) ?sel)"
      and v: "v \<in> set ?sel" for v
  proof -
    from h have d: "?d \<noteq> []" "hd ?d \<noteq> CHR ''/''"
      using img_export_dir[of "uuid4 c"] by simp_all
    from h have dn: "distinct (map view_name ?sel)"
      using distinct_map_names[of "\<lambda>n. img_name_of (n @ ''.png'')" ?sel] by simp
    from v have v1: "v \<in> set (wb_views wb)" and v2: "py_in (view_name v) ppt_slides = Inr True"
      by simp_all
    from export_views_images[OF ex d dn v1 v2] obtain W H where
      img: "populate_image c v image_export_option = Inr (W, H)"
      and png: "data (files w1) (path_join ?d (view_name v @ ''.png'')) = Some (Png W H)"
      by blast
    have nosl: "\<forall>f \<in> set (img_indexing w1). CHR ''/'' \<notin> set f"
      using h by (auto simp add: i1)
    have dist: "distinct (map img_name_of (img_indexing w1))"
      using h by (simp add: i1 comp_def)
    have mem: "view_name v @ ''.png'' \<in> set (img_indexing w1)"
      using v unfolding i1 by (simp only: set_map) (rule imageI)
    from split_all_tiles[OF sp d nosl dist mem] obtain W' H' where
      sz: "image_size (path_join ?d (view_name v @ ''.png'')) (files w1) = Inr (W', H')"
      and t: "image_size (path_join (path_join ?d ''slide_imgs'')
                 (export_name (img_name_of (view_name v @ ''.png'')) 0 0)) (files w2) = Inr (W', H' div 2)"
        "image_size (path_join (path_join ?d ''slide_imgs'')
                 (export_name (img_name_of (view_name v @ ''.png'')) 1 0)) (files w2) = Inr (W' div 2, H' div 2)"
        "image_size (path_join (path_join ?d ''slide_imgs'')
                 (export_name (img_name_of (view_name v @ ''.png'')) 1 1)) (files w2) = Inr (W' div 2, H' div 2)"
      by blast
    from sz png have "W' = W" "H' = H"
      by (simp_all add: image_size_def)
    with t img show ?thesis
      unfolding dir by blast
  qed
  have doc: "(export_type a = ''ppt'' \<longrightarrow>
             (\<exists>pages. data (files w3)
                 = (data (files w2))(path_join (path_join ppt_location ''ppt'')
                                       (py_str workbook_name @ ''.pptx'') \<mapsto> Document pages)
               \<and> map image_path_of pages
                   = None # map (\<lambda>f. Some (path_join img_dir f)) (img_indexing w2)))
          \<and> (export_type a = ''pdf'' \<longrightarrow>
             (\<exists>pages. data (files w3)
                 = (data (files w2))(path_join (path_join ppt_location ''pdf'')
                                       (py_str workbook_name @ ''.pdf'') \<mapsto> Document pages)
               \<and> map image_path_of pages
                   = None # map (\<lambda>f. Some (path_join img_dir f)) (img_indexing w2)))"
    if "step_6 c a workbook_name project_name img_dir w2 = (None, w3)"
    for a workbook_name project_name w3
    using step_6_ppt_written[OF _ that] step_6_pdf_written[OF _ that] by blast
  from dir idx n tiles doc show ?thesis by blast
qed

theorem tile_index_order_witness:
  "fst (step_5 (sample_collaborator sample_config) (sample_workbook\<lparr>wb_views := sample_views\<rparr>)
          \<lparr>imageresolution = ''high'', maxage = 1, view_filters = []\<rparr>
          (JArr [JStr ''B'', JStr ''A'']) initial_world) = Inr ''img/u1/slide_imgs''
   \<and> length (img_indexing (snd (step_5 (sample_collaborator sample_config)
          (sample_workbook\<lparr>wb_views := sample_views\<rparr>)
          \<lparr>imageresolution = ''high'', maxage = 1, view_filters = []\<rparr>
          (JArr [JStr ''B'', JStr ''A'']) initial_world))) = 6
   \<and> img_indexing (snd (step_5 (sample_collaborator sample_config)
          (sample_workbook\<lparr>wb_views := sample_views\<rparr>)
          \<lparr>imageresolution = ''high'', maxage = 1, view_filters = []\<rparr>
          (JArr [JStr ''B'', JStr ''A'']) initial_world))
       = [''A_tile_0_0.png'', ''A_tile_1_0.png'', ''A_tile_1_1.png'',
          ''B_tile_0_0.png'', ''B_tile_1_0.png'', ''B_tile_1_1.png'']
   \<and> image_size ''img/u1/slide_imgs/B_tile_0_0.png''
        (files (snd (step_5 (sample_collaborator sample_config)
          (sample_workbook\<lparr>wb_views := sample_views\<rparr>)
          \<lparr>imageresolution = ''high'', maxage = 1, view_filters = []\<rparr>
          (JArr [JStr ''B'', JStr ''A'']) initial_world))) = Inr (1601, 450)
   \<and> image_size ''img/u1/slide_imgs/B_tile_1_1.png''
        (files (snd (step_5 (sample_collaborator sample_config)
          (sample_workbook\<lparr>wb_views := sample_views\<rparr>)
          \<lparr>imageresolution = ''high'', maxage = 1, view_filters = []\<rparr>
          (JArr [JStr ''B'', JStr ''A'']) initial_world))) = Inr (800, 450)"
proof -
  let ?c = "sample_collaborator sample_config"
  let ?wb = "sample_workbook\<lparr>wb_views := sample_views\<rparr>"
  let ?opts = "\<lparr>imageresolution = ''high'', maxage = 1, view_filters = []\<rparr>"
  let ?r = "step_5 ?c ?wb ?opts (JArr [JStr ''B'', JStr ''A'']) initial_world"
  let ?B = "\<lparr>view_id = ''b'', view_name = ''B''\<rparr>"
  have h1: "img_indexing initial_world = []"
    by (simp add: initial_world_def)
  have ok: "fst ?r = Inr ''img/u1/slide_imgs''"
    by code_simp
  then have h2: "?r = (Inr ''img/u1/slide_imgs'', snd ?r)"
    by (metis prod.collapse)
  note t = tile_index_order [OF h1 h2]
  have names: "JArr [JStr ''B'', JStr ''A''] = JArr (map JStr [''B'', ''A'']) \<and> distinct [''B'', ''A'']
                 \<and> distinct (map view_name (wb_views ?wb))
                 \<and> set [''B'', ''A''] \<subseteq> view_name ` set (wb_views ?wb)"
    by (simp add: sample_views_def)
  have "length (img_indexing (snd ?r)) = length [''B'', ''A''] * 3"
    by (rule t [THEN conjunct2, THEN conjunct2, THEN conjunct1, rule_format, OF names])
  then have len: "length (img_indexing (snd ?r)) = 6"
    by simp
  from t [THEN conjunct2, THEN conjunct1] have idx: "img_indexing (snd ?r)
       = [''A_tile_0_0.png'', ''A_tile_1_0.png'', ''A_tile_1_1.png'',
          ''B_tile_0_0.png'', ''B_tile_1_0.png'', ''B_tile_1_1.png'']"
    by (simp add: sample_views_def export_name_def img_name_of_def str_int_0 str_int_1)
  have sel: "filter (\<lambda>v. py_in (view_name v) (JArr [JStr ''B'', JStr ''A'']) = Inr True) (wb_views ?wb)
               = sample_views"
    by (simp add: sample_views_def)
  have hyp: "\<not> starts_with (uuid4 ?c) ''/''
         \<and> (\<forall>v \<in> set (filter (\<lambda>v. py_in (view_name v) (JArr [JStr ''B'', JStr ''A'']) = Inr True)
                          (wb_views ?wb)).
               CHR ''/'' \<notin> set (view_name v))
         \<and> distinct (map (\<lambda>v. img_name_of (view_name v @ ''.png''))
                        (filter (\<lambda>v. py_in (view_name v) (JArr [JStr ''B'', JStr ''A'']) = Inr True)
                           (wb_views ?wb)))"
    unfolding sel by (simp add: sample_views_def sample_collaborator_def img_name_of_def)
  have mem: "?B \<in> set (filter (\<lambda>v. py_in (view_name v) (JArr [JStr ''B'', JStr ''A'']) = Inr True)
                          (wb_views ?wb))"
    unfolding sel by (simp add: sample_views_def)
  from t [THEN conjunct2, THEN conjunct2, THEN conjunct2, THEN conjunct1, rule_format, OF hyp mem]
  obtain W H where
    img: "populate_image ?c ?B ?opts = Inr (W, H)"
    and t00: "image_size (path_join ''img/u1/slide_imgs''
                 (export_name (img_name_of (view_name ?B @ ''.png'')) 0 0)) (files (snd ?r)) = Inr (W, H div 2)"
    and t11: "image_size (path_join ''img/u1/slide_imgs''
                 (export_name (img_name_of (view_name ?B @ ''.png'')) 1 1)) (files (snd ?r))
                = Inr (W div 2, H div 2)"
    by blast
  from img have wh: "W = 1601" "H = 901"
    by (simp_all add: sample_collaborator_def)
  have p: "path_join ''img/u1/slide_imgs'' (export_name (img_name_of (view_name ?B @ ''.png'')) 0 0)
             = ''img/u1/slide_imgs/B_tile_0_0.png''"
    "path_join ''img/u1/slide_imgs'' (export_name (img_name_of (view_name ?B @ ''.png'')) 1 1)
             = ''img/u1/slide_imgs/B_tile_1_1.png''"
    by (simp_all add: path_join_def export_name_def img_name_of_def str_int_0 str_int_1)
  from t00 t11 have "image_size ''img/u1/slide_imgs/B_tile_0_0.png'' (files (snd ?r)) = Inr (1601, 450)"
    "image_size ''img/u1/slide_imgs/B_tile_1_1.png'' (files (snd ?r)) = Inr (800, 450)"
    unfolding p wh by simp_all
  with ok len idx show ?thesis by simp
qed


subsection \<open>Scaling and centring\<close>

lemma ppt_scale_pos:
  assumes "0 < img_width" and "0 < img_height"
  shows "ppt_scale img_width img_height
           = Inr (min (of_int (Inches 8) / of_int img_width) (of_int (Inches 6) / of_int img_height))"
  using assms by (simp add: ppt_scale_def Let_def)

lemma ppt_layout_pos:
  assumes "0 < img_width" and "0 < img_height"
  shows "ppt_layout slide_width slide_height img_width img_height
           = Inr ((of_int slide_width - of_int img_width
                     * min (of_int (Inches 8) / of_int img_width) (of_int (Inches 6) / of_int img_height)) / 2,
                  (of_int slide_height - of_int img_height
                     * min (of_int (Inches 8) / of_int img_width) (of_int (Inches 6) / of_int img_height)) / 2,
                  of_int img_width
                     * min (of_int (Inches 8) / of_int img_width) (of_int (Inches 6) / of_int img_height),
                  of_int img_height
                     * min (of_int (Inches 8) / of_int img_width) (of_int (Inches 6) / of_int img_height))"
  using assms by (simp add: ppt_layout_def ppt_scale_pos Let_def)

lemma scaled_le:
  fixes a b m :: rat
  assumes "0 < a"
  shows "a * min (m / a) (n / b) \<le> m"
proof -
  have "a * min (m / a) (n / b) \<le> a * (m / a)"
    using assms by (intro mult_left_mono) simp_all
  also have "\<dots> = m" using assms by simp
  finally show ?thesis .
qed

lemma scaled_le2:
  fixes a b m :: rat
  assumes "0 < b"
  shows "b * min (m / a) (n / b) \<le> n"
proof -
  have "b * min (m / a) (n / b) \<le> b * (n / b)"
    using assms by (intro mult_left_mono) simp_all
  also have "\<dots> = n" using assms by simp
  finally show ?thesis .
qed

lemma pdf_size_cases:
  assumes "0 < img_width" and "0 < img_height"
  shows "pdf_size page_width page_height img_width img_height =
     (if of_int img_width > page_width \<or> of_int img_height > page_height
      then Inr (of_int img_width * min (page_width / of_int img_width) (page_height / of_int img_height),
                of_int img_height * min (page_width / of_int img_width) (page_height / of_int img_height))
      else Inr (of_int img_width, of_int img_height))"
  using assms by (auto simp add: pdf_size_def Let_def min_def)


lemma min_ratio_pos:
  fixes a b m n :: rat
  assumes "0 < a" "0 < b" "0 < m" "0 < n"
  shows "0 < min (m / a) (n / b)"
  using assms by simp

lemma min_ratio_less_one:
  fixes a b m n :: rat
  assumes "0 < a" "0 < b" and "m < a \<or> n < b"
  shows "min (m / a) (n / b) < 1"
proof -
  from assms(3) have "m / a < 1 \<or> n / b < 1"
    using assms(1,2) by simp
  then show ?thesis by (simp add: min_less_iff_disj)
qed

lemma min_ratio_fills:
  fixes a b m n :: rat
  assumes "0 < a" "0 < b"
  shows "a * min (m / a) (n / b) = m \<or> b * min (m / a) (n / b) = n"
  using assms by (auto simp add: min_def)

lemma ppt_layout_facts:
  assumes "0 < img_width" and "0 < img_height"
    and "ppt_layout slide_width slide_height img_width img_height = Inr (left, top_edge, width, height)"
  shows "width = of_int img_width
            * min (of_int (Inches 8) / of_int img_width) (of_int (Inches 6) / of_int img_height)"
    and "height = of_int img_height
            * min (of_int (Inches 8) / of_int img_width) (of_int (Inches 6) / of_int img_height)"
    and "width = of_int (Inches 8) \<or> height = of_int (Inches 6)"
    and "left + width + left = of_int slide_width"
    and "top_edge + height + top_edge = of_int slide_height"
    and "0 < width" and "0 < height"
    and "width \<le> of_int (Inches 8)" and "height \<le> of_int (Inches 6)"
    and "width / height = of_int img_width / of_int img_height"
proof -
  let ?s = "min (of_int (Inches 8) / of_int img_width) (of_int (Inches 6) / of_int img_height) :: rat"
  have iw: "(0::rat) < of_int img_width" and ih: "(0::rat) < of_int img_height"
    using assms(1,2) by simp_all
  from assms(3) ppt_layout_pos[OF assms(1,2), of slide_width slide_height]
  have l: "left = (of_int slide_width - of_int img_width * ?s) / 2"
    and t: "top_edge = (of_int slide_height - of_int img_height * ?s) / 2"
    and w: "width = of_int img_width * ?s" and h: "height = of_int img_height * ?s"
    by simp_all
  have s: "0 < ?s"
    using iw ih by (intro min_ratio_pos) (simp_all add: Inches_def)
  then have s0: "?s \<noteq> 0" by (rule less_imp_neq [THEN not_sym])
  show "width = of_int img_width * ?s" by (rule w)
  show "height = of_int img_height * ?s" by (rule h)
  show "width = of_int (Inches 8) \<or> height = of_int (Inches 6)"
    unfolding w h using iw ih by (rule min_ratio_fills)
  show "left + width + left = of_int slide_width"
    unfolding l w by (simp add: field_simps)
  show "top_edge + height + top_edge = of_int slide_height"
    unfolding t h by (simp add: field_simps)
  show "0 < width" unfolding w using iw s by simp
  show "0 < height" unfolding h using ih s by simp
  show "width \<le> of_int (Inches 8)" unfolding w using iw by (rule scaled_le)
  show "height \<le> of_int (Inches 6)" unfolding h using ih by (rule scaled_le2)
  show "width / height = of_int img_width / of_int img_height"
    unfolding w h using s0 by (rule mult_divide_mult_cancel_right)
qed

lemma pdf_layout_total:
  assumes "0 < img_width" and "0 < img_height"
  shows "\<exists>x y new_width new_height.
           pdf_layout page_width page_height img_width img_height = Inr (x, y, new_width, new_height)"
proof -
  obtain nw nh where sz: "pdf_size page_width page_height img_width img_height = Inr (nw, nh)"
    using pdf_size_cases[OF assms, of page_width page_height] by (cases "of_int img_width > page_width \<or> of_int img_height > page_height") auto
  have "pdf_layout page_width page_height img_width img_height
          = Inr ((page_width - nw) / 2, (page_height - nh) / 2, nw, nh)"
    by (simp add: pdf_layout_def sz)
  then show ?thesis by blast
qed

lemma pdf_layout_facts:
  assumes "0 < img_width" and "0 < img_height" and "0 < page_width" and "0 < page_height"
    and "pdf_layout page_width page_height img_width img_height = Inr (x, y, new_width, new_height)"
  shows "new_width \<le> of_int img_width \<and> new_height \<le> of_int img_height
    \<and> (page_width < of_int img_width \<or> page_height < of_int img_height \<longrightarrow>
           new_width = of_int img_width
              * min (page_width / of_int img_width) (page_height / of_int img_height)
           \<and> new_height = of_int img_height
              * min (page_width / of_int img_width) (page_height / of_int img_height))
    \<and> (of_int img_width \<le> page_width \<and> of_int img_height \<le> page_height \<longrightarrow>
           new_width = of_int img_width \<and> new_height = of_int img_height)
    \<and> x + new_width + x = page_width
    \<and> y + new_height + y = page_height
    \<and> 0 < new_width \<and> 0 < new_height
    \<and> new_width \<le> page_width \<and> new_height \<le> page_height
    \<and> new_width / new_height = of_int img_width / of_int img_height"
proof -
  let ?r = "min (page_width / of_int img_width) (page_height / of_int img_height)"
  have iw: "(0::rat) < of_int img_width" and ih: "(0::rat) < of_int img_height"
    using assms(1,2) by simp_all
  have rp: "0 < ?r" using iw ih assms(3,4) by (intro min_ratio_pos)
  then have r0: "?r \<noteq> 0" by (rule less_imp_neq [THEN not_sym])
  have xy: "x = (page_width - new_width) / 2" "y = (page_height - new_height) / 2"
    using assms(5) by (auto simp add: pdf_layout_def Let_def split: sum.splits)
  have m1: "x + new_width + x = page_width" unfolding xy by (simp add: field_simps)
  have m2: "y + new_height + y = page_height" unfolding xy by (simp add: field_simps)
  show ?thesis
  proof (cases "page_width < of_int img_width \<or> page_height < of_int img_height")
    case True
    with assms(5) have w: "new_width = of_int img_width * ?r" and h: "new_height = of_int img_height * ?r"
      by (simp_all add: pdf_layout_def pdf_size_cases[OF assms(1,2)] Let_def)
    from True have lt: "?r < 1" using iw ih by (intro min_ratio_less_one) simp_all
    have b1: "new_width \<le> of_int img_width"
      unfolding w using mult_left_mono[of ?r 1 "of_int img_width"] lt iw by simp
    have b2: "new_height \<le> of_int img_height"
      unfolding h using mult_left_mono[of ?r 1 "of_int img_height"] lt ih by simp
    have nv: "of_int img_width \<le> page_width \<and> of_int img_height \<le> page_height \<longrightarrow>
           new_width = of_int img_width \<and> new_height = of_int img_height"
      using True by auto
    have sc: "page_width < of_int img_width \<or> page_height < of_int img_height \<longrightarrow>
           new_width = of_int img_width * ?r \<and> new_height = of_int img_height * ?r"
      using w h by simp
    have p1: "0 < new_width" and p2: "0 < new_height"
      unfolding w h using iw ih rp by simp_all
    have c1: "new_width \<le> page_width" unfolding w using iw by (rule scaled_le)
    have c2: "new_height \<le> page_height" unfolding h using ih by (rule scaled_le2)
    have q: "new_width / new_height = of_int img_width / of_int img_height"
      unfolding w h using r0 by (rule mult_divide_mult_cancel_right)
    show ?thesis
      by (intro conjI b1 b2 sc nv m1 m2 p1 p2 c1 c2 q)
  next
    case False
    with assms(5) have w: "new_width = of_int img_width" and h: "new_height = of_int img_height"
      by (simp_all add: pdf_layout_def pdf_size_cases[OF assms(1,2)] Let_def)
    from False have c1: "new_width \<le> page_width" and c2: "new_height \<le> page_height"
      unfolding w h by simp_all
    have b1: "new_width \<le> of_int img_width" and b2: "new_height \<le> of_int img_height"
      unfolding w h by simp_all
    have nv: "of_int img_width \<le> page_width \<and> of_int img_height \<le> page_height \<longrightarrow>
           new_width = of_int img_width \<and> new_height = of_int img_height"
      using w h by simp
    have sc: "page_width < of_int img_width \<or> page_height < of_int img_height \<longrightarrow>
           new_width = of_int img_width * ?r \<and> new_height = of_int img_height * ?r"
      using False by simp
    have p1: "0 < new_width" and p2: "0 < new_height"
      unfolding w h using iw ih by simp_all
    have q: "new_width / new_height = of_int img_width / of_int img_height"
      unfolding w h by simp
    show ?thesis
      by (intro conjI b1 b2 sc nv m1 m2 p1 p2 c1 c2 q)
  qed
qed

lemma add_image_to_ppt_page:
  assumes "image_size (path_join img_dir f) fs = Inr (iw, ih)" and "0 < iw" and "0 < ih"
  shows "\<exists>left top_edge width height.
           ppt_layout default_slide_width default_slide_height iw ih = Inr (left, top_edge, width, height)
           \<and> (\<forall>prs. add_image_to_ppt prs img_dir f fs
                 = Inr (prs @ [ImagePage (path_join img_dir f) left top_edge width height]))"
proof -
  obtain left top_edge width height where
    lay: "ppt_layout default_slide_width default_slide_height iw ih = Inr (left, top_edge, width, height)"
    using ppt_layout_pos[OF assms(2,3), of default_slide_width default_slide_height] by blast
  have "\<forall>prs. add_image_to_ppt prs img_dir f fs
                 = Inr (prs @ [ImagePage (path_join img_dir f) left top_edge width height])"
    using assms(1) lay by (simp add: add_image_to_ppt_def)
  with lay show ?thesis by blast
qed

lemma add_image_to_pdf_page:
  assumes "image_size img_path fs = Inr (iw, ih)" and "0 < iw" and "0 < ih"
  shows "\<exists>x y new_width new_height.
           pdf_layout (fst page_dims) (snd page_dims) iw ih = Inr (x, y, new_width, new_height)
           \<and> (\<forall>pdf. add_image_to_pdf pdf page_dims img_path fs
                 = Inr (pdf @ [ImagePage img_path x y new_width new_height]))"
proof -
  from pdf_layout_total[OF assms(2,3), of "fst page_dims" "snd page_dims"]
  obtain x y new_width new_height where
    "pdf_layout (fst page_dims) (snd page_dims) iw ih = Inr (x, y, new_width, new_height)"
    by blast
  with assms(1) show ?thesis by (simp add: add_image_to_pdf_def)
qed

lemma add_images_to_ppt_pages:
  assumes "\<forall>f \<in> set img_files. \<exists>iw ih. image_size (path_join img_dir f) fs = Inr (iw, ih) \<and> 0 < iw \<and> 0 < ih"
  shows "\<exists>pages.
           (\<forall>prs. add_images_to_ppt prs img_dir img_files fs = Inr (prs @ pages))
           \<and> list_all2 (\<lambda>f page. \<exists>iw ih left top_edge width height.
                 image_size (path_join img_dir f) fs = Inr (iw, ih) \<and> 0 < iw \<and> 0 < ih
                 \<and> ppt_layout default_slide_width default_slide_height iw ih
                     = Inr (left, top_edge, width, height)
                 \<and> page = ImagePage (path_join img_dir f) left top_edge width height)
               img_files pages"
  using assms
proof (induction img_files)
  case Nil
  then show ?case by simp
next
  case (Cons f img_files)
  from Cons.prems obtain iw ih where
    sz: "image_size (path_join img_dir f) fs = Inr (iw, ih)" and pos: "0 < iw" "0 < ih"
    by auto
  from add_image_to_ppt_page[OF sz pos] obtain left top_edge width height where
    lay: "ppt_layout default_slide_width default_slide_height iw ih = Inr (left, top_edge, width, height)"
    and one: "\<And>prs. add_image_to_ppt prs img_dir f fs
                 = Inr (prs @ [ImagePage (path_join img_dir f) left top_edge width height])"
    by blast
  from Cons.IH Cons.prems obtain pages where
    rest: "\<And>prs. add_images_to_ppt prs img_dir img_files fs = Inr (prs @ pages)"
    and all: "list_all2 (\<lambda>f page. \<exists>iw ih left top_edge width height.
                 image_size (path_join img_dir f) fs = Inr (iw, ih) \<and> 0 < iw \<and> 0 < ih
                 \<and> ppt_layout default_slide_width default_slide_height iw ih
                     = Inr (left, top_edge, width, height)
                 \<and> page = ImagePage (path_join img_dir f) left top_edge width height)
               img_files pages"
    by auto
  let ?page = "ImagePage (path_join img_dir f) left top_edge width height"
  have "\<forall>prs. add_images_to_ppt prs img_dir (f # img_files) fs = Inr (prs @ (?page # pages))"
    by (simp add: one rest)
  moreover have "list_all2 (\<lambda>f page. \<exists>iw ih left top_edge width height.
                 image_size (path_join img_dir f) fs = Inr (iw, ih) \<and> 0 < iw \<and> 0 < ih
                 \<and> ppt_layout default_slide_width default_slide_height iw ih
                     = Inr (left, top_edge, width, height)
                 \<and> page = ImagePage (path_join img_dir f) left top_edge width height)
               (f # img_files) (?page # pages)"
    using all sz pos lay by auto
  ultimately show ?case by blast
qed

lemma add_images_to_pdf_pages:
  assumes "\<forall>f \<in> set img_files. \<exists>iw ih. image_size (path_join img_dir f) fs = Inr (iw, ih) \<and> 0 < iw \<and> 0 < ih"
  shows "\<exists>pages.
           (\<forall>pdf. add_images_to_pdf pdf page_dims img_dir img_files fs = Inr (pdf @ pages))
           \<and> list_all2 (\<lambda>f page. \<exists>iw ih x y new_width new_height.
                 image_size (path_join img_dir f) fs = Inr (iw, ih) \<and> 0 < iw \<and> 0 < ih
                 \<and> pdf_layout (fst page_dims) (snd page_dims) iw ih = Inr (x, y, new_width, new_height)
                 \<and> page = ImagePage (path_join img_dir f) x y new_width new_height)
               img_files pages"
  using assms
proof (induction img_files)
  case Nil
  then show ?case by simp
next
  case (Cons f img_files)
  from Cons.prems obtain iw ih where
    sz: "image_size (path_join img_dir f) fs = Inr (iw, ih)" and pos: "0 < iw" "0 < ih"
    by auto
  from add_image_to_pdf_page[OF sz pos, of page_dims] obtain x y new_width new_height where
    lay: "pdf_layout (fst page_dims) (snd page_dims) iw ih = Inr (x, y, new_width, new_height)"
    and one: "\<And>pdf. add_image_to_pdf pdf page_dims (path_join img_dir f) fs
                 = Inr (pdf @ [ImagePage (path_join img_dir f) x y new_width new_height])"
    by blast
  from Cons.IH Cons.prems obtain pages where
    rest: "\<And>pdf. add_images_to_pdf pdf page_dims img_dir img_files fs = Inr (pdf @ pages)"
    and all: "list_all2 (\<lambda>f page. \<exists>iw ih x y new_width new_height.
                 image_size (path_join img_dir f) fs = Inr (iw, ih) \<and> 0 < iw \<and> 0 < ih
                 \<and> pdf_layout (fst page_dims) (snd page_dims) iw ih = Inr (x, y, new_width, new_height)
                 \<and> page = ImagePage (path_join img_dir f) x y new_width new_height)
               img_files pages"
    by auto
  let ?page = "ImagePage (path_join img_dir f) x y new_width new_height"
  have "\<forall>pdf. add_images_to_pdf pdf page_dims img_dir (f # img_files) fs = Inr (pdf @ (?page # pages))"
    by (simp add: one rest Let_def)
  moreover have "list_all2 (\<lambda>f page. \<exists>iw ih x y new_width new_height.
                 image_size (path_join img_dir f) fs = Inr (iw, ih) \<and> 0 < iw \<and> 0 < ih
                 \<and> pdf_layout (fst page_dims) (snd page_dims) iw ih = Inr (x, y, new_width, new_height)
                 \<and> page = ImagePage (path_join img_dir f) x y new_width new_height)
               (f # img_files) (?page # pages)"
    using all sz pos lay by auto
  ultimately show ?case by blast
qed

lemma create_deck_document:
  assumes "\<forall>prs. add_images_to_ppt prs img_dir (img_indexing w) (files w) = Inr (prs @ pages)"
  shows "create_deck img_dir export_path workbook_name project_name w
           = (case write_file export_path
                     (Document (TitlePage (py_str workbook_name) [''Project: '' @ py_str project_name]
                                # pages)) (files w) of
                Inl err \<Rightarrow> (Some err, w)
              | Inr fs1 \<Rightarrow> (None, w\<lparr>files := fs1\<rparr>))"
  using assms by (simp add: create_deck_def add_title_slide_def get_images_def Let_def)

lemma export_as_pdf_document:
  assumes "\<forall>pdf. add_images_to_pdf pdf page_dims img_dir (img_indexing w) (files w) = Inr (pdf @ pages)"
    and "subscript (JObj pdf_config) ''orientation'' = Inr orient"
    and "subscript (JObj pdf_config) ''page_type'' = Inr fmt"
    and "fpdf_page c orient fmt = Inr page_dims"
    and "add_title_page [] pdf_config = Inr title_pages"
  shows "export_as_pdf c img_dir output_path pdf_config w
           = (case write_file output_path (Document (title_pages @ pages)) (files w) of
                Inl err \<Rightarrow> (Some err, w)
              | Inr fs1 \<Rightarrow> (None, w\<lparr>files := fs1\<rparr>))"
  using assms by (simp add: export_as_pdf_def get_images_def Let_def del: subscript.simps)


text \<open>
  C4 as stated fails for the slide deck. \<open>add_image_to_ppt\<close> has no test of the image
  against the area: it always multiplies the pixel width and height by the smaller fit
  ratio, so an image smaller than the area is enlarged to fill it. The tile of 100 by
  100 pixels is multiplied by 54864 and placed 5486400 EMU (6 inches) wide and high.
  \<open>add_image_to_pdf\<close>, which compares pixels with page units as the same numbers and
  scales only an image that exceeds the page, places the same tile at 100 by 100.
\<close>

theorem ppt_scales_up_counterexample:
  "add_image_to_ppt [] ''t'' ''b.png'' (files tiles_world)
     = Inr [ImagePage ''t/b.png'' 1828800 685800 5486400 5486400]
   \<and> ppt_scale 100 100 = Inr 54864
   \<and> (1 :: rat) < 54864
   \<and> add_image_to_pdf [] (297, 210) ''t/b.png'' (files tiles_world)
     = Inr [ImagePage ''t/b.png'' (197 / 2) 55 100 100]"
  by (simp add: add_image_to_ppt_def add_image_to_pdf_def tiles_world_def image_size_def path_join_def
        ppt_layout_def ppt_scale_def pdf_layout_def pdf_size_def Inches_def Let_def
        default_slide_width_def default_slide_height_def)

text \<open>
  C4, amended. When every tile of the index is an image of positive width and height,
  both assemblers place each tile, in index order, on a page of its own after the title
  page, centred horizontally and vertically (equal margins left and right, and above and
  below). The slide variant always multiplies the pixel width and height by the minimum
  of the width-fit and the height-fit ratio of the 8 by 6 inch area, whatever the size of
  the image, so that the image fills the area in width or in height. The PDF variant
  multiplies by the minimum of the two fit ratios of the page when the pixel width or
  height exceeds the page's (pixels and page units compared as the same numbers, as the
  code does) and keeps the pixel width and height otherwise, so the placed width and
  height never exceed the pixel width and height.
\<close>

theorem placed_images_scaled_and_centred:
  assumes "\<forall>f \<in> set (img_indexing w).
             \<exists>iw ih. image_size (path_join img_dir f) (files w) = Inr (iw, ih) \<and> 0 < iw \<and> 0 < ih"
    and "0 < page_width" and "0 < page_height"
  shows "(\<exists>pages.
            (\<forall>prs. add_images_to_ppt prs img_dir (img_indexing w) (files w) = Inr (prs @ pages))
            \<and> (\<forall>export_path workbook_name project_name.
                  create_deck img_dir export_path workbook_name project_name w
                    = (case write_file export_path
                              (Document (TitlePage (py_str workbook_name)
                                           [''Project: '' @ py_str project_name] # pages)) (files w) of
                         Inl err \<Rightarrow> (Some err, w)
                       | Inr fs1 \<Rightarrow> (None, w\<lparr>files := fs1\<rparr>)))
            \<and> list_all2 (\<lambda>f page. \<exists>iw ih left top_edge width height.
                  image_size (path_join img_dir f) (files w) = Inr (iw, ih)
                  \<and> page = ImagePage (path_join img_dir f) left top_edge width height
                  \<and> width = of_int iw * min (of_int (Inches 8) / of_int iw) (of_int (Inches 6) / of_int ih)
                  \<and> height = of_int ih * min (of_int (Inches 8) / of_int iw) (of_int (Inches 6) / of_int ih)
                  \<and> (width = of_int (Inches 8) \<or> height = of_int (Inches 6))
                  \<and> left + width + left = of_int default_slide_width
                  \<and> top_edge + height + top_edge = of_int default_slide_height)
                (img_indexing w) pages)
    \<and> (\<exists>pages.
            (\<forall>pdf. add_images_to_pdf pdf (page_width, page_height) img_dir (img_indexing w) (files w)
                     = Inr (pdf @ pages))
            \<and> (\<forall>c output_path pdf_config orient fmt title_pages.
                  subscript (JObj pdf_config) ''orientation'' = Inr orient
                  \<and> subscript (JObj pdf_config) ''page_type'' = Inr fmt
                  \<and> fpdf_page c orient fmt = Inr (page_width, page_height)
                  \<and> add_title_page [] pdf_config = Inr title_pages \<longrightarrow>
                  export_as_pdf c img_dir output_path pdf_config w
                    = (case write_file output_path (Document (title_pages @ pages)) (files w) of
                         Inl err \<Rightarrow> (Some err, w)
                       | Inr fs1 \<Rightarrow> (None, w\<lparr>files := fs1\<rparr>)))
            \<and> list_all2 (\<lambda>f page. \<exists>iw ih x y new_width new_height.
                  image_size (path_join img_dir f) (files w) = Inr (iw, ih)
                  \<and> page = ImagePage (path_join img_dir f) x y new_width new_height
                  \<and> new_width \<le> of_int iw \<and> new_height \<le> of_int ih
                  \<and> (page_width < of_int iw \<or> page_height < of_int ih \<longrightarrow>
                        new_width = of_int iw * min (page_width / of_int iw) (page_height / of_int ih)
                        \<and> new_height = of_int ih * min (page_width / of_int iw) (page_height / of_int ih))
                  \<and> (of_int iw \<le> page_width \<and> of_int ih \<le> page_height \<longrightarrow>
                        new_width = of_int iw \<and> new_height = of_int ih)
                  \<and> x + new_width + x = page_width
                  \<and> y + new_height + y = page_height)
                (img_indexing w) pages)"
proof (rule conjI)
  from add_images_to_ppt_pages[OF assms(1)] obtain pages where
    run: "\<forall>prs. add_images_to_ppt prs img_dir (img_indexing w) (files w) = Inr (prs @ pages)"
    and all: "list_all2 (\<lambda>f page. \<exists>iw ih left top_edge width height.
                 image_size (path_join img_dir f) (files w) = Inr (iw, ih) \<and> 0 < iw \<and> 0 < ih
                 \<and> ppt_layout default_slide_width default_slide_height iw ih
                     = Inr (left, top_edge, width, height)
                 \<and> page = ImagePage (path_join img_dir f) left top_edge width height)
               (img_indexing w) pages"
    by blast
  have deck: "\<forall>export_path workbook_name project_name.
                  create_deck img_dir export_path workbook_name project_name w
                    = (case write_file export_path
                              (Document (TitlePage (py_str workbook_name)
                                           [''Project: '' @ py_str project_name] # pages)) (files w) of
                         Inl err \<Rightarrow> (Some err, w)
                       | Inr fs1 \<Rightarrow> (None, w\<lparr>files := fs1\<rparr>))"
    using create_deck_document[OF run] by blast
  have props: "list_all2 (\<lambda>f page. \<exists>iw ih left top_edge width height.
                  image_size (path_join img_dir f) (files w) = Inr (iw, ih)
                  \<and> page = ImagePage (path_join img_dir f) left top_edge width height
                  \<and> width = of_int iw * min (of_int (Inches 8) / of_int iw) (of_int (Inches 6) / of_int ih)
                  \<and> height = of_int ih * min (of_int (Inches 8) / of_int iw) (of_int (Inches 6) / of_int ih)
                  \<and> (width = of_int (Inches 8) \<or> height = of_int (Inches 6))
                  \<and> left + width + left = of_int default_slide_width
                  \<and> top_edge + height + top_edge = of_int default_slide_height)
                (img_indexing w) pages"
    using all
  proof (rule list_all2_mono)
    fix f page
    assume "\<exists>iw ih left top_edge width height.
                 image_size (path_join img_dir f) (files w) = Inr (iw, ih) \<and> 0 < iw \<and> 0 < ih
                 \<and> ppt_layout default_slide_width default_slide_height iw ih
                     = Inr (left, top_edge, width, height)
                 \<and> page = ImagePage (path_join img_dir f) left top_edge width height"
    then obtain iw ih left top_edge width height where
      sz: "image_size (path_join img_dir f) (files w) = Inr (iw, ih)" and pos: "0 < iw" "0 < ih"
      and lay: "ppt_layout default_slide_width default_slide_height iw ih = Inr (left, top_edge, width, height)"
      and pg: "page = ImagePage (path_join img_dir f) left top_edge width height"
      by blast
    note fs = ppt_layout_facts[OF pos lay]
    show "\<exists>iw ih left top_edge width height.
                  image_size (path_join img_dir f) (files w) = Inr (iw, ih)
                  \<and> page = ImagePage (path_join img_dir f) left top_edge width height
                  \<and> width = of_int iw * min (of_int (Inches 8) / of_int iw) (of_int (Inches 6) / of_int ih)
                  \<and> height = of_int ih * min (of_int (Inches 8) / of_int iw) (of_int (Inches 6) / of_int ih)
                  \<and> (width = of_int (Inches 8) \<or> height = of_int (Inches 6))
                  \<and> left + width + left = of_int default_slide_width
                  \<and> top_edge + height + top_edge = of_int default_slide_height"
      by (rule exI[of _ iw], rule exI[of _ ih], rule exI[of _ left], rule exI[of _ top_edge],
          rule exI[of _ width], rule exI[of _ height])
         (intro conjI sz pg fs(1) fs(2) fs(3) fs(4) fs(5))
  qed
  from run deck props
  show "\<exists>pages.
            (\<forall>prs. add_images_to_ppt prs img_dir (img_indexing w) (files w) = Inr (prs @ pages))
            \<and> (\<forall>export_path workbook_name project_name.
                  create_deck img_dir export_path workbook_name project_name w
                    = (case write_file export_path
                              (Document (TitlePage (py_str workbook_name)
                                           [''Project: '' @ py_str project_name] # pages)) (files w) of
                         Inl err \<Rightarrow> (Some err, w)
                       | Inr fs1 \<Rightarrow> (None, w\<lparr>files := fs1\<rparr>)))
            \<and> list_all2 (\<lambda>f page. \<exists>iw ih left top_edge width height.
                  image_size (path_join img_dir f) (files w) = Inr (iw, ih)
                  \<and> page = ImagePage (path_join img_dir f) left top_edge width height
                  \<and> width = of_int iw * min (of_int (Inches 8) / of_int iw) (of_int (Inches 6) / of_int ih)
                  \<and> height = of_int ih * min (of_int (Inches 8) / of_int iw) (of_int (Inches 6) / of_int ih)
                  \<and> (width = of_int (Inches 8) \<or> height = of_int (Inches 6))
                  \<and> left + width + left = of_int default_slide_width
                  \<and> top_edge + height + top_edge = of_int default_slide_height)
                (img_indexing w) pages"
    by (intro exI[of _ pages] conjI)
next
  from add_images_to_pdf_pages[OF assms(1), of "(page_width, page_height)"] obtain pages where
    run: "\<forall>pdf. add_images_to_pdf pdf (page_width, page_height) img_dir (img_indexing w) (files w)
                  = Inr (pdf @ pages)"
    and all: "list_all2 (\<lambda>f page. \<exists>iw ih x y new_width new_height.
                 image_size (path_join img_dir f) (files w) = Inr (iw, ih) \<and> 0 < iw \<and> 0 < ih
                 \<and> pdf_layout page_width page_height iw ih = Inr (x, y, new_width, new_height)
                 \<and> page = ImagePage (path_join img_dir f) x y new_width new_height)
               (img_indexing w) pages"
    by auto
  have doc: "\<forall>c output_path pdf_config orient fmt title_pages.
                  subscript (JObj pdf_config) ''orientation'' = Inr orient
                  \<and> subscript (JObj pdf_config) ''page_type'' = Inr fmt
                  \<and> fpdf_page c orient fmt = Inr (page_width, page_height)
                  \<and> add_title_page [] pdf_config = Inr title_pages \<longrightarrow>
                  export_as_pdf c img_dir output_path pdf_config w
                    = (case write_file output_path (Document (title_pages @ pages)) (files w) of
                         Inl err \<Rightarrow> (Some err, w)
                       | Inr fs1 \<Rightarrow> (None, w\<lparr>files := fs1\<rparr>))"
    using export_as_pdf_document[OF run] by blast
  have props: "list_all2 (\<lambda>f page. \<exists>iw ih x y new_width new_height.
                  image_size (path_join img_dir f) (files w) = Inr (iw, ih)
                  \<and> page = ImagePage (path_join img_dir f) x y new_width new_height
                  \<and> new_width \<le> of_int iw \<and> new_height \<le> of_int ih
                  \<and> (page_width < of_int iw \<or> page_height < of_int ih \<longrightarrow>
                        new_width = of_int iw * min (page_width / of_int iw) (page_height / of_int ih)
                        \<and> new_height = of_int ih * min (page_width / of_int iw) (page_height / of_int ih))
                  \<and> (of_int iw \<le> page_width \<and> of_int ih \<le> page_height \<longrightarrow>
                        new_width = of_int iw \<and> new_height = of_int ih)
                  \<and> x + new_width + x = page_width
                  \<and> y + new_height + y = page_height)
                (img_indexing w) pages"
    using all
  proof (rule list_all2_mono)
    fix f page
    assume "\<exists>iw ih x y new_width new_height.
                 image_size (path_join img_dir f) (files w) = Inr (iw, ih) \<and> 0 < iw \<and> 0 < ih
                 \<and> pdf_layout page_width page_height iw ih = Inr (x, y, new_width, new_height)
                 \<and> page = ImagePage (path_join img_dir f) x y new_width new_height"
    then obtain iw ih x y new_width new_height where
      sz: "image_size (path_join img_dir f) (files w) = Inr (iw, ih)" and pos: "0 < iw" "0 < ih"
      and lay: "pdf_layout page_width page_height iw ih = Inr (x, y, new_width, new_height)"
      and pg: "page = ImagePage (path_join img_dir f) x y new_width new_height"
      by blast
    from pdf_layout_facts[OF pos assms(2,3) lay]
    have "new_width \<le> of_int iw \<and> new_height \<le> of_int ih
                  \<and> (page_width < of_int iw \<or> page_height < of_int ih \<longrightarrow>
                        new_width = of_int iw * min (page_width / of_int iw) (page_height / of_int ih)
                        \<and> new_height = of_int ih * min (page_width / of_int iw) (page_height / of_int ih))
                  \<and> (of_int iw \<le> page_width \<and> of_int ih \<le> page_height \<longrightarrow>
                        new_width = of_int iw \<and> new_height = of_int ih)
                  \<and> x + new_width + x = page_width
                  \<and> y + new_height + y = page_height"
      by blast
    with sz pg
    show "\<exists>iw ih x y new_width new_height.
                  image_size (path_join img_dir f) (files w) = Inr (iw, ih)
                  \<and> page = ImagePage (path_join img_dir f) x y new_width new_height
                  \<and> new_width \<le> of_int iw \<and> new_height \<le> of_int ih
                  \<and> (page_width < of_int iw \<or> page_height < of_int ih \<longrightarrow>
                        new_width = of_int iw * min (page_width / of_int iw) (page_height / of_int ih)
                        \<and> new_height = of_int ih * min (page_width / of_int iw) (page_height / of_int ih))
                  \<and> (of_int iw \<le> page_width \<and> of_int ih \<le> page_height \<longrightarrow>
                        new_width = of_int iw \<and> new_height = of_int ih)
                  \<and> x + new_width + x = page_width
                  \<and> y + new_height + y = page_height"
      by (intro exI[of _ iw] exI[of _ ih] exI[of _ x] exI[of _ y] exI[of _ new_width]
            exI[of _ new_height]) (intro conjI; blast)
  qed
  from run doc props
  show "\<exists>pages.
            (\<forall>pdf. add_images_to_pdf pdf (page_width, page_height) img_dir (img_indexing w) (files w)
                     = Inr (pdf @ pages))
            \<and> (\<forall>c output_path pdf_config orient fmt title_pages.
                  subscript (JObj pdf_config) ''orientation'' = Inr orient
                  \<and> subscript (JObj pdf_config) ''page_type'' = Inr fmt
                  \<and> fpdf_page c orient fmt = Inr (page_width, page_height)
                  \<and> add_title_page [] pdf_config = Inr title_pages \<longrightarrow>
                  export_as_pdf c img_dir output_path pdf_config w
                    = (case write_file output_path (Document (title_pages @ pages)) (files w) of
                         Inl err \<Rightarrow> (Some err, w)
                       | Inr fs1 \<Rightarrow> (None, w\<lparr>files := fs1\<rparr>)))
            \<and> list_all2 (\<lambda>f page. \<exists>iw ih x y new_width new_height.
                  image_size (path_join img_dir f) (files w) = Inr (iw, ih)
                  \<and> page = ImagePage (path_join img_dir f) x y new_width new_height
                  \<and> new_width \<le> of_int iw \<and> new_height \<le> of_int ih
                  \<and> (page_width < of_int iw \<or> page_height < of_int ih \<longrightarrow>
                        new_width = of_int iw * min (page_width / of_int iw) (page_height / of_int ih)
                        \<and> new_height = of_int ih * min (page_width / of_int iw) (page_height / of_int ih))
                  \<and> (of_int iw \<le> page_width \<and> of_int ih \<le> page_height \<longrightarrow>
                        new_width = of_int iw \<and> new_height = of_int ih)
                  \<and> x + new_width + x = page_width
                  \<and> y + new_height + y = page_height)
                (img_indexing w) pages"
    by (intro exI[of _ pages] conjI)
qed

theorem placed_images_scaled_and_centred_witness:
  "create_deck ''t'' ''ppt/Sales.pptx'' (JStr ''Sales'') (JStr ''Ops'') tiles_world
     = (None, tiles_world\<lparr>files := \<lparr>dirs = (dirs (files tiles_world))(''ppt'' \<mapsto> [''Sales.pptx'']),
          data = (data (files tiles_world))(''ppt/Sales.pptx'' \<mapsto>
            Document [TitlePage ''Sales'' [''Project: Ops''],
                      ImagePage ''t/a.png'' 914400 (3843909000 / 1601) 7315200 (3291840000 / 1601),
                      ImagePage ''t/b.png'' 1828800 685800 5486400 5486400])\<rparr>\<rparr>)
   \<and> add_images_to_pdf [] (297, 210) ''t'' (img_indexing tiles_world) (files tiles_world)
     = Inr [ImagePage ''t/a.png'' 0 (101280 / 1601) 297 (133650 / 1601),
            ImagePage ''t/b.png'' (197 / 2) 55 100 100]"
proof -
  have h: "\<forall>f \<in> set (img_indexing tiles_world).
             \<exists>iw ih. image_size (path_join ''t'' f) (files tiles_world) = Inr (iw, ih) \<and> 0 < iw \<and> 0 < ih"
    by (simp add: tiles_world_def image_size_def path_join_def)
  have p: "(0::rat) < 297" "(0::rat) < 210" by simp_all
  note t = placed_images_scaled_and_centred [OF h p]
  have sz: "image_size ''t/a.png'' (files tiles_world) = Inr (1601, 450)"
    "image_size ''t/b.png'' (files tiles_world) = Inr (100, 100)"
    by (simp_all add: tiles_world_def image_size_def)
  have idx: "img_indexing tiles_world = [''a.png'', ''b.png'']"
    by (simp add: tiles_world_def)
  have pj: "path_join ''t'' ''a.png'' = ''t/a.png''" "path_join ''t'' ''b.png'' = ''t/b.png''"
    by (simp_all add: path_join_def)
  from t [THEN conjunct1] obtain pages where
    deck: "create_deck ''t'' ''ppt/Sales.pptx'' (JStr ''Sales'') (JStr ''Ops'') tiles_world
             = (case write_file ''ppt/Sales.pptx''
                       (Document (TitlePage (py_str (JStr ''Sales'')) [''Project: '' @ py_str (JStr ''Ops'')]
                                  # pages)) (files tiles_world) of
                  Inl err \<Rightarrow> (Some err, tiles_world)
                | Inr fs1 \<Rightarrow> (None, tiles_world\<lparr>files := fs1\<rparr>))"
    and props: "list_all2 (\<lambda>f page. \<exists>iw ih left top_edge width height.
                  image_size (path_join ''t'' f) (files tiles_world) = Inr (iw, ih)
                  \<and> page = ImagePage (path_join ''t'' f) left top_edge width height
                  \<and> width = of_int iw * min (of_int (Inches 8) / of_int iw) (of_int (Inches 6) / of_int ih)
                  \<and> height = of_int ih * min (of_int (Inches 8) / of_int iw) (of_int (Inches 6) / of_int ih)
                  \<and> (width = of_int (Inches 8) \<or> height = of_int (Inches 6))
                  \<and> left + width + left = of_int default_slide_width
                  \<and> top_edge + height + top_edge = of_int default_slide_height)
                (img_indexing tiles_world) pages"
    by blast
  define P where "P = (\<lambda>f page. \<exists>iw ih left top_edge width height.
                  image_size (path_join ''t'' f) (files tiles_world) = Inr (iw, ih)
                  \<and> page = ImagePage (path_join ''t'' f) left top_edge width height
                  \<and> width = of_int iw * min (of_int (Inches 8) / of_int iw) (of_int (Inches 6) / of_int ih)
                  \<and> height = of_int ih * min (of_int (Inches 8) / of_int iw) (of_int (Inches 6) / of_int ih)
                  \<and> (width = of_int (Inches 8) \<or> height = of_int (Inches 6))
                  \<and> left + width + left = of_int default_slide_width
                  \<and> top_edge + height + top_edge = of_int default_slide_height)"
  from props have "list_all2 P [''a.png'', ''b.png''] pages"
    unfolding P_def idx .
  then obtain pa pb where pages: "pages = [pa, pb]" and Pa: "P ''a.png'' pa" and Pb: "P ''b.png'' pb"
    by (auto simp add: list_all2_Cons1)
  from Pa [unfolded P_def pj sz] obtain iwa iha la ta wa ha where
    "Inr (1601, 450) = (Inr (iwa, iha) :: py_error + int \<times> int)"
    and a1: "pa = ImagePage ''t/a.png'' la ta wa ha"
    and a2: "wa = of_int iwa * min (of_int (Inches 8) / of_int iwa) (of_int (Inches 6) / of_int iha)"
      "ha = of_int iha * min (of_int (Inches 8) / of_int iwa) (of_int (Inches 6) / of_int iha)"
    and a3: "la + wa + la = of_int default_slide_width" "ta + ha + ta = of_int default_slide_height"
    by blast
  then have ia: "iwa = 1601" "iha = 450" by simp_all
  from Pb [unfolded P_def pj sz] obtain iwb ihb lb tb wb hb where
    "Inr (100, 100) = (Inr (iwb, ihb) :: py_error + int \<times> int)"
    and b1: "pb = ImagePage ''t/b.png'' lb tb wb hb"
    and b2: "wb = of_int iwb * min (of_int (Inches 8) / of_int iwb) (of_int (Inches 6) / of_int ihb)"
      "hb = of_int ihb * min (of_int (Inches 8) / of_int iwb) (of_int (Inches 6) / of_int ihb)"
    and b3: "lb + wb + lb = of_int default_slide_width" "tb + hb + tb = of_int default_slide_height"
    by blast
  then have ib: "iwb = 100" "ihb = 100" by simp_all
  have va: "wa = 7315200" "ha = 3291840000 / 1601"
    using a2 by (simp_all add: ia Inches_def)
  have la: "la = 914400" "ta = 3843909000 / 1601"
    using a3 va by (simp_all add: default_slide_width_def default_slide_height_def field_simps)
  have vb: "wb = 5486400" "hb = 5486400"
    using b2 by (simp_all add: ib Inches_def)
  have lb: "lb = 1828800" "tb = 685800"
    using b3 vb by (simp_all add: default_slide_width_def default_slide_height_def field_simps)
  have 1: "create_deck ''t'' ''ppt/Sales.pptx'' (JStr ''Sales'') (JStr ''Ops'') tiles_world
     = (None, tiles_world\<lparr>files := \<lparr>dirs = (dirs (files tiles_world))(''ppt'' \<mapsto> [''Sales.pptx'']),
          data = (data (files tiles_world))(''ppt/Sales.pptx'' \<mapsto>
            Document [TitlePage ''Sales'' [''Project: Ops''],
                      ImagePage ''t/a.png'' 914400 (3843909000 / 1601) 7315200 (3291840000 / 1601),
                      ImagePage ''t/b.png'' 1828800 685800 5486400 5486400])\<rparr>\<rparr>)"
    unfolding deck pages a1 b1 va la vb lb
    by (simp add: write_file_def dir_name_def base_name_def tiles_world_def)
  from t [THEN conjunct2] obtain qages where
    run: "add_images_to_pdf [] (297, 210) ''t'' (img_indexing tiles_world) (files tiles_world)
            = Inr ([] @ qages)"
    and qrops: "list_all2 (\<lambda>f page. \<exists>iw ih x y new_width new_height.
                  image_size (path_join ''t'' f) (files tiles_world) = Inr (iw, ih)
                  \<and> page = ImagePage (path_join ''t'' f) x y new_width new_height
                  \<and> new_width \<le> of_int iw \<and> new_height \<le> of_int ih
                  \<and> ((297::rat) < of_int iw \<or> (210::rat) < of_int ih \<longrightarrow>
                        new_width = of_int iw * min (297 / of_int iw) (210 / of_int ih)
                        \<and> new_height = of_int ih * min (297 / of_int iw) (210 / of_int ih))
                  \<and> (of_int iw \<le> (297::rat) \<and> of_int ih \<le> (210::rat) \<longrightarrow>
                        new_width = of_int iw \<and> new_height = of_int ih)
                  \<and> x + new_width + x = 297
                  \<and> y + new_height + y = 210)
                (img_indexing tiles_world) qages"
    by blast
  define Q where "Q = (\<lambda>f page. \<exists>iw ih x y new_width new_height.
                  image_size (path_join ''t'' f) (files tiles_world) = Inr (iw, ih)
                  \<and> page = ImagePage (path_join ''t'' f) x y new_width new_height
                  \<and> new_width \<le> of_int iw \<and> new_height \<le> of_int ih
                  \<and> ((297::rat) < of_int iw \<or> (210::rat) < of_int ih \<longrightarrow>
                        new_width = of_int iw * min (297 / of_int iw) (210 / of_int ih)
                        \<and> new_height = of_int ih * min (297 / of_int iw) (210 / of_int ih))
                  \<and> (of_int iw \<le> (297::rat) \<and> of_int ih \<le> (210::rat) \<longrightarrow>
                        new_width = of_int iw \<and> new_height = of_int ih)
                  \<and> x + new_width + x = 297
                  \<and> y + new_height + y = 210)"
  from qrops have "list_all2 Q [''a.png'', ''b.png''] qages"
    unfolding Q_def idx .
  then obtain qa qb where qages: "qages = [qa, qb]" and Qa: "Q ''a.png'' qa" and Qb: "Q ''b.png'' qb"
    by (auto simp add: list_all2_Cons1)
  from Qa [unfolded Q_def pj sz] obtain jwa jha xa ya wa' ha' where
    "Inr (1601, 450) = (Inr (jwa, jha) :: py_error + int \<times> int)"
    and qa1: "qa = ImagePage ''t/a.png'' xa ya wa' ha'"
    and qa2: "297 < (of_int jwa :: rat) \<or> 210 < (of_int jha :: rat) \<longrightarrow>
                wa' = of_int jwa * min (297 / of_int jwa) (210 / of_int jha)
                \<and> ha' = of_int jha * min (297 / of_int jwa) (210 / of_int jha)"
    and qa3: "xa + wa' + xa = 297" "ya + ha' + ya = 210"
    by blast
  then have ja: "jwa = 1601" "jha = 450" by simp_all
  from Qb [unfolded Q_def pj sz] obtain jwb jhb xb yb wb' hb' where
    "Inr (100, 100) = (Inr (jwb, jhb) :: py_error + int \<times> int)"
    and qb1: "qb = ImagePage ''t/b.png'' xb yb wb' hb'"
    and qb2: "(of_int jwb :: rat) \<le> 297 \<and> (of_int jhb :: rat) \<le> 210 \<longrightarrow>
                wb' = of_int jwb \<and> hb' = of_int jhb"
    and qb3: "xb + wb' + xb = 297" "yb + hb' + yb = 210"
    by blast
  then have jb: "jwb = 100" "jhb = 100" by simp_all
  have wa': "wa' = 297" "ha' = 133650 / 1601" using qa2 by (simp_all add: ja)
  have xa: "xa = 0" "ya = 101280 / 1601" using qa3 wa' by (simp_all add: field_simps)
  have wb': "wb' = 100" "hb' = 100" using qb2 by (simp_all add: jb)
  have xb: "xb = 197 / 2" "yb = 55" using qb3 wb' by (simp_all add: field_simps)
  have 2: "add_images_to_pdf [] (297, 210) ''t'' (img_indexing tiles_world) (files tiles_world)
     = Inr [ImagePage ''t/a.png'' 0 (101280 / 1601) 297 (133650 / 1601),
            ImagePage ''t/b.png'' (197 / 2) 55 100 100]"
    unfolding run qages qa1 qb1 wa' xa wb' xb by simp
  from 1 2 show ?thesis by (rule conjI)
qed

text \<open>
  C5. When every tile of the index is an image of positive width and height, the
  size at which either assembler places a tile on its page lies within the bounds (8 by
  6 inches on a slide, the page in the PDF), and its width to height ratio is that of
  the image. Python computes in floating point; the statement is of the exact
  arithmetic, which is what equality within rounding tolerance refers to.
\<close>

theorem placed_images_within_bounds:
  assumes "\<forall>f \<in> set (img_indexing w).
             \<exists>iw ih. image_size (path_join img_dir f) (files w) = Inr (iw, ih) \<and> 0 < iw \<and> 0 < ih"
    and "0 < page_width" and "0 < page_height"
  shows "(\<exists>pages.
            (\<forall>prs. add_images_to_ppt prs img_dir (img_indexing w) (files w) = Inr (prs @ pages))
            \<and> (\<forall>export_path workbook_name project_name.
                  create_deck img_dir export_path workbook_name project_name w
                    = (case write_file export_path
                              (Document (TitlePage (py_str workbook_name)
                                           [''Project: '' @ py_str project_name] # pages)) (files w) of
                         Inl err \<Rightarrow> (Some err, w)
                       | Inr fs1 \<Rightarrow> (None, w\<lparr>files := fs1\<rparr>)))
            \<and> list_all2 (\<lambda>f page. \<exists>iw ih left top_edge width height.
                  image_size (path_join img_dir f) (files w) = Inr (iw, ih)
                  \<and> page = ImagePage (path_join img_dir f) left top_edge width height
                  \<and> 0 < width \<and> 0 < height
                  \<and> width \<le> of_int (Inches 8) \<and> height \<le> of_int (Inches 6)
                  \<and> width / height = of_int iw / of_int ih)
                (img_indexing w) pages)
    \<and> (\<exists>pages.
            (\<forall>pdf. add_images_to_pdf pdf (page_width, page_height) img_dir (img_indexing w) (files w)
                     = Inr (pdf @ pages))
            \<and> (\<forall>c output_path pdf_config orient fmt title_pages.
                  subscript (JObj pdf_config) ''orientation'' = Inr orient
                  \<and> subscript (JObj pdf_config) ''page_type'' = Inr fmt
                  \<and> fpdf_page c orient fmt = Inr (page_width, page_height)
                  \<and> add_title_page [] pdf_config = Inr title_pages \<longrightarrow>
                  export_as_pdf c img_dir output_path pdf_config w
                    = (case write_file output_path (Document (title_pages @ pages)) (files w) of
                         Inl err \<Rightarrow> (Some err, w)
                       | Inr fs1 \<Rightarrow> (None, w\<lparr>files := fs1\<rparr>)))
            \<and> list_all2 (\<lambda>f page. \<exists>iw ih x y new_width new_height.
                  image_size (path_join img_dir f) (files w) = Inr (iw, ih)
                  \<and> page = ImagePage (path_join img_dir f) x y new_width new_height
                  \<and> 0 < new_width \<and> 0 < new_height
                  \<and> new_width \<le> page_width \<and> new_height \<le> page_height
                  \<and> new_width / new_height = of_int iw / of_int ih)
                (img_indexing w) pages)"
proof (rule conjI)
  from add_images_to_ppt_pages[OF assms(1)] obtain pages where
    run: "\<forall>prs. add_images_to_ppt prs img_dir (img_indexing w) (files w) = Inr (prs @ pages)"
    and all: "list_all2 (\<lambda>f page. \<exists>iw ih left top_edge width height.
                 image_size (path_join img_dir f) (files w) = Inr (iw, ih) \<and> 0 < iw \<and> 0 < ih
                 \<and> ppt_layout default_slide_width default_slide_height iw ih
                     = Inr (left, top_edge, width, height)
                 \<and> page = ImagePage (path_join img_dir f) left top_edge width height)
               (img_indexing w) pages"
    by blast
  have deck: "\<forall>export_path workbook_name project_name.
                  create_deck img_dir export_path workbook_name project_name w
                    = (case write_file export_path
                              (Document (TitlePage (py_str workbook_name)
                                           [''Project: '' @ py_str project_name] # pages)) (files w) of
                         Inl err \<Rightarrow> (Some err, w)
                       | Inr fs1 \<Rightarrow> (None, w\<lparr>files := fs1\<rparr>))"
    using create_deck_document[OF run] by blast
  have props: "list_all2 (\<lambda>f page. \<exists>iw ih left top_edge width height.
                  image_size (path_join img_dir f) (files w) = Inr (iw, ih)
                  \<and> page = ImagePage (path_join img_dir f) left top_edge width height
                  \<and> 0 < width \<and> 0 < height
                  \<and> width \<le> of_int (Inches 8) \<and> height \<le> of_int (Inches 6)
                  \<and> width / height = of_int iw / of_int ih)
                (img_indexing w) pages"
    using all
  proof (rule list_all2_mono)
    fix f page
    assume "\<exists>iw ih left top_edge width height.
                 image_size (path_join img_dir f) (files w) = Inr (iw, ih) \<and> 0 < iw \<and> 0 < ih
                 \<and> ppt_layout default_slide_width default_slide_height iw ih
                     = Inr (left, top_edge, width, height)
                 \<and> page = ImagePage (path_join img_dir f) left top_edge width height"
    then obtain iw ih left top_edge width height where
      sz: "image_size (path_join img_dir f) (files w) = Inr (iw, ih)" and pos: "0 < iw" "0 < ih"
      and lay: "ppt_layout default_slide_width default_slide_height iw ih = Inr (left, top_edge, width, height)"
      and pg: "page = ImagePage (path_join img_dir f) left top_edge width height"
      by blast
    note fs = ppt_layout_facts[OF pos lay]
    show "\<exists>iw ih left top_edge width height.
                  image_size (path_join img_dir f) (files w) = Inr (iw, ih)
                  \<and> page = ImagePage (path_join img_dir f) left top_edge width height
                  \<and> 0 < width \<and> 0 < height
                  \<and> width \<le> of_int (Inches 8) \<and> height \<le> of_int (Inches 6)
                  \<and> width / height = of_int iw / of_int ih"
      by (rule exI[of _ iw], rule exI[of _ ih], rule exI[of _ left], rule exI[of _ top_edge],
          rule exI[of _ width], rule exI[of _ height])
         (intro conjI sz pg fs(6) fs(7) fs(8) fs(9) fs(10))
  qed
  from run deck props
  show "\<exists>pages.
            (\<forall>prs. add_images_to_ppt prs img_dir (img_indexing w) (files w) = Inr (prs @ pages))
            \<and> (\<forall>export_path workbook_name project_name.
                  create_deck img_dir export_path workbook_name project_name w
                    = (case write_file export_path
                              (Document (TitlePage (py_str workbook_name)
                                           [''Project: '' @ py_str project_name] # pages)) (files w) of
                         Inl err \<Rightarrow> (Some err, w)
                       | Inr fs1 \<Rightarrow> (None, w\<lparr>files := fs1\<rparr>)))
            \<and> list_all2 (\<lambda>f page. \<exists>iw ih left top_edge width height.
                  image_size (path_join img_dir f) (files w) = Inr (iw, ih)
                  \<and> page = ImagePage (path_join img_dir f) left top_edge width height
                  \<and> 0 < width \<and> 0 < height
                  \<and> width \<le> of_int (Inches 8) \<and> height \<le> of_int (Inches 6)
                  \<and> width / height = of_int iw / of_int ih)
                (img_indexing w) pages"
    by (intro exI[of _ pages] conjI)
next
  from add_images_to_pdf_pages[OF assms(1), of "(page_width, page_height)"] obtain pages where
    run: "\<forall>pdf. add_images_to_pdf pdf (page_width, page_height) img_dir (img_indexing w) (files w)
                  = Inr (pdf @ pages)"
    and all: "list_all2 (\<lambda>f page. \<exists>iw ih x y new_width new_height.
                 image_size (path_join img_dir f) (files w) = Inr (iw, ih) \<and> 0 < iw \<and> 0 < ih
                 \<and> pdf_layout page_width page_height iw ih = Inr (x, y, new_width, new_height)
                 \<and> page = ImagePage (path_join img_dir f) x y new_width new_height)
               (img_indexing w) pages"
    by auto
  have doc: "\<forall>c output_path pdf_config orient fmt title_pages.
                  subscript (JObj pdf_config) ''orientation'' = Inr orient
                  \<and> subscript (JObj pdf_config) ''page_type'' = Inr fmt
                  \<and> fpdf_page c orient fmt = Inr (page_width, page_height)
                  \<and> add_title_page [] pdf_config = Inr title_pages \<longrightarrow>
                  export_as_pdf c img_dir output_path pdf_config w
                    = (case write_file output_path (Document (title_pages @ pages)) (files w) of
                         Inl err \<Rightarrow> (Some err, w)
                       | Inr fs1 \<Rightarrow> (None, w\<lparr>files := fs1\<rparr>))"
    using export_as_pdf_document[OF run] by blast
  have props: "list_all2 (\<lambda>f page. \<exists>iw ih x y new_width new_height.
                  image_size (path_join img_dir f) (files w) = Inr (iw, ih)
                  \<and> page = ImagePage (path_join img_dir f) x y new_width new_height
                  \<and> 0 < new_width \<and> 0 < new_height
                  \<and> new_width \<le> page_width \<and> new_height \<le> page_height
                  \<and> new_width / new_height = of_int iw / of_int ih)
                (img_indexing w) pages"
    using all
  proof (rule list_all2_mono)
    fix f page
    assume "\<exists>iw ih x y new_width new_height.
                 image_size (path_join img_dir f) (files w) = Inr (iw, ih) \<and> 0 < iw \<and> 0 < ih
                 \<and> pdf_layout page_width page_height iw ih = Inr (x, y, new_width, new_height)
                 \<and> page = ImagePage (path_join img_dir f) x y new_width new_height"
    then obtain iw ih x y new_width new_height where
      sz: "image_size (path_join img_dir f) (files w) = Inr (iw, ih)" and pos: "0 < iw" "0 < ih"
      and lay: "pdf_layout page_width page_height iw ih = Inr (x, y, new_width, new_height)"
      and pg: "page = ImagePage (path_join img_dir f) x y new_width new_height"
      by blast
    from pdf_layout_facts[OF pos assms(2,3) lay]
    have "0 < new_width \<and> 0 < new_height
                  \<and> new_width \<le> page_width \<and> new_height \<le> page_height
                  \<and> new_width / new_height = of_int iw / of_int ih"
      by blast
    with sz pg
    show "\<exists>iw ih x y new_width new_height.
                  image_size (path_join img_dir f) (files w) = Inr (iw, ih)
                  \<and> page = ImagePage (path_join img_dir f) x y new_width new_height
                  \<and> 0 < new_width \<and> 0 < new_height
                  \<and> new_width \<le> page_width \<and> new_height \<le> page_height
                  \<and> new_width / new_height = of_int iw / of_int ih"
      by (intro exI[of _ iw] exI[of _ ih] exI[of _ x] exI[of _ y] exI[of _ new_width]
            exI[of _ new_height]) (intro conjI; blast)
  qed
  from run doc props
  show "\<exists>pages.
            (\<forall>pdf. add_images_to_pdf pdf (page_width, page_height) img_dir (img_indexing w) (files w)
                     = Inr (pdf @ pages))
            \<and> (\<forall>c output_path pdf_config orient fmt title_pages.
                  subscript (JObj pdf_config) ''orientation'' = Inr orient
                  \<and> subscript (JObj pdf_config) ''page_type'' = Inr fmt
                  \<and> fpdf_page c orient fmt = Inr (page_width, page_height)
                  \<and> add_title_page [] pdf_config = Inr title_pages \<longrightarrow>
                  export_as_pdf c img_dir output_path pdf_config w
                    = (case write_file output_path (Document (title_pages @ pages)) (files w) of
                         Inl err \<Rightarrow> (Some err, w)
                       | Inr fs1 \<Rightarrow> (None, w\<lparr>files := fs1\<rparr>)))
            \<and> list_all2 (\<lambda>f page. \<exists>iw ih x y new_width new_height.
                  image_size (path_join img_dir f) (files w) = Inr (iw, ih)
                  \<and> page = ImagePage (path_join img_dir f) x y new_width new_height
                  \<and> 0 < new_width \<and> 0 < new_height
                  \<and> new_width \<le> page_width \<and> new_height \<le> page_height
                  \<and> new_width / new_height = of_int iw / of_int ih)
                (img_indexing w) pages"
    by (intro exI[of _ pages] conjI)
qed

theorem placed_images_within_bounds_witness:
  "export_as_pdf (sample_collaborator sample_config) ''t'' ''pdf/Sales.pdf''
      [(''page_type'', JStr ''A4''), (''orientation'', JStr ''landscape''),
       (''workbook_name'', JStr ''Sales''), (''project_name'', JStr ''Ops'')] tiles_world
     = (None, tiles_world\<lparr>files := \<lparr>dirs = (dirs (files tiles_world))(''pdf'' \<mapsto> [''Sales.pdf'']),
          data = (data (files tiles_world))(''pdf/Sales.pdf'' \<mapsto>
            Document [TitlePage ''Tableau Workbook Export: Sales'' [''Project: Ops''],
                      ImagePage ''t/a.png'' 0 (101280 / 1601) 297 (133650 / 1601),
                      ImagePage ''t/b.png'' (197 / 2) 55 100 100])\<rparr>\<rparr>)
   \<and> add_images_to_ppt [] ''t'' (img_indexing tiles_world) (files tiles_world)
     = Inr [ImagePage ''t/a.png'' 914400 (3843909000 / 1601) 7315200 (3291840000 / 1601),
            ImagePage ''t/b.png'' 1828800 685800 5486400 5486400]
   \<and> (7315200 :: rat) \<le> of_int (Inches 8) \<and> (5486400 :: rat) \<le> of_int (Inches 6)
   \<and> (7315200 :: rat) / (3291840000 / 1601) = 1601 / 450"
proof -
  let ?cfg = "[(''page_type'', JStr ''A4''), (''orientation'', JStr ''landscape''),
       (''workbook_name'', JStr ''Sales''), (''project_name'', JStr ''Ops'')]"
  have h: "\<forall>f \<in> set (img_indexing tiles_world).
             \<exists>iw ih. image_size (path_join ''t'' f) (files tiles_world) = Inr (iw, ih) \<and> 0 < iw \<and> 0 < ih"
    by (simp add: tiles_world_def image_size_def path_join_def)
  have p: "(0::rat) < 297" "(0::rat) < 210" by simp_all
  note t = placed_images_within_bounds [OF h p]
  from t [THEN conjunct2] obtain pages where
    run: "add_images_to_pdf [] (297, 210) ''t'' (img_indexing tiles_world) (files tiles_world)
            = Inr ([] @ pages)"
    and doc: "\<forall>c output_path pdf_config orient fmt title_pages.
                  subscript (JObj pdf_config) ''orientation'' = Inr orient
                  \<and> subscript (JObj pdf_config) ''page_type'' = Inr fmt
                  \<and> fpdf_page c orient fmt = Inr (297, 210)
                  \<and> add_title_page [] pdf_config = Inr title_pages \<longrightarrow>
                  export_as_pdf c ''t'' output_path pdf_config tiles_world
                    = (case write_file output_path (Document (title_pages @ pages)) (files tiles_world) of
                         Inl err \<Rightarrow> (Some err, tiles_world)
                       | Inr fs1 \<Rightarrow> (None, tiles_world\<lparr>files := fs1\<rparr>))"
    by blast
  have "add_images_to_pdf [] (297, 210) ''t'' (img_indexing tiles_world) (files tiles_world)
          = Inr [ImagePage ''t/a.png'' 0 (101280 / 1601) 297 (133650 / 1601),
                 ImagePage ''t/b.png'' (197 / 2) 55 100 100]"
    by (simp add: add_image_to_pdf_def tiles_world_def image_size_def path_join_def
          pdf_layout_def pdf_size_def Let_def)
  with run have pages: "pages = [ImagePage ''t/a.png'' 0 (101280 / 1601) 297 (133650 / 1601),
                 ImagePage ''t/b.png'' (197 / 2) 55 100 100]"
    by simp
  have pre: "subscript (JObj ?cfg) ''orientation'' = Inr (JStr ''landscape'')
                  \<and> subscript (JObj ?cfg) ''page_type'' = Inr (JStr ''A4'')
                  \<and> fpdf_page (sample_collaborator sample_config) (JStr ''landscape'') (JStr ''A4'')
                      = Inr (297, 210)
                  \<and> add_title_page [] ?cfg
                      = Inr [TitlePage ''Tableau Workbook Export: Sales'' [''Project: Ops'']]"
    by (simp add: sample_collaborator_def add_title_page_def)
  have 1: "export_as_pdf (sample_collaborator sample_config) ''t'' ''pdf/Sales.pdf'' ?cfg tiles_world
     = (None, tiles_world\<lparr>files := \<lparr>dirs = (dirs (files tiles_world))(''pdf'' \<mapsto> [''Sales.pdf'']),
          data = (data (files tiles_world))(''pdf/Sales.pdf'' \<mapsto>
            Document [TitlePage ''Tableau Workbook Export: Sales'' [''Project: Ops''],
                      ImagePage ''t/a.png'' 0 (101280 / 1601) 297 (133650 / 1601),
                      ImagePage ''t/b.png'' (197 / 2) 55 100 100])\<rparr>\<rparr>)"
    unfolding doc [rule_format, OF pre] pages
    by (simp add: write_file_def dir_name_def base_name_def tiles_world_def)
  from t [THEN conjunct1] obtain qages where
    qrun: "add_images_to_ppt [] ''t'' (img_indexing tiles_world) (files tiles_world) = Inr ([] @ qages)"
    by blast
  have "add_images_to_ppt [] ''t'' (img_indexing tiles_world) (files tiles_world)
     = Inr [ImagePage ''t/a.png'' 914400 (3843909000 / 1601) 7315200 (3291840000 / 1601),
            ImagePage ''t/b.png'' 1828800 685800 5486400 5486400]"
    by (simp add: add_image_to_ppt_def tiles_world_def image_size_def path_join_def
          ppt_layout_def ppt_scale_def Inches_def Let_def
          default_slide_width_def default_slide_height_def)
  with 1 show ?thesis by (simp add: Inches_def)
qed


section \<open>Properties of the deactivation script\<close>

lemma inactive_from_sound:
  "u \<in> set (inactive_from clock k viewer_list) \<Longrightarrow>
     u \<in> set viewer_list \<and> (\<exists>t j. last_login u = Some t \<and> 500 < timedelta_days (clock j) t)"
proof (induction viewer_list arbitrary: k)
  case Nil
  then show ?case by simp
next
  case (Cons v viewer_list)
  show ?case
  proof (cases "last_login v")
    case None
    with Cons.prems have "u \<in> set (inactive_from clock k viewer_list)" by simp
    from Cons.IH[OF this] show ?thesis by simp
  next
    case (Some t)
    show ?thesis
    proof (cases "u = v \<and> 500 < timedelta_days (clock k) t")
      case True
      with Some show ?thesis by auto
    next
      case False
      with Some Cons.prems have "u \<in> set (inactive_from clock (Suc k) viewer_list)"
        by (auto simp add: Let_def INACTIVE_THRESHOLD_def split: if_splits)
      from Cons.IH[OF this] show ?thesis by simp
    qed
  qed
qed

lemma deactivate_each_changed:
  "u' \<in> set (snd (deactivate_each upd inactive_users)) \<Longrightarrow>
     \<exists>u \<in> set inactive_users. u' = u\<lparr>site_role := ''Unlicensed''\<rparr>"
proof (induction inactive_users)
  case Nil
  then show ?case by simp
next
  case (Cons v inactive_users)
  then show ?case
    by (auto simp add: Let_def split: option.splits prod.splits)
qed

lemma deactivate_users_changed:
  "u' \<in> set (snd (deactivate_users inactive_users upd)) \<Longrightarrow>
     \<exists>u \<in> set inactive_users. u' = u\<lparr>site_role := ''Unlicensed''\<rparr>"
  using deactivate_each_changed[of u' upd inactive_users]
  by (auto simp add: deactivate_users_def split: if_splits)

text \<open>
  C10. Whatever the server answers to the updates: every user whose site role
  \<open>deactivate_users\<close> sets to Unlicensed, when it is given the result of
  \<open>get_inactive_users\<close> on the viewers of the user list, is a user of the list whose site
  role was Viewer and whose last login is not null and lies more than 500 days (strictly)
  before the time read for that user. A user who never signed in is not classified as
  inactive, and no user whose role is changed has a null last login. (The main block as
  written calls \<open>deactivate_users\<close> without its server argument, see \<open>site_tasks\<close>; the
  statement covers the functions as they are defined, so also a call that passes it.)
\<close>

theorem deactivation_only_inactive_viewers:
  "(\<forall>u' \<in> set (snd (deactivate_users (get_inactive_users clock (viewers user_list)) upd)).
      \<exists>u \<in> set user_list. u' = u\<lparr>site_role := ''Unlicensed''\<rparr> \<and> site_role u = ''Viewer''
         \<and> (\<exists>t k. last_login u = Some t \<and> 500 < timedelta_days (clock k) t))
   \<and> (\<forall>u \<in> set user_list. last_login u = None \<longrightarrow>
          u \<notin> set (get_inactive_users clock (viewers user_list)))
   \<and> (\<forall>u' \<in> set (snd (deactivate_users (get_inactive_users clock (viewers user_list)) upd)).
          last_login u' \<noteq> None)"
proof -
  have sound: "u \<in> set user_list \<and> site_role u = ''Viewer''
         \<and> (\<exists>t k. last_login u = Some t \<and> 500 < timedelta_days (clock k) t)"
    if "u \<in> set (get_inactive_users clock (viewers user_list))" for u
    using inactive_from_sound[of u clock 0 "viewers user_list"] that
    by (auto simp add: get_inactive_users_def viewers_def)
  have 1: "\<exists>u \<in> set user_list. u' = u\<lparr>site_role := ''Unlicensed''\<rparr> \<and> site_role u = ''Viewer''
         \<and> (\<exists>t k. last_login u = Some t \<and> 500 < timedelta_days (clock k) t)"
    if "u' \<in> set (snd (deactivate_users (get_inactive_users clock (viewers user_list)) upd))"
    for u'
    using deactivate_users_changed[OF that] sound by blast
  have 2: "u \<notin> set (get_inactive_users clock (viewers user_list))"
    if "u \<in> set user_list" "last_login u = None" for u
    using sound[of u] that by auto
  have 3: "last_login u' \<noteq> None"
    if "u' \<in> set (snd (deactivate_users (get_inactive_users clock (viewers user_list)) upd))"
    for u'
    using 1[OF that] by auto
  from 1 2 3 show ?thesis by blast
qed

theorem deactivation_only_inactive_viewers_witness:
  "snd (deactivate_users
          (get_inactive_users (\<lambda>k. 501 * 86400000000)
             (viewers
                [\<lparr>user_id = ''1'', user_name = ''ann'', site_role = ''Viewer'', last_login = Some 0\<rparr>,
                 \<lparr>user_id = ''2'', user_name = ''bob'', site_role = ''Viewer'', last_login = None\<rparr>,
                 \<lparr>user_id = ''3'', user_name = ''cy'', site_role = ''Explorer'', last_login = Some 0\<rparr>,
                 \<lparr>user_id = ''4'', user_name = ''di'', site_role = ''Viewer'',
                    last_login = Some 86400000000\<rparr>]))
          (\<lambda>u. None))
     = [\<lparr>user_id = ''1'', user_name = ''ann'', site_role = ''Unlicensed'', last_login = Some 0\<rparr>]
   \<and> \<lparr>user_id = ''2'', user_name = ''bob'', site_role = ''Viewer'', last_login = None\<rparr>
       \<notin> set (get_inactive_users (\<lambda>k. 501 * 86400000000)
             (viewers
                [\<lparr>user_id = ''1'', user_name = ''ann'', site_role = ''Viewer'', last_login = Some 0\<rparr>,
                 \<lparr>user_id = ''2'', user_name = ''bob'', site_role = ''Viewer'', last_login = None\<rparr>,
                 \<lparr>user_id = ''3'', user_name = ''cy'', site_role = ''Explorer'', last_login = Some 0\<rparr>,
                 \<lparr>user_id = ''4'', user_name = ''di'', site_role = ''Viewer'',
                    last_login = Some 86400000000\<rparr>]))"
proof -
  let ?bob = "\<lparr>user_id = ''2'', user_name = ''bob'', site_role = ''Viewer'', last_login = None\<rparr>"
  let ?users = "[\<lparr>user_id = ''1'', user_name = ''ann'', site_role = ''Viewer'', last_login = Some 0\<rparr>,
                 ?bob,
                 \<lparr>user_id = ''3'', user_name = ''cy'', site_role = ''Explorer'', last_login = Some 0\<rparr>,
                 \<lparr>user_id = ''4'', user_name = ''di'', site_role = ''Viewer'',
                    last_login = Some 86400000000\<rparr>]"
  note t = deactivation_only_inactive_viewers [of "\<lambda>k. 501 * 86400000000" ?users "\<lambda>u. None"]
  have a: "?bob \<in> set ?users" by simp
  have b: "last_login ?bob = None" by simp
  have "?bob \<notin> set (get_inactive_users (\<lambda>k. 501 * 86400000000) (viewers ?users))"
    by (rule t [THEN conjunct2, THEN conjunct1, rule_format, OF a b])
  moreover have "snd (deactivate_users (get_inactive_users (\<lambda>k. 501 * 86400000000) (viewers ?users))
                   (\<lambda>u. None))
     = [\<lparr>user_id = ''1'', user_name = ''ann'', site_role = ''Unlicensed'', last_login = Some 0\<rparr>]"
    by (simp add: deactivate_users_def get_inactive_users_def viewers_def timedelta_days_def
          INACTIVE_THRESHOLD_def Let_def)
  ultimately show ?thesis by simp
qed

section \<open>Properties of the main blocks\<close>

subsection \<open>The configuration\<close>

lemma steps_1_to_4_success:
  assumes "steps_1_to_4 c a w = (Inr (workbook_name, project_name, ppt_slides, wb, image_export_option), w1)"
  shows "\<exists>config filters.
           load_config c (''config/'' @ config_file a) = Inr config
           \<and> subscript config ''workbook_name'' = Inr workbook_name
           \<and> subscript config ''project_name'' = Inr project_name
           \<and> subscript config ''slide_views'' = Inr ppt_slides
           \<and> subscript config ''filters'' = Inr filters
           \<and> get_image_export filters = Inr image_export_option"
  using assms
  by (simp add: steps_1_to_4_def split: prod.splits option.splits sum.splits)

lemma subscript_absent:
  "k \<notin> fst ` set kvs \<Longrightarrow> subscript (JObj kvs) k = Inl (KeyError k)"
  using map_of_eq_None_iff [of kvs k] by simp

lemma load_config_Parsed: "(load_config c path = Inr config) = (config_files c path = Parsed config)"
  by (auto simp add: load_config_def split: config_source.splits)


lemma get_image_export_empty:
  "get_image_export (JArr []) = Inr \<lparr>imageresolution = ''high'', maxage = 1, view_filters = []\<rparr>"
  "get_image_export JNull = Inr \<lparr>imageresolution = ''high'', maxage = 1, view_filters = []\<rparr>"
  by (simp_all add: get_image_export_def)

text \<open>
  C6 as stated fails: the main block reads \<open>config['filters']\<close> with a subscript, so a
  configuration without the key \<open>filters\<close> ends the run with \<open>KeyError\<close> after the
  workbook was found. The same configuration with \<open>"filters": []\<close> runs to the end.
\<close>

theorem filters_key_counterexample:
  "fst (main (sample_collaborator
               (JObj [(''workbook_name'', JStr ''Sales''), (''project_name'', JStr ''Ops''),
                      (''slide_views'', JArr [JStr ''B'', JStr ''A''])]))
            (sample_args ''ppt'') initial_world) = Some (KeyError ''filters'')
   \<and> fst (main (sample_collaborator
               (JObj [(''workbook_name'', JStr ''Sales''), (''project_name'', JStr ''Ops''),
                      (''slide_views'', JArr [JStr ''B'', JStr ''A'']), (''filters'', JArr [])]))
            (sample_args ''ppt'') initial_world) = None"
  by code_simp

text \<open>
  C6, amended. \<open>load_config\<close> fails exactly when the file is missing, unreadable or not
  valid JSON, and otherwise returns what was parsed, unchanged: no key is checked and
  none is given a default. The main block then reads four keys with a subscript:
  when the parsed object lacks \<open>workbook_name\<close>, \<open>project_name\<close>, \<open>slide_views\<close> or
  \<open>filters\<close>, STEP 1 to STEP 4 end with an exception, and when they complete, each of
  the four values is the one under its key. So the key \<open>filters\<close> is required like the
  other three; a \<open>filters\<close> that is present and empty or null means that no filter is
  applied.
\<close>

theorem config_keys_required:
  "(\<forall>config. (load_config c path = Inr config) = (config_files c path = Parsed config))
   \<and> ((\<exists>err. load_config c path = Inl err)
        = (config_files c path = Missing \<or> config_files c path = Unreadable
             \<or> config_files c path = Invalid_json))
   \<and> (\<forall>k \<in> {''workbook_name'', ''project_name'', ''slide_views'', ''filters''}.
        \<forall>kvs. config_files c (''config/'' @ config_file a) = Parsed (JObj kvs) \<and> k \<notin> fst ` set kvs
          \<longrightarrow> (\<exists>err w1. steps_1_to_4 c a w = (Inl err, w1)))
   \<and> (\<forall>workbook_name project_name ppt_slides wb image_export_option w1.
        steps_1_to_4 c a w = (Inr (workbook_name, project_name, ppt_slides, wb, image_export_option), w1)
          \<longrightarrow> (\<exists>config filters.
                 config_files c (''config/'' @ config_file a) = Parsed config
                 \<and> subscript config ''workbook_name'' = Inr workbook_name
                 \<and> subscript config ''project_name'' = Inr project_name
                 \<and> subscript config ''slide_views'' = Inr ppt_slides
                 \<and> subscript config ''filters'' = Inr filters
                 \<and> get_image_export filters = Inr image_export_option))
   \<and> get_image_export (JArr []) = Inr \<lparr>imageresolution = ''high'', maxage = 1, view_filters = []\<rparr>
   \<and> get_image_export JNull = Inr \<lparr>imageresolution = ''high'', maxage = 1, view_filters = []\<rparr>"
proof (intro conjI)
  show "\<forall>config. (load_config c path = Inr config) = (config_files c path = Parsed config)"
    by (simp add: load_config_Parsed)
  show "(\<exists>err. load_config c path = Inl err)
        = (config_files c path = Missing \<or> config_files c path = Unreadable
             \<or> config_files c path = Invalid_json)"
    by (auto simp add: load_config_def split: config_source.splits)
  show "\<forall>workbook_name project_name ppt_slides wb image_export_option w1.
        steps_1_to_4 c a w = (Inr (workbook_name, project_name, ppt_slides, wb, image_export_option), w1)
          \<longrightarrow> (\<exists>config filters.
                 config_files c (''config/'' @ config_file a) = Parsed config
                 \<and> subscript config ''workbook_name'' = Inr workbook_name
                 \<and> subscript config ''project_name'' = Inr project_name
                 \<and> subscript config ''slide_views'' = Inr ppt_slides
                 \<and> subscript config ''filters'' = Inr filters
                 \<and> get_image_export filters = Inr image_export_option)"
    using steps_1_to_4_success[of c a w] by (simp add: load_config_Parsed)
  show "\<forall>k \<in> {''workbook_name'', ''project_name'', ''slide_views'', ''filters''}.
        \<forall>kvs. config_files c (''config/'' @ config_file a) = Parsed (JObj kvs) \<and> k \<notin> fst ` set kvs
          \<longrightarrow> (\<exists>err w1. steps_1_to_4 c a w = (Inl err, w1))"
  proof (intro ballI allI impI)
    fix k kvs
    assume k: "k \<in> {''workbook_name'', ''project_name'', ''slide_views'', ''filters''}"
      and h: "config_files c (''config/'' @ config_file a) = Parsed (JObj kvs) \<and> k \<notin> fst ` set kvs"
    from h have cfg: "load_config c (''config/'' @ config_file a) = Inr (JObj kvs)"
      by (simp add: load_config_Parsed)
    from h have "k \<notin> fst ` set kvs" by simp
    then have absent: "subscript (JObj kvs) k = Inl (KeyError k)"
      by (rule subscript_absent)
    obtain r w1 where r: "steps_1_to_4 c a w = (r, w1)" by (cases "steps_1_to_4 c a w")
    show "\<exists>err w1. steps_1_to_4 c a w = (Inl err, w1)"
    proof (cases r)
      case (Inl err)
      with r show ?thesis by blast
    next
      case (Inr res)
      obtain workbook_name project_name ppt_slides wb image_export_option
        where "res = (workbook_name, project_name, ppt_slides, wb, image_export_option)"
        by (cases res)
      with r Inr steps_1_to_4_success[of c a w workbook_name project_name ppt_slides wb
          image_export_option w1]
      obtain filters where
        "subscript (JObj kvs) ''workbook_name'' = Inr workbook_name"
        "subscript (JObj kvs) ''project_name'' = Inr project_name"
        "subscript (JObj kvs) ''slide_views'' = Inr ppt_slides"
        "subscript (JObj kvs) ''filters'' = Inr filters"
        using cfg by auto
      with k absent have False by auto
      then show ?thesis ..
    qed
  qed
qed (rule get_image_export_empty)+


theorem config_keys_required_witness:
  "(\<exists>err w1. steps_1_to_4
       (sample_collaborator
          (JObj [(''workbook_name'', JStr ''Sales''), (''project_name'', JStr ''Ops''),
                 (''slide_views'', JArr [JStr ''B'', JStr ''A''])]))
       (sample_args ''ppt'') initial_world = (Inl err, w1))
   \<and> load_config (sample_collaborator sample_config) ''config/sales.json'' = Inr sample_config"
proof -
  let ?kvs = "[(''workbook_name'', JStr ''Sales''), (''project_name'', JStr ''Ops''),
                 (''slide_views'', JArr [JStr ''B'', JStr ''A''])]"
  have k: "''filters'' \<in> {''workbook_name'', ''project_name'', ''slide_views'', ''filters''}"
    by simp
  have h: "config_files (sample_collaborator (JObj ?kvs)) (''config/'' @ config_file (sample_args ''ppt''))
             = Parsed (JObj ?kvs) \<and> ''filters'' \<notin> fst ` set ?kvs"
    by (simp add: sample_collaborator_def sample_args_def)
  have 1: "\<exists>err w1. steps_1_to_4 (sample_collaborator (JObj ?kvs)) (sample_args ''ppt'') initial_world
             = (Inl err, w1)"
    by (rule config_keys_required [of "sample_collaborator (JObj ?kvs)" "''config/sales.json''"
          "sample_args ''ppt''" initial_world,
          THEN conjunct2, THEN conjunct2, THEN conjunct1, rule_format, OF k h])
  have p: "config_files (sample_collaborator sample_config) ''config/sales.json'' = Parsed sample_config"
    by (simp add: sample_collaborator_def)
  have 2: "load_config (sample_collaborator sample_config) ''config/sales.json'' = Inr sample_config"
    using config_keys_required [of "sample_collaborator sample_config" "''config/sales.json''"
          "sample_args ''ppt''" initial_world, THEN conjunct1] p
    by simp
  from 1 2 show ?thesis by (rule conjI)
qed

subsection \<open>Cleanup and sign-out\<close>





lemma export_views_session:
  "export_views c opts img_dir ppt_slides vs w = (r, w1) \<Longrightarrow>
     signed_in w1 = signed_in w \<and> sign_out_calls w1 = sign_out_calls w"
proof (induction vs arbitrary: w)
  case Nil
  then show ?case by simp
next
  case (Cons v vs)
  show ?case
  proof (cases "py_in (view_name v) ppt_slides")
    case (Inl e)
    with Cons.prems show ?thesis by simp
  next
    case (Inr requested)
    show ?thesis
    proof (cases requested)
      case False
      with Inr Cons.prems have "export_views c opts img_dir ppt_slides vs w = (r, w1)" by simp
      from Cons.IH[OF this] show ?thesis .
    next
      case True
      show ?thesis
      proof (cases "\<exists>w'. export_views c opts img_dir ppt_slides vs w' = (r, w1)
                       \<and> signed_in w' = signed_in w \<and> sign_out_calls w' = sign_out_calls w")
        case True
        then obtain w' where "export_views c opts img_dir ppt_slides vs w' = (r, w1)"
          and "signed_in w' = signed_in w" "sign_out_calls w' = sign_out_calls w" by blast
        with Cons.IH[of w'] show ?thesis by simp
      next
        case False
        with Inr True Cons.prems show ?thesis
          by (auto simp add: Let_def split: sum.splits option.splits prod.splits)
      qed
    qed
  qed
qed

lemma generate_slide_imgs_session:
  "generate_slide_imgs img_dir w = (r, w1) \<Longrightarrow>
     signed_in w1 = signed_in w \<and> sign_out_calls w1 = sign_out_calls w"
  by (auto simp add: generate_slide_imgs_def split: prod.splits option.splits)

lemma step_5_session:
  "step_5 c wb opts ppt_slides w = (r, w1) \<Longrightarrow>
     signed_in w1 = signed_in w \<and> sign_out_calls w1 = sign_out_calls w"
  by (auto simp add: step_5_def export_images_def Let_def
        split: sum.splits prod.splits option.splits
        dest!: export_views_session generate_slide_imgs_session)

lemma create_deck_session:
  "create_deck img_dir export_path wn pn w = (r, w1) \<Longrightarrow>
     signed_in w1 = signed_in w \<and> sign_out_calls w1 = sign_out_calls w"
  by (auto simp add: create_deck_def Let_def split: sum.splits)

lemma export_as_pdf_session:
  "export_as_pdf c img_dir output_path cfg w = (r, w1) \<Longrightarrow>
     signed_in w1 = signed_in w \<and> sign_out_calls w1 = sign_out_calls w"
  by (auto simp add: export_as_pdf_def Let_def split: sum.splits)

lemma step_6_session:
  "step_6 c a wn pn img_dir w = (r, w1) \<Longrightarrow>
     signed_in w1 = signed_in w \<and> sign_out_calls w1 = sign_out_calls w"
  by (auto simp add: step_6_def Let_def split: sum.splits if_splits
        dest!: create_deck_session export_as_pdf_session)

lemma step_7_session:
  "step_7 img_dir w = (r, w1) \<Longrightarrow>
     signed_in w1 = signed_in w \<and> sign_out_calls w1 = sign_out_calls w"
  by (auto simp add: step_7_def split: sum.splits prod.splits option.splits)

lemma steps_1_to_4_session:
  "steps_1_to_4 c a w = (r, w1) \<Longrightarrow>
     sign_out_calls w1 = sign_out_calls w
     \<and> (auth_sign_in c = None \<longrightarrow> signed_in w1)
     \<and> ((\<exists>res. r = Inr res) \<longrightarrow> signed_in w1)"
  by (auto simp add: steps_1_to_4_def connect_tableau_def split: sum.splits prod.splits option.splits)







lemma sign_out_result:
  "sign_out c w = (r, w1) \<Longrightarrow>
     sign_out_calls w1 = Suc (sign_out_calls w) \<and> files w1 = files w
     \<and> (r = None \<longrightarrow> \<not> signed_in w1) \<and> (auth_sign_out c = None \<longrightarrow> r = None)"
  by (auto simp add: sign_out_def split: option.splits)

lemma main_success:
  assumes "main c a w = (None, w')"
  shows "\<exists>wn pn sl wb opts w1 d w2 w3 w4.
           steps_1_to_4 c a w = (Inr (wn, pn, sl, wb, opts), w1)
           \<and> step_5 c wb opts sl w1 = (Inr d, w2)
           \<and> step_6 c a wn pn d w2 = (None, w3)
           \<and> step_7 d w3 = (None, w4)
           \<and> sign_out c w4 = (None, w')"
  using assms
  by (simp add: main_def split: prod.splits sum.splits option.splits)

lemma main_failure:
  assumes "main c a w = (Some err, w')" and "auth_sign_out c = None"
  shows "sign_out_calls w' = sign_out_calls w \<and> (auth_sign_in c = None \<longrightarrow> signed_in w')"
proof -
  obtain r1 w1 where s1: "steps_1_to_4 c a w = (r1, w1)" by (cases "steps_1_to_4 c a w")
  note k1 = steps_1_to_4_session[OF s1]
  show ?thesis
  proof (cases r1)
    case (Inl e)
    with s1 assms(1) have "w' = w1" by (simp add: main_def)
    with k1 show ?thesis by simp
  next
    case (Inr res)
    obtain wn pn sl wb opts where res: "res = (wn, pn, sl, wb, opts)" by (cases res)
    obtain r2 w2 where s2: "step_5 c wb opts sl w1 = (r2, w2)" by (cases "step_5 c wb opts sl w1")
    note k2 = step_5_session[OF s2]
    from k1 Inr have si: "signed_in w1" by blast
    show ?thesis
    proof (cases r2)
      case (Inl e)
      with s1 s2 Inr res assms(1) have "w' = w2" by (simp add: main_def)
      with k1 k2 si show ?thesis by simp
    next
      case d: (Inr d)
      obtain r3 w3 where s3: "step_6 c a wn pn d w2 = (r3, w3)" by (cases "step_6 c a wn pn d w2")
      note k3 = step_6_session[OF s3]
      show ?thesis
      proof (cases r3)
        case (Some e)
        with s1 s2 s3 Inr res d assms(1) have "w' = w3" by (simp add: main_def)
        with k1 k2 k3 si show ?thesis by simp
      next
        case None
        obtain r4 w4 where s4: "step_7 d w3 = (r4, w4)" by (cases "step_7 d w3")
        note k4 = step_7_session[OF s4]
        show ?thesis
        proof (cases r4)
          case (Some e)
          with s1 s2 s3 s4 Inr res d None assms(1) have "w' = w4" by (simp add: main_def)
          with k1 k2 k3 k4 si show ?thesis by simp
        next
          case n4: None
          with s1 s2 s3 s4 Inr res d None assms(1) have "sign_out c w4 = (Some err, w')"
            by (simp add: main_def)
          from sign_out_result[OF this] assms(2) show ?thesis by simp
        qed
      qed
    qed
  qed
qed

lemma process_site_sign_out:
  "site_sign_in srv = None \<Longrightarrow> sign_outs (snd (process_site srv clock st)) = Suc (sign_outs st)"
proof -
  have u: "sign_outs st1 = sign_outs st0"
    if "update_all_users_group srv role gs st0 = (r, st1)" for role gs st0 r st1
    using that
    by (induction gs arbitrary: st0) (auto simp add: Let_def split: if_splits option.splits)
  have t: "sign_outs st1 = sign_outs st0" if "site_tasks srv clock st0 = (r, st1)" for st0 r st1
    using that
    by (auto simp add: site_tasks_def disable_minimum_site_role_def Let_def
          split: sum.splits prod.splits option.splits dest: u)
  assume "site_sign_in srv = None"
  then show ?thesis
    by (auto simp add: process_site_def split: prod.splits option.splits dest: t)
qed





text \<open>
  C9 as stated fails for the export script: the sign-out is the last statement of the
  main block and no \<open>try\<close> encloses the steps. In a run whose configuration names a
  workbook the server does not have, \<open>get_workbook\<close> raises and the process ends signed
  in, without a call of \<open>sign_out\<close>.
\<close>

theorem sign_out_counterexample:
  "fst (main (sample_collaborator
               (JObj [(''workbook_name'', JStr ''Other''), (''project_name'', JStr ''Ops''),
                      (''slide_views'', JArr [JStr ''A'']), (''filters'', JArr [])]))
            (sample_args ''ppt'') initial_world)
     = Some (FileExistsError (not_found_message (JStr ''Other'') (JStr ''Ops'')))
   \<and> signed_in (snd (main (sample_collaborator
               (JObj [(''workbook_name'', JStr ''Other''), (''project_name'', JStr ''Ops''),
                      (''slide_views'', JArr [JStr ''A'']), (''filters'', JArr [])]))
            (sample_args ''ppt'') initial_world))
   \<and> sign_out_calls (snd (main (sample_collaborator
               (JObj [(''workbook_name'', JStr ''Other''), (''project_name'', JStr ''Ops''),
                      (''slide_views'', JArr [JStr ''A'']), (''filters'', JArr [])]))
            (sample_args ''ppt'') initial_world)) = 0"
  by code_simp

text \<open>
  C9, amended. In the export script the sign-out is attempted exactly once, as the last
  step, on the runs in which every step before it completes; the session is then
  closed. When a step raises, the process ends without a sign-out attempt, and with the
  session open if the sign-in had succeeded (stated for a server whose sign-out does not
  itself raise, so that the exception is one of a step). In the deactivation script, the
  body of the loop over the sites signs out in its \<open>finally\<close> clause on every path once
  the sign-in has succeeded.
\<close>

theorem sign_out_after_success:
  "(\<forall>w'. main c a w = (None, w') \<longrightarrow>
        sign_out_calls w' = Suc (sign_out_calls w) \<and> \<not> signed_in w')
   \<and> (\<forall>err w'. main c a w = (Some err, w') \<and> auth_sign_out c = None \<longrightarrow>
        sign_out_calls w' = sign_out_calls w \<and> (auth_sign_in c = None \<longrightarrow> signed_in w'))
   \<and> (site_sign_in srv = None \<longrightarrow>
        sign_outs (snd (process_site srv clock st)) = Suc (sign_outs st))"
proof (intro conjI allI impI)
  fix w'
  assume m: "main c a w = (None, w')"
  from main_success[OF m] obtain wn pn sl wb opts w1 d w2 w3 w4 where
    s1: "steps_1_to_4 c a w = (Inr (wn, pn, sl, wb, opts), w1)"
    and s5: "step_5 c wb opts sl w1 = (Inr d, w2)"
    and s6: "step_6 c a wn pn d w2 = (None, w3)"
    and s7: "step_7 d w3 = (None, w4)"
    and so: "sign_out c w4 = (None, w')"
    by blast
  from steps_1_to_4_session[OF s1] step_5_session[OF s5] step_6_session[OF s6]
    step_7_session[OF s7] sign_out_result[OF so]
  show "sign_out_calls w' = Suc (sign_out_calls w)" and "\<not> signed_in w'"
    by simp_all
next
  fix err w'
  assume h: "main c a w = (Some err, w') \<and> auth_sign_out c = None"
  then have m: "main c a w = (Some err, w')" and n: "auth_sign_out c = None" by simp_all
  from main_failure[OF m n] show "sign_out_calls w' = sign_out_calls w" by simp
  assume "auth_sign_in c = None"
  with main_failure[OF m n] show "signed_in w'" by simp
next
  assume "site_sign_in srv = None"
  then show "sign_outs (snd (process_site srv clock st)) = Suc (sign_outs st)"
    by (rule process_site_sign_out)
qed


theorem sign_out_after_success_witness:
  "sign_out_calls (snd (main (sample_collaborator sample_config) (sample_args ''ppt'') initial_world)) = 1
   \<and> \<not> signed_in (snd (main (sample_collaborator sample_config) (sample_args ''ppt'') initial_world))
   \<and> sign_outs (snd (process_site
          \<lparr>site_sign_in = None, site_sign_out = None, groups_get = Inr [],
           groups_update = (\<lambda>g. None), users_get = Inl (ServerError ''down''),
           users_update = (\<lambda>u. None), to_csv = None\<rparr>
          (\<lambda>k. 0)
          \<lparr>session_open = False, sign_outs = 0, changed_users = [], changed_groups = []\<rparr>)) = 1"
proof -
  let ?r = "main (sample_collaborator sample_config) (sample_args ''ppt'') initial_world"
  let ?srv = "\<lparr>site_sign_in = None, site_sign_out = None, groups_get = Inr [],
           groups_update = (\<lambda>g. None), users_get = Inl (ServerError ''down''),
           users_update = (\<lambda>u. None), to_csv = None\<rparr>"
  let ?st = "\<lparr>session_open = False, sign_outs = 0, changed_users = [], changed_groups = []\<rparr>"
  note t = sign_out_after_success [of "sample_collaborator sample_config" "sample_args ''ppt''"
      initial_world ?srv "\<lambda>k. 0" ?st]
  have "fst ?r = None"
    by code_simp
  then have h: "?r = (None, snd ?r)"
    by (metis prod.collapse)
  from t [THEN conjunct1, rule_format, OF h]
  have 1: "sign_out_calls (snd ?r) = 1" and 2: "\<not> signed_in (snd ?r)"
    by (simp_all add: initial_world_def)
  have s: "site_sign_in ?srv = None"
    by simp
  from t [THEN conjunct2, THEN conjunct2, rule_format, OF s]
  have 3: "sign_outs (snd (process_site ?srv (\<lambda>k. 0) ?st)) = 1"
    by simp
  from 1 2 3 show ?thesis by (intro conjI)
qed

end
